theory Spec2Isabelle
  imports Main "HOL-Library.Monad_Syntax"
begin

section \<open>Python values and the operations the script applies to them\<close>

text \<open>
  The script handles parsed JSON throughout: what \<open>response.json()\<close> returns is a Python
  value built from \<open>None\<close>, booleans, numbers, strings, lists and dicts. \<open>JNull\<close> is
  Python's \<open>None\<close>, so the \<open>None\<close> that \<open>make_api_request\<close> returns on a failed
  request is the same value as a JSON \<open>null\<close> body. Numbers are integers (JSON floats are
  left out of the model). A dict is an association list in insertion order; a parsed dict
  has no duplicate keys, and lookup takes the first binding.
\<close>

datatype json =
    JNull
  | JBool bool
  | JNum int
  | JStr string
  | JArr "json list"
  | JObj "(string \<times> json) list"

text \<open>The exceptions the script can meet; every one is a subclass of \<open>Exception\<close>.\<close>

datatype py_exn =
    KeyError
  | TypeError
  | AttributeError
  | ValueError
  | OverflowError
  | JSONDecodeError
  | ConnectionError

text \<open>Truth value of a Python object, as \<open>if x\<close> and \<open>not x\<close> test it.\<close>

fun truthy :: "json \<Rightarrow> bool" where
  "truthy JNull = False"
| "truthy (JBool b) = b"
| "truthy (JNum n) = (n \<noteq> 0)"
| "truthy (JStr s) = (s \<noteq> [])"
| "truthy (JArr xs) = (xs \<noteq> [])"
| "truthy (JObj kvs) = (kvs \<noteq> [])"

text \<open>\<open>obj[key]\<close> with a string key: only a dict accepts it, and a missing key raises.\<close>

fun py_getitem :: "json \<Rightarrow> string \<Rightarrow> py_exn + json" where
  "py_getitem (JObj kvs) k = (case map_of kvs k of None \<Rightarrow> Inl KeyError | Some v \<Rightarrow> Inr v)"
| "py_getitem _ k = Inl TypeError"

text \<open>\<open>obj.get(key, default)\<close>: only a dict has the method.\<close>

fun py_get :: "json \<Rightarrow> string \<Rightarrow> json \<Rightarrow> py_exn + json" where
  "py_get (JObj kvs) k dflt = (case map_of kvs k of None \<Rightarrow> Inr dflt | Some v \<Rightarrow> Inr v)"
| "py_get _ k dflt = Inl AttributeError"

text \<open>\<open>len(obj)\<close>.\<close>

fun py_len :: "json \<Rightarrow> py_exn + nat" where
  "py_len (JArr xs) = Inr (length xs)"
| "py_len (JObj kvs) = Inr (length kvs)"
| "py_len (JStr s) = Inr (length s)"
| "py_len _ = Inl TypeError"

text \<open>
  Iteration (\<open>for x in obj\<close>, \<open>list.extend(obj)\<close>): a list yields its elements, a dict
  its keys, a string its characters.
\<close>

fun py_iter :: "json \<Rightarrow> py_exn + json list" where
  "py_iter (JArr xs) = Inr xs"
| "py_iter (JObj kvs) = Inr (map (\<lambda>kv. JStr (fst kv)) kvs)"
| "py_iter (JStr s) = Inr (map (\<lambda>c. JStr [c]) s)"
| "py_iter _ = Inl TypeError"

text \<open>Decimal rendering of an integer, as \<open>str\<close> and an f-string give it.\<close>

definition digit_char :: "int \<Rightarrow> char" where
  "digit_char d = ''0123456789'' ! nat (d mod 10)"

function digits_of :: "int \<Rightarrow> string" where
  "digits_of n = (if n < 10 then [digit_char n] else digits_of (n div 10) @ [digit_char n])"
  by pat_completeness auto
termination
  by (relation "measure nat") auto

definition str_int :: "int \<Rightarrow> string" where
  "str_int i = (if i < 0 then CHR ''-'' # digits_of (- i) else digits_of i)"

fun intercalate :: "string \<Rightarrow> string list \<Rightarrow> string" where
  "intercalate sep [] = []"
| "intercalate sep [x] = x"
| "intercalate sep (x # y # ys) = x @ sep @ intercalate sep (y # ys)"

text \<open>
  \<open>repr\<close> of a value. A string is put between single quotes, or between double quotes
  when it contains a single quote and no double quote; inside it the backslash and the
  enclosing quote are escaped with a backslash, tab, newline and carriage return are
  written as a backslash and the letter \<open>t\<close>, \<open>n\<close> or \<open>r\<close>, and every other character
  that is not printable is written as a backslash, the letter \<open>x\<close> and two hexadecimal
  digits. The characters of the model are the code points below 256.
\<close>

definition repr_quote :: "string \<Rightarrow> char" where
  "repr_quote s = (if CHR 0x27 \<in> set s \<and> CHR 0x22 \<notin> set s then CHR 0x22 else CHR 0x27)"

definition printable :: "char \<Rightarrow> bool" where
  "printable c =
     (let n = (of_char c :: nat) in \<not> (n < 0x20 \<or> (0x7F \<le> n \<and> n \<le> 0xA0) \<or> n = 0xAD))"

definition hex_digit :: "nat \<Rightarrow> char" where
  "hex_digit n = ''0123456789abcdef'' ! (n mod 16)"

definition repr_char :: "char \<Rightarrow> char \<Rightarrow> string" where
  "repr_char q c =
     (if c = q \<or> c = CHR 0x5C then [CHR 0x5C, c]
      else if c = CHR 0x09 then [CHR 0x5C, CHR ''t'']
      else if c = CHR 0x0A then [CHR 0x5C, CHR ''n'']
      else if c = CHR 0x0D then [CHR 0x5C, CHR ''r'']
      else if printable c then [c]
      else [CHR 0x5C, CHR ''x'', hex_digit (of_char c div 16), hex_digit (of_char c)])"

definition repr_str :: "string \<Rightarrow> string" where
  "repr_str s = (let q = repr_quote s in [q] @ concat (map (repr_char q) s) @ [q])"

fun py_repr :: "json \<Rightarrow> string" where
  "py_repr JNull = ''None''"
| "py_repr (JBool b) = (if b then ''True'' else ''False'')"
| "py_repr (JNum n) = str_int n"
| "py_repr (JStr s) = repr_str s"
| "py_repr (JArr xs) = ''['' @ intercalate '', '' (map py_repr xs) @ '']''"
| "py_repr (JObj kvs) =
     ''{'' @ intercalate '', ''
        (map (\<lambda>kv. repr_str (fst kv) @ '': '' @ py_repr (snd kv)) kvs) @ ''}''"

text \<open>What an f-string substitutes for \<open>{x}\<close>: \<open>str(x)\<close>.\<close>

fun py_str :: "json \<Rightarrow> string" where
  "py_str (JStr s) = s"
| "py_str j = py_repr j"

section \<open>The API client\<close>

text \<open>
  \<open>requests.get\<close> either raises (a transport failure) or returns a response with a status
  code and a body; \<open>response.json()\<close> raises when the body is not JSON, which is the body
  \<open>None\<close> here. The remote server is a function of the URL requested. The world the
  script runs in also holds the time zone database that pytz reads: the offset from UTC of
  \<open>America/Los_Angeles\<close>, in seconds, at an instant given in seconds since 1970-01-01 UTC.
\<close>

datatype http_result =
    Raised py_exn
  | Response int "json option"

record world =
  requests_get :: "string \<Rightarrow> http_result"
  los_angeles_utcoffset :: "int \<Rightarrow> int"

definition OCTOPUS_BASE_URL :: string where
  "OCTOPUS_BASE_URL = ''https://octopus.example.com''"

definition SPACE_ID :: string where
  "SPACE_ID = ''Spaces-1''"

definition api_url :: "string \<Rightarrow> string" where
  "api_url endpoint = OCTOPUS_BASE_URL @ ''/api/'' @ SPACE_ID @ ''/'' @ endpoint"

definition make_api_request :: "world \<Rightarrow> string \<Rightarrow> py_exn + json" where
  "make_api_request w endpoint =
     (case requests_get w (api_url endpoint) of
        Raised x \<Rightarrow> Inl x
      | Response status_code body \<Rightarrow>
          if status_code = 200
          then (case body of None \<Rightarrow> Inl JSONDecodeError | Some j \<Rightarrow> Inr j)
          else Inr JNull)"

section \<open>The paginator\<close>

definition take_size :: int where
  "take_size = 30"

definition deployments_endpoint :: "json \<Rightarrow> json \<Rightarrow> int \<Rightarrow> string" where
  "deployments_endpoint project_id environment_id skip =
     ''deployments?projects='' @ py_str project_id @ ''&environments='' @ py_str environment_id
       @ ''&skip='' @ str_int skip @ ''&take='' @ str_int take_size"

text \<open>
  The \<open>while True\<close> loop of \<open>fetch_deployments_with_pagination\<close>, with \<open>skip\<close> and
  \<open>all_items\<close> as its state. \<open>None\<close> is a loop that never ends. The last argument
  collects the endpoints requested so far, one per call of \<open>make_api_request\<close> (each call
  writes its URL to the debug log).
\<close>

partial_function (option) fetch_loop ::
  "world \<Rightarrow> json \<Rightarrow> json \<Rightarrow> int \<Rightarrow> json list \<Rightarrow> string list
     \<Rightarrow> ((py_exn + json list) \<times> string list) option"
where
  "fetch_loop w project_id environment_id skip all_items requested =
     (let endpoint = deployments_endpoint project_id environment_id skip;
          requested' = requested @ [endpoint]
      in case make_api_request w endpoint of
           Inl x \<Rightarrow> Some (Inl x, requested')
         | Inr result \<Rightarrow>
             if \<not> truthy result then Some (Inr all_items, requested')
             else (case py_getitem result ''Items'' of
                     Inl x \<Rightarrow> Some (Inl x, requested')
                   | Inr items \<Rightarrow>
                       if \<not> truthy items then Some (Inr all_items, requested')
                       else (case py_len items of
                               Inl x \<Rightarrow> Some (Inl x, requested')
                             | Inr items_count \<Rightarrow>
                                 (case py_iter items of
                                    Inl x \<Rightarrow> Some (Inl x, requested')
                                  | Inr its \<Rightarrow>
                                      if int items_count < take_size
                                      then Some (Inr (all_items @ its), requested')
                                      else fetch_loop w project_id environment_id (skip + take_size)
                                             (all_items @ its) requested'))))"

definition fetch_deployments_with_pagination ::
  "world \<Rightarrow> json \<Rightarrow> json \<Rightarrow> (py_exn + json list) option" where
  "fetch_deployments_with_pagination w project_id environment_id =
     map_option fst (fetch_loop w project_id environment_id 0 [] [])"

definition pagination_requests :: "world \<Rightarrow> json \<Rightarrow> json \<Rightarrow> string list option" where
  "pagination_requests w project_id environment_id =
     map_option snd (fetch_loop w project_id environment_id 0 [] [])"

section \<open>Timestamps\<close>

text \<open>
  \<open>convert_to_pdt\<close> calls \<open>datetime.strptime\<close> with the format
  \<open>%Y-%m-%dT%H:%M:%S.%f%z\<close>, \<open>astimezone\<close> with pytz's \<open>America/Los_Angeles\<close>, and
  \<open>strftime\<close> with the format \<open>%Y-%m-%d %H:%M:%S PDT\<close>. The library functions are
  modelled on CPython's: each directive of the input format is the regular expression that
  \<open>_strptime\<close> compiles for it, over ASCII digits, alternatives tried in its order.
\<close>

definition is_digit :: "char \<Rightarrow> bool" where
  "is_digit c = (c \<in> set ''0123456789'')"

definition digit_val :: "char \<Rightarrow> int" where
  "digit_val c = of_char c - 48"

definition int_of_digits :: "string \<Rightarrow> int" where
  "int_of_digits ds = foldl (\<lambda>a c. 10 * a + digit_val c) 0 ds"

definition two_digits :: "(int \<Rightarrow> int \<Rightarrow> bool) \<Rightarrow> string \<Rightarrow> (int \<times> string) option" where
  "two_digits ok s =
     (case s of
        c1 # c2 # rest \<Rightarrow>
          if is_digit c1 \<and> is_digit c2 \<and> ok (digit_val c1) (digit_val c2)
          then Some (10 * digit_val c1 + digit_val c2, rest) else None
      | _ \<Rightarrow> None)"

definition one_digit :: "(int \<Rightarrow> bool) \<Rightarrow> string \<Rightarrow> (int \<times> string) option" where
  "one_digit ok s =
     (case s of
        c # rest \<Rightarrow> if is_digit c \<and> ok (digit_val c) then Some (digit_val c, rest) else None
      | [] \<Rightarrow> None)"

definition or_else :: "'a option \<Rightarrow> 'a option \<Rightarrow> 'a option" where
  "or_else a b = (case a of None \<Rightarrow> b | Some x \<Rightarrow> Some x)"

definition literal :: "char \<Rightarrow> string \<Rightarrow> string option" where
  "literal c s = (case s of x # rest \<Rightarrow> if x = c then Some rest else None | [] \<Rightarrow> None)"

text \<open>\<open>%Y\<close> is \<open>\d\d\d\d\<close>.\<close>

definition directive_Y :: "string \<Rightarrow> (int \<times> string) option" where
  "directive_Y s =
     (if 4 \<le> length s \<and> list_all is_digit (take 4 s)
      then Some (int_of_digits (take 4 s), drop 4 s) else None)"

text \<open>\<open>%m\<close> is \<open>1[0-2]|0[1-9]|[1-9]\<close>.\<close>

definition directive_m :: "string \<Rightarrow> (int \<times> string) option" where
  "directive_m s =
     or_else (two_digits (\<lambda>a b. (a = 1 \<and> b \<le> 2) \<or> (a = 0 \<and> 1 \<le> b)) s)
             (one_digit (\<lambda>a. 1 \<le> a) s)"

text \<open>\<open>%d\<close> is \<open>3[0-1]|[1-2]\d|0[1-9]|[1-9]| [1-9]\<close>.\<close>

definition directive_d :: "string \<Rightarrow> (int \<times> string) option" where
  "directive_d s =
     or_else (two_digits (\<lambda>a b. (a = 3 \<and> b \<le> 1) \<or> (1 \<le> a \<and> a \<le> 2) \<or> (a = 0 \<and> 1 \<le> b)) s)
       (or_else (one_digit (\<lambda>a. 1 \<le> a) s)
          (case literal CHR '' '' s of None \<Rightarrow> None | Some s' \<Rightarrow> one_digit (\<lambda>a. 1 \<le> a) s'))"

text \<open>\<open>%H\<close> is \<open>2[0-3]|[0-1]\d|\d\<close>.\<close>

definition directive_H :: "string \<Rightarrow> (int \<times> string) option" where
  "directive_H s =
     or_else (two_digits (\<lambda>a b. (a = 2 \<and> b \<le> 3) \<or> a \<le> 1) s) (one_digit (\<lambda>a. True) s)"

text \<open>\<open>%M\<close> is \<open>[0-5]\d|\d\<close>.\<close>

definition directive_M :: "string \<Rightarrow> (int \<times> string) option" where
  "directive_M s = or_else (two_digits (\<lambda>a b. a \<le> 5) s) (one_digit (\<lambda>a. True) s)"

text \<open>\<open>%S\<close> is \<open>6[0-1]|[0-5]\d|\d\<close>.\<close>

definition directive_S :: "string \<Rightarrow> (int \<times> string) option" where
  "directive_S s =
     or_else (two_digits (\<lambda>a b. (a = 6 \<and> b \<le> 1) \<or> a \<le> 5) s) (one_digit (\<lambda>a. True) s)"

text \<open>
  \<open>%f\<close> is \<open>[0-9]{1,6}\<close>, greedy; its value is that of the digits padded with zeros on the
  right to six places, in microseconds.
\<close>

definition fraction :: "string \<Rightarrow> (string \<times> string) option" where
  "fraction s =
     (let ds = takeWhile is_digit (take 6 s)
      in if ds = [] then None else Some (ds, drop (length ds) s))"

definition micros :: "string \<Rightarrow> int" where
  "micros ds = int_of_digits (ds @ replicate (6 - length ds) CHR ''0'')"

definition directive_f :: "string \<Rightarrow> (int \<times> string) option" where
  "directive_f s = map_option (\<lambda>(ds, rest). (micros ds, rest)) (fraction s)"

text \<open>
  \<open>%z\<close> is \<open>[+-]\d\d:?[0-5]\d(:?[0-5]\d(\.\d{1,6})?)?|Z\<close>. \<open>ZOffset neg hh colon mm secs\<close>
  keeps what was matched: the sign, the hours, whether a colon followed them, the minutes,
  and for the optional seconds group whether a colon preceded it, the seconds and the
  digits of the fraction.
\<close>

datatype z_match =
    ZLetter
  | ZOffset bool int bool int "(bool \<times> int \<times> string) option"

definition optional_colon :: "string \<Rightarrow> bool \<times> string" where
  "optional_colon s = (case literal CHR '':'' s of None \<Rightarrow> (False, s) | Some s' \<Rightarrow> (True, s'))"

definition seconds_group :: "string \<Rightarrow> ((bool \<times> int \<times> string) option) \<times> string" where
  "seconds_group s =
     (let (colon, s1) = optional_colon s
      in case two_digits (\<lambda>a b. a \<le> 5) s1 of
           None \<Rightarrow> (None, s)
         | Some (ss, s2) \<Rightarrow>
             (case literal CHR ''.'' s2 of
                None \<Rightarrow> (Some (colon, ss, []), s2)
              | Some s3 \<Rightarrow>
                  (case fraction s3 of
                     None \<Rightarrow> (Some (colon, ss, []), s2)
                   | Some (ds, s4) \<Rightarrow> (Some (colon, ss, ds), s4))))"

definition directive_z :: "string \<Rightarrow> (z_match \<times> string) option" where
  "directive_z s =
     (case s of
        [] \<Rightarrow> None
      | c # s0 \<Rightarrow>
          or_else
            (if c = CHR ''+'' \<or> c = CHR ''-'' then
               (case two_digits (\<lambda>a b. True) s0 of
                  None \<Rightarrow> None
                | Some (hh, s1) \<Rightarrow>
                    (let (colon, s2) = optional_colon s1
                     in case two_digits (\<lambda>a b. a \<le> 5) s2 of
                          None \<Rightarrow> None
                        | Some (mm, s3) \<Rightarrow>
                            (let (secs, s4) = seconds_group s3
                             in Some (ZOffset (c = CHR ''-'') hh colon mm secs, s4))))
             else None)
            (if c = CHR ''Z'' then Some (ZLetter, s0) else None))"

text \<open>
  The offset in microseconds that \<open>_strptime\<close> computes from the match. It strips the
  colons by position, so an offset that has a colon in one place and not in the other
  fails (with "Inconsistent use of :", or in \<open>int\<close>): a \<open>ValueError\<close> both ways.
\<close>

definition gmtoff :: "z_match \<Rightarrow> py_exn + int" where
  "gmtoff z =
     (case z of
        ZLetter \<Rightarrow> Inr 0
      | ZOffset neg hh colon mm secs \<Rightarrow>
          (case secs of
             None \<Rightarrow>
               Inr ((if neg then - 1 else 1) * ((hh * 3600 + mm * 60) * 1000000))
           | Some (colon', ss, ds) \<Rightarrow>
               if colon' \<noteq> colon then Inl ValueError
               else Inr ((if neg then - 1 else 1)
                         * ((hh * 3600 + mm * 60 + ss) * 1000000 + micros ds))))"

text \<open>The regular expression of the whole format, matched against the whole string.\<close>

definition strptime_match ::
  "string \<Rightarrow> (int \<times> int \<times> int \<times> int \<times> int \<times> int \<times> int \<times> z_match) option" where
  "strptime_match s0 =
     do {
       (Y, s1) \<leftarrow> directive_Y s0;
       s2 \<leftarrow> literal CHR ''-'' s1;
       (m, s3) \<leftarrow> directive_m s2;
       s4 \<leftarrow> literal CHR ''-'' s3;
       (d, s5) \<leftarrow> directive_d s4;
       s6 \<leftarrow> or_else (literal CHR ''T'' s5) (literal CHR ''t'' s5);
       (H, s7) \<leftarrow> directive_H s6;
       s8 \<leftarrow> literal CHR '':'' s7;
       (M, s9) \<leftarrow> directive_M s8;
       s10 \<leftarrow> literal CHR '':'' s9;
       (S, s11) \<leftarrow> directive_S s10;
       s12 \<leftarrow> literal CHR ''.'' s11;
       (f, s13) \<leftarrow> directive_f s12;
       (z, s14) \<leftarrow> directive_z s13;
       if s14 = [] then Some (Y, m, d, H, M, S, f, z) else None
     }"

text \<open>Days of the proleptic Gregorian calendar, counted from 1970-01-01.\<close>

definition is_leap :: "int \<Rightarrow> bool" where
  "is_leap y = (y mod 4 = 0 \<and> (y mod 100 \<noteq> 0 \<or> y mod 400 = 0))"

definition days_in_month :: "int \<Rightarrow> int \<Rightarrow> int" where
  "days_in_month y m =
     (if m = 2 then (if is_leap y then 29 else 28)
      else if m = 4 \<or> m = 6 \<or> m = 9 \<or> m = 11 then 30 else 31)"

definition days_from_civil :: "int \<Rightarrow> int \<Rightarrow> int \<Rightarrow> int" where
  "days_from_civil y m d =
     (let y' = (if m \<le> 2 then y - 1 else y);
          era = y' div 400;
          yoe = y' - era * 400;
          doy = (153 * (if m > 2 then m - 3 else m + 9) + 2) div 5 + d - 1;
          doe = yoe * 365 + yoe div 4 - yoe div 100 + doy
      in era * 146097 + doe - 719468)"

definition civil_from_days :: "int \<Rightarrow> int \<times> int \<times> int" where
  "civil_from_days z =
     (let z' = z + 719468;
          era = z' div 146097;
          doe = z' - era * 146097;
          yoe = (doe - doe div 1460 + doe div 36524 - doe div 146096) div 365;
          doy = doe - (365 * yoe + yoe div 4 - yoe div 100);
          mp = (5 * doy + 2) div 153;
          d = doy - (153 * mp + 2) div 5 + 1;
          m = (if mp < 10 then mp + 3 else mp - 9);
          y = yoe + era * 400
      in (if m \<le> 2 then y + 1 else y, m, d))"

text \<open>
  An aware \<open>datetime\<close>: microseconds since 1970-01-01T00:00:00 UTC together with the
  offset of its zone in microseconds. \<open>datetime\<close> holds the years 1 to 9999.
\<close>

record py_datetime =
  utc_micros :: int
  utcoffset_micros :: int

definition min_micros :: int where
  "min_micros = days_from_civil 1 1 1 * 86400000000"

definition max_micros :: int where
  "max_micros = (days_from_civil 9999 12 31 + 1) * 86400000000 - 1"

definition in_range :: "int \<Rightarrow> bool" where
  "in_range t = (min_micros \<le> t \<and> t \<le> max_micros)"

text \<open>
  \<open>datetime.strptime(utc_time, '%Y-%m-%dT%H:%M:%S.%f%z')\<close>. A string that does not match
  the format, a date that does not exist, a second above 59 and an offset of a day or more
  raise \<open>ValueError\<close>.
\<close>

definition strptime :: "string \<Rightarrow> py_exn + py_datetime" where
  "strptime s =
     (case strptime_match s of
        None \<Rightarrow> Inl ValueError
      | Some (Y, m, d, H, M, S, f, z) \<Rightarrow>
          (case gmtoff z of
             Inl x \<Rightarrow> Inl x
           | Inr off \<Rightarrow>
               if Y < 1 \<or> d > days_in_month Y m \<or> 59 < S
                  \<or> \<not> (- 86400000000 < off \<and> off < 86400000000)
               then Inl ValueError
               else Inr \<lparr>utc_micros =
                           (days_from_civil Y m d * 86400 + H * 3600 + M * 60 + S) * 1000000
                             + f - off,
                         utcoffset_micros = off\<rparr>))"

text \<open>
  \<open>utc_datetime.astimezone(pdt_zone)\<close>: the same instant in the zone. Both the subtraction
  of the old offset and the addition of the new one raise \<open>OverflowError\<close> outside the
  years that \<open>datetime\<close> holds. The zone's offset comes from the time zone database.
\<close>

definition astimezone :: "world \<Rightarrow> py_datetime \<Rightarrow> py_exn + py_datetime" where
  "astimezone w dt =
     (if \<not> in_range (utc_micros dt) then Inl OverflowError
      else let off = los_angeles_utcoffset w (utc_micros dt div 1000000) * 1000000
           in if \<not> in_range (utc_micros dt + off) then Inl OverflowError
              else Inr \<lparr>utc_micros = utc_micros dt, utcoffset_micros = off\<rparr>)"

definition zero_pad :: "nat \<Rightarrow> string \<Rightarrow> string" where
  "zero_pad n s = replicate (n - length s) CHR ''0'' @ s"

text \<open>
  \<open>strftime('%Y-%m-%d %H:%M:%S PDT')\<close>: the fields of the local time, and the literal
  text \<open>PDT\<close> of the format string. The C library writes \<open>%Y\<close> as the decimal number of
  the year, without padding; the other fields have two digits.
\<close>

definition strftime_pdt :: "py_datetime \<Rightarrow> string" where
  "strftime_pdt dt =
     (let secs = (utc_micros dt + utcoffset_micros dt) div 1000000;
          (y, m, d) = civil_from_days (secs div 86400);
          sod = secs mod 86400
      in str_int y @ ''-'' @ zero_pad 2 (str_int m) @ ''-'' @ zero_pad 2 (str_int d)
         @ '' '' @ zero_pad 2 (str_int (sod div 3600)) @ '':''
         @ zero_pad 2 (str_int (sod mod 3600 div 60)) @ '':''
         @ zero_pad 2 (str_int (sod mod 60)) @ '' PDT'')"

text \<open>Sequencing of steps that may raise: the first exception ends the computation.\<close>

definition bind_exn :: "py_exn + 'a \<Rightarrow> ('a \<Rightarrow> py_exn + 'b) \<Rightarrow> py_exn + 'b" where
  "bind_exn r f = (case r of Inl x \<Rightarrow> Inl x | Inr v \<Rightarrow> f v)"

text \<open>\<open>strptime\<close> raises \<open>TypeError\<close> when its argument is not a string.\<close>

definition convert_to_pdt :: "world \<Rightarrow> json \<Rightarrow> py_exn + string" where
  "convert_to_pdt w utc_time =
     (case utc_time of
        JStr s \<Rightarrow>
          bind_exn (strptime s) (\<lambda>utc_datetime.
          bind_exn (astimezone w utc_datetime) (\<lambda>pdt_datetime.
          Inr (strftime_pdt pdt_datetime)))
      | _ \<Rightarrow> Inl TypeError)"

section \<open>The deployment resolver\<close>

text \<open>
  The dict that \<open>process_deployment\<close> builds. A field of type \<open>option\<close> is a key that is
  set only on some paths: \<open>failed\<close> (only ever to \<open>True\<close>), the two last-successful keys,
  and \<open>name\<close>, which the aggregator adds.
\<close>

record environment_report =
  version :: json
  release_notes :: json
  deployment_date :: string
  failed :: "bool option"
  last_successful_version :: "json option"
  last_successful_date :: "string option"
  env_name :: "json option"

text \<open>
  The body of the loop \<open>for deployment in deployments[1:]\<close> once a deployment's task is
  found successful: its release is fetched and the two values are computed. Subscripting
  the \<open>None\<close> of a failed fetch raises \<open>TypeError\<close>.
\<close>

definition last_successful_of :: "world \<Rightarrow> json \<Rightarrow> py_exn + (json \<times> string)" where
  "last_successful_of w deployment =
     bind_exn (py_getitem deployment ''ReleaseId'') (\<lambda>release_id.
     bind_exn (make_api_request w (''releases/'' @ py_str release_id)) (\<lambda>success_release.
     bind_exn (py_getitem success_release ''Version'') (\<lambda>v.
     bind_exn (py_getitem deployment ''Created'') (\<lambda>created.
     bind_exn (convert_to_pdt w created) (\<lambda>date.
     Inr (v, date))))))"

text \<open>
  The loop itself, over the deployments after the first: \<open>Inr None\<close> when it runs to the
  end without a match, \<open>Inr (Some (version, date))\<close> at the \<open>break\<close>.
\<close>

fun find_last_successful :: "world \<Rightarrow> json list \<Rightarrow> py_exn + (json \<times> string) option" where
  "find_last_successful w [] = Inr None"
| "find_last_successful w (deployment # rest) =
     bind_exn (py_getitem deployment ''TaskId'') (\<lambda>task_id.
     bind_exn (make_api_request w (''tasks/'' @ py_str task_id)) (\<lambda>task.
     if truthy task then
       bind_exn (py_get task ''State'' (JStr ''Unknown'')) (\<lambda>state.
       if state = JStr ''Success''
       then bind_exn (last_successful_of w deployment) (\<lambda>found. Inr (Some found))
       else find_last_successful w rest)
     else find_last_successful w rest))"

text \<open>
  The \<open>try\<close> block of \<open>process_deployment\<close> after the paginator has returned
  \<open>deployments\<close>: \<open>Inr None\<close> is \<open>return None\<close>, \<open>Inr (Some (environment_id, output))\<close>
  the final \<open>return\<close>, \<open>Inl\<close> an exception raised inside the block.
\<close>

definition resolve_deployments ::
  "world \<Rightarrow> json \<Rightarrow> json list \<Rightarrow> py_exn + (json \<times> environment_report) option" where
  "resolve_deployments w environment_id deployments =
     (case deployments of
        [] \<Rightarrow> Inr None
      | latest_deployment # older \<Rightarrow>
          bind_exn (py_getitem latest_deployment ''ReleaseId'') (\<lambda>release_id.
          bind_exn (make_api_request w (''releases/'' @ py_str release_id)) (\<lambda>release.
          bind_exn (py_getitem latest_deployment ''TaskId'') (\<lambda>task_id.
          bind_exn (make_api_request w (''tasks/'' @ py_str task_id)) (\<lambda>task.
          if \<not> truthy release \<or> \<not> truthy task then Inr None
          else
            bind_exn (py_get task ''State'' (JStr ''Unknown'')) (\<lambda>state.
            bind_exn (py_getitem release ''Version'') (\<lambda>v.
            bind_exn (py_get release ''ReleaseNotes'' JNull) (\<lambda>notes.
            bind_exn (py_getitem latest_deployment ''Created'') (\<lambda>created.
            bind_exn (convert_to_pdt w created) (\<lambda>date.
            let output = \<lparr>version = v, release_notes = notes, deployment_date = date,
                           failed = None, last_successful_version = None,
                           last_successful_date = None, env_name = None\<rparr>
            in if state = JStr ''Failed'' then
                 bind_exn (find_last_successful w older) (\<lambda>found.
                 Inr (Some (environment_id,
                   (case found of
                      None \<Rightarrow> output\<lparr>failed := Some True\<rparr>
                    | Some (sv, sd) \<Rightarrow>
                        output\<lparr>failed := Some True, last_successful_version := Some sv,
                               last_successful_date := Some sd\<rparr>))))
               else Inr (Some (environment_id, output))))))))))))"

text \<open>
  The whole \<open>try\<close> block, and the function with its \<open>except Exception\<close>, which turns
  every exception into \<open>return None\<close>. The outer \<open>option\<close> is \<open>None\<close> when the paginator
  does not return.
\<close>

definition process_deployment_body ::
  "world \<Rightarrow> json \<Rightarrow> json \<Rightarrow> (py_exn + (json \<times> environment_report) option) option" where
  "process_deployment_body w project_id environment_id =
     map_option (\<lambda>r. bind_exn r (resolve_deployments w environment_id))
       (fetch_deployments_with_pagination w project_id environment_id)"

definition process_deployment ::
  "world \<Rightarrow> json \<Rightarrow> json \<Rightarrow> (json \<times> environment_report) option option" where
  "process_deployment w project_id environment_id =
     map_option (\<lambda>r. case r of Inl x \<Rightarrow> None | Inr res \<Rightarrow> res)
       (process_deployment_body w project_id environment_id)"

text \<open>
  Vocabulary for statements about the resolver. The state of a deployment's task as the
  resolver reads it: the task is fetched and its \<open>State\<close> is read with the default
  \<open>Unknown\<close>; a fetch that returned nothing has no state. A deployment counts as successful
  for the scan when that state is \<open>Success\<close>.
\<close>

definition fetch_task :: "world \<Rightarrow> json \<Rightarrow> py_exn + json" where
  "fetch_task w deployment =
     bind_exn (py_getitem deployment ''TaskId'') (\<lambda>task_id.
     make_api_request w (''tasks/'' @ py_str task_id))"

definition fetch_release :: "world \<Rightarrow> json \<Rightarrow> py_exn + json" where
  "fetch_release w deployment =
     bind_exn (py_getitem deployment ''ReleaseId'') (\<lambda>release_id.
     make_api_request w (''releases/'' @ py_str release_id))"

definition task_state :: "world \<Rightarrow> json \<Rightarrow> json option" where
  "task_state w deployment =
     (case fetch_task w deployment of
        Inl x \<Rightarrow> None
      | Inr task \<Rightarrow>
          if truthy task
          then (case py_get task ''State'' (JStr ''Unknown'') of Inl x \<Rightarrow> None | Inr s \<Rightarrow> Some s)
          else None)"

definition is_successful :: "world \<Rightarrow> json \<Rightarrow> bool" where
  "is_successful w deployment = (task_state w deployment = Some (JStr ''Success''))"

text \<open>
  The dict \<open>output\<close> as first built from the latest deployment and its release, and the
  same dict after the branch \<open>if failed\<close>, given what the scan found.
\<close>

definition latest_output :: "world \<Rightarrow> json \<Rightarrow> json \<Rightarrow> py_exn + environment_report" where
  "latest_output w latest_deployment release =
     bind_exn (py_getitem release ''Version'') (\<lambda>v.
     bind_exn (py_get release ''ReleaseNotes'' JNull) (\<lambda>notes.
     bind_exn (py_getitem latest_deployment ''Created'') (\<lambda>created.
     bind_exn (convert_to_pdt w created) (\<lambda>date.
     Inr \<lparr>version = v, release_notes = notes, deployment_date = date,
          failed = None, last_successful_version = None,
          last_successful_date = None, env_name = None\<rparr>))))"

definition mark_failed :: "environment_report \<Rightarrow> (json \<times> string) option \<Rightarrow> environment_report" where
  "mark_failed output found =
     output\<lparr>failed := Some True, last_successful_version := map_option fst found,
            last_successful_date := map_option snd found\<rparr>"

text \<open>
  A deployment on which the scan raises: its task cannot be fetched, or the task is a
  non-empty value that is not a dict.
\<close>

definition scan_raises :: "world \<Rightarrow> json \<Rightarrow> bool" where
  "scan_raises w deployment =
     (case fetch_task w deployment of
        Inl x \<Rightarrow> True
      | Inr task \<Rightarrow> truthy task \<and> isl (py_get task ''State'' (JStr ''Unknown'')))"

text \<open>
  Vocabulary for the scan over the older deployments. A deployment gives last-successful
  values when its release is fetched and has a \<open>Version\<close> and its \<open>Created\<close> is a
  timestamp that the conversion accepts. The scan completes on a history when no task
  lookup raises on the deployments up to the first successful one, and that one, if there
  is one, gives its values; what follows it is not looked at.
\<close>

definition has_success_values :: "world \<Rightarrow> json \<Rightarrow> bool" where
  "has_success_values w deployment =
     (case fetch_release w deployment of
        Inl x \<Rightarrow> False
      | Inr success_release \<Rightarrow>
          \<not> isl (py_getitem success_release ''Version'')
          \<and> (case py_getitem deployment ''Created'' of
                Inl x \<Rightarrow> False
              | Inr created \<Rightarrow> \<not> isl (convert_to_pdt w created)))"

fun scan_completes :: "world \<Rightarrow> json list \<Rightarrow> bool" where
  "scan_completes w [] = True"
| "scan_completes w (deployment # rest) =
     (\<not> scan_raises w deployment
      \<and> (if is_successful w deployment then has_success_values w deployment
          else scan_completes w rest))"

section \<open>The aggregator\<close>

text \<open>
  Python dicts keyed by values taken from the responses. A list or a dict is not hashable;
  \<open>True\<close> and \<open>False\<close> are the same keys as \<open>1\<close> and \<open>0\<close>. \<open>dict_set\<close> is \<open>d[k] = v\<close>: a
  key already present keeps its place. \<open>dict_get\<close> is the lookup of a
  \<open>defaultdict(list)\<close>.
\<close>

definition dict_key :: "json \<Rightarrow> py_exn + json" where
  "dict_key k =
     (case k of
        JArr xs \<Rightarrow> Inl TypeError
      | JObj kvs \<Rightarrow> Inl TypeError
      | JBool b \<Rightarrow> Inr (JNum (if b then 1 else 0))
      | _ \<Rightarrow> Inr k)"

fun dict_set :: "(json \<times> 'v) list \<Rightarrow> json \<Rightarrow> 'v \<Rightarrow> (json \<times> 'v) list" where
  "dict_set [] k v = [(k, v)]"
| "dict_set ((k', v') # d) k v =
     (if k' = k then (k', v) # d else (k', v') # dict_set d k v)"

definition dict_get :: "(json \<times> 'v list) list \<Rightarrow> json \<Rightarrow> 'v list" where
  "dict_get d k = (case map_of d k of None \<Rightarrow> [] | Some vs \<Rightarrow> vs)"

text \<open>
  The three \<open>fetch_all_...\<close> functions: the length is taken for the log line when the
  response is not empty, and \<open>[]\<close> replaces an empty response.
\<close>

definition fetch_all_projects :: "world \<Rightarrow> py_exn + json" where
  "fetch_all_projects w =
     bind_exn (make_api_request w ''projects/all'') (\<lambda>projects.
     bind_exn (if truthy projects then py_len projects else Inr 0) (\<lambda>count.
     Inr (if truthy projects then projects else JArr [])))"

definition fetch_all_project_groups :: "world \<Rightarrow> py_exn + json" where
  "fetch_all_project_groups w =
     bind_exn (make_api_request w ''projectgroups/all'') (\<lambda>groups.
     bind_exn (if truthy groups then py_len groups else Inr 0) (\<lambda>count.
     Inr (if truthy groups then groups else JArr [])))"

definition fetch_all_environments :: "world \<Rightarrow> py_exn + json" where
  "fetch_all_environments w =
     bind_exn (make_api_request w ''environments/all'') (\<lambda>environments.
     bind_exn (if truthy environments then py_len environments else Inr 0) (\<lambda>count.
     Inr (if truthy environments then environments else JArr [])))"

definition fetch_project_details :: "world \<Rightarrow> json \<Rightarrow> py_exn + json" where
  "fetch_project_details w project_id = make_api_request w (''projects/'' @ py_str project_id)"

text \<open>The loop that fills \<open>projects_by_group\<close>.\<close>

fun group_projects ::
  "json list \<Rightarrow> (json \<times> json list) list \<Rightarrow> py_exn + (json \<times> json list) list" where
  "group_projects [] projects_by_group = Inr projects_by_group"
| "group_projects (project # rest) projects_by_group =
     bind_exn (py_getitem project ''ProjectGroupId'') (\<lambda>gid.
     bind_exn (dict_key gid) (\<lambda>k.
     group_projects rest
       (dict_set projects_by_group k (dict_get projects_by_group k @ [project]))))"

text \<open>
  The dicts of the report: \<open>project_data\<close> with its keys \<open>id\<close>, \<open>name\<close>, \<open>git_url\<close> and
  \<open>environments\<close>, and \<open>group_data\<close> with \<open>id\<close>, \<open>name\<close> and \<open>projects\<close>.
\<close>

record project_data =
  pd_id :: json
  pd_name :: json
  pd_git_url :: json
  pd_environments :: "environment_report list"

record group_data =
  gd_id :: json
  gd_name :: json
  gd_projects :: "project_data list"

text \<open>
  Steps that may raise or never return: \<open>None\<close> is a run that does not end, \<open>Some (Inl x)\<close>
  an exception that leaves \<open>fetch_all_deployment_data\<close>.
\<close>

definition bind_run ::
  "(py_exn + 'a) option \<Rightarrow> ('a \<Rightarrow> (py_exn + 'b) option) \<Rightarrow> (py_exn + 'b) option" where
  "bind_run r f =
     (case r of None \<Rightarrow> None | Some (Inl x) \<Rightarrow> Some (Inl x) | Some (Inr v) \<Rightarrow> f v)"

text \<open>
  The dict comprehension that submits one call of \<open>process_deployment\<close> per environment.
  Each future is kept with its environment; its result is what the call returns. A missing
  \<open>Id\<close> raises out of the comprehension; leaving the \<open>with\<close> block then waits for the
  futures already submitted, so a call submitted earlier that never returns hangs the run.
\<close>

fun submit_all ::
  "world \<Rightarrow> json \<Rightarrow> json list
     \<Rightarrow> (py_exn + (json \<times> (json \<times> environment_report) option) list) option" where
  "submit_all w project_id [] = Some (Inr [])"
| "submit_all w project_id (env # rest) =
     bind_run (Some (py_getitem env ''Id'')) (\<lambda>env_id.
     (case process_deployment w project_id env_id of
        None \<Rightarrow> None
      | Some result \<Rightarrow>
          bind_run (submit_all w project_id rest) (\<lambda>futures.
          Some (Inr ((env, result) # futures)))))"

text \<open>
  \<open>as_completed\<close> yields the futures in the order in which they finish, which the
  scheduler decides: \<open>order\<close> lists their positions in that order.
\<close>

definition as_completed :: "nat list \<Rightarrow> 'a list \<Rightarrow> 'a list" where
  "as_completed order futures = map (\<lambda>i. futures ! i) (filter (\<lambda>i. i < length futures) order)"

text \<open>
  The loop over the completed futures. \<open>process_deployment\<close> does not raise, so the
  \<open>except\<close> clause is reached only from the two assignments: a missing \<open>Name\<close> raises
  again in the handler's log line and leaves the function, an unhashable id is logged and
  the entry is left out.
\<close>

fun collect_env_data ::
  "(json \<times> (json \<times> environment_report) option) list \<Rightarrow> (json \<times> environment_report) list
     \<Rightarrow> py_exn + (json \<times> environment_report) list" where
  "collect_env_data [] env_data = Inr env_data"
| "collect_env_data ((env, result) # rest) env_data =
     (case result of
        None \<Rightarrow> collect_env_data rest env_data
      | Some (env_id, data) \<Rightarrow>
          bind_exn (py_getitem env ''Name'') (\<lambda>name.
          (case dict_key env_id of
             Inl x \<Rightarrow> collect_env_data rest env_data
           | Inr k \<Rightarrow> collect_env_data rest (dict_set env_data k (data\<lparr>env_name := Some name\<rparr>)))))"

definition project_env_data ::
  "world \<Rightarrow> nat list \<Rightarrow> json \<Rightarrow> json \<Rightarrow> (py_exn + (json \<times> environment_report) list) option" where
  "project_env_data w order environments project_id =
     bind_run (Some (py_iter environments)) (\<lambda>envs.
     bind_run (submit_all w project_id envs) (\<lambda>futures.
     Some (collect_env_data (as_completed order futures) [])))"

definition git_url_of :: "json \<Rightarrow> py_exn + json" where
  "git_url_of project_details =
     (if truthy project_details
      then bind_exn (py_get project_details ''PersistenceSettings'' (JObj [])) (\<lambda>settings.
           py_get settings ''Url'' JNull)
      else Inr JNull)"

text \<open>The body of \<open>for project in group_projects\<close>.\<close>

definition process_project ::
  "world \<Rightarrow> nat list \<Rightarrow> json \<Rightarrow> json \<Rightarrow> (py_exn + project_data) option" where
  "process_project w order environments project =
     bind_run (Some (py_getitem project ''Name'')) (\<lambda>name.
     bind_run (Some (py_getitem project ''Id'')) (\<lambda>pid.
     bind_run (Some (fetch_project_details w pid)) (\<lambda>project_details.
     bind_run (Some (git_url_of project_details)) (\<lambda>url.
     bind_run (project_env_data w order environments pid) (\<lambda>env_data.
     Some (Inr \<lparr>pd_id = pid, pd_name = name, pd_git_url = url,
                pd_environments = map snd env_data\<rparr>))))))"

fun process_projects ::
  "world \<Rightarrow> (nat \<Rightarrow> nat list) \<Rightarrow> json \<Rightarrow> nat \<Rightarrow> json list
     \<Rightarrow> (py_exn + project_data list) option" where
  "process_projects w sched environments i [] = Some (Inr [])"
| "process_projects w sched environments i (project # rest) =
     bind_run (process_project w (sched i) environments project) (\<lambda>pd.
     bind_run (process_projects w sched environments (Suc i) rest) (\<lambda>pds.
     Some (Inr (pd # pds))))"

text \<open>The body of \<open>for group in project_groups\<close>, and the loop.\<close>

definition process_group ::
  "world \<Rightarrow> (nat \<Rightarrow> nat list) \<Rightarrow> json \<Rightarrow> (json \<times> json list) list \<Rightarrow> json
     \<Rightarrow> (py_exn + group_data) option" where
  "process_group w sched environments projects_by_group grp =
     bind_run (Some (py_getitem grp ''Name'')) (\<lambda>name.
     bind_run (Some (py_getitem grp ''Id'')) (\<lambda>gid.
     bind_run (Some (dict_key gid)) (\<lambda>k.
     bind_run (process_projects w sched environments 0 (dict_get projects_by_group k)) (\<lambda>pds.
     Some (Inr \<lparr>gd_id = gid, gd_name = name, gd_projects = pds\<rparr>)))))"

fun process_groups ::
  "world \<Rightarrow> (nat \<Rightarrow> nat \<Rightarrow> nat list) \<Rightarrow> json \<Rightarrow> (json \<times> json list) list \<Rightarrow> nat \<Rightarrow> json list
     \<Rightarrow> (py_exn + group_data list) option" where
  "process_groups w sched environments projects_by_group i [] = Some (Inr [])"
| "process_groups w sched environments projects_by_group i (grp # rest) =
     bind_run (process_group w (sched i) environments projects_by_group grp) (\<lambda>gd.
     bind_run (process_groups w sched environments projects_by_group (Suc i) rest) (\<lambda>gds.
     Some (Inr (gd # gds))))"

text \<open>
  \<open>sched g p\<close> is the completion order of the futures of the \<open>p\<close>-th project of the
  \<open>g\<close>-th group.
\<close>

definition fetch_all_deployment_data ::
  "world \<Rightarrow> (nat \<Rightarrow> nat \<Rightarrow> nat list) \<Rightarrow> (py_exn + group_data list) option" where
  "fetch_all_deployment_data w sched =
     bind_run (Some (fetch_all_projects w)) (\<lambda>projects.
     bind_run (Some (fetch_all_project_groups w)) (\<lambda>project_groups.
     bind_run (Some (fetch_all_environments w)) (\<lambda>environments.
     bind_run (Some (bind_exn (py_iter projects) (\<lambda>ps. group_projects ps []))) (\<lambda>projects_by_group.
     bind_run (Some (py_iter project_groups)) (\<lambda>groups.
     process_groups w sched environments projects_by_group 0 groups)))))"

text \<open>
  Vocabulary for statements about the aggregator: the dict key of a field of a record, and
  a project belonging to a group, which is its \<open>ProjectGroupId\<close> being the same key as the
  group's \<open>Id\<close>.
\<close>

definition key_of :: "json \<Rightarrow> string \<Rightarrow> py_exn + json" where
  "key_of obj field = bind_exn (py_getitem obj field) dict_key"

definition belongs_to :: "json \<Rightarrow> json \<Rightarrow> bool" where
  "belongs_to grp project =
     (case (key_of grp ''Id'', key_of project ''ProjectGroupId'') of
        (Inr a, Inr b) \<Rightarrow> a = b
      | _ \<Rightarrow> False)"

definition describes_project :: "project_data \<Rightarrow> json \<Rightarrow> bool" where
  "describes_project pd project =
     (py_getitem project ''Id'' = Inr (pd_id pd)
      \<and> py_getitem project ''Name'' = Inr (pd_name pd))"

definition describes_group :: "json list \<Rightarrow> group_data \<Rightarrow> json \<Rightarrow> bool" where
  "describes_group all_projects gd grp =
     (py_getitem grp ''Id'' = Inr (gd_id gd)
      \<and> py_getitem grp ''Name'' = Inr (gd_name gd)
      \<and> list_all2 describes_project (gd_projects gd) (filter (belongs_to grp) all_projects))"

text \<open>
  For the containment of failures: the ids of the records of a fetched list, and two
  reports of which the second is the first less the entry of one pair. The first report is
  the one of a run in the world \<open>w\<close>: the entries of a project in it are the values of
  the dict \<open>env_data\<close> that this run builds for the project, with the completion order
  that the scheduler gives to the project's position; the entries of the same project in
  the second report are the values of that dict in the same order, without the value
  stored under the key of the excluded environment id when the project is the excluded
  one. Groups and projects are the same, in the same order.
\<close>

definition ids_of :: "py_exn + json \<Rightarrow> json list" where
  "ids_of fetched =
     (case bind_exn fetched py_iter of
        Inl x \<Rightarrow> []
      | Inr records \<Rightarrow>
          concat (map (\<lambda>r. case py_getitem r ''Id'' of Inl x \<Rightarrow> [] | Inr v \<Rightarrow> [v]) records))"

definition same_project_except ::
  "world \<Rightarrow> nat list \<Rightarrow> json \<Rightarrow> json \<Rightarrow> json \<Rightarrow> project_data \<Rightarrow> project_data \<Rightarrow> bool" where
  "same_project_except w order environments p0 e0 pd pd' \<longleftrightarrow>
     pd_id pd' = pd_id pd \<and> pd_name pd' = pd_name pd \<and> pd_git_url pd' = pd_git_url pd
     \<and> (case project_env_data w order environments (pd_id pd) of
          Some (Inr env_data) \<Rightarrow>
            pd_environments pd = map snd env_data
            \<and> pd_environments pd'
                = map snd (filter (\<lambda>kv. \<not> (pd_id pd = p0 \<and> dict_key e0 = Inr (fst kv)))
                             env_data)
        | _ \<Rightarrow> False)"

definition same_group_except ::
  "world \<Rightarrow> (nat \<Rightarrow> nat list) \<Rightarrow> json \<Rightarrow> json \<Rightarrow> json \<Rightarrow> group_data \<Rightarrow> group_data \<Rightarrow> bool" where
  "same_group_except w sched environments p0 e0 gd gd' \<longleftrightarrow>
     gd_id gd' = gd_id gd \<and> gd_name gd' = gd_name gd
     \<and> list_all2 (\<lambda>(j, pd) pd'. same_project_except w (sched j) environments p0 e0 pd pd')
         (enumerate 0 (gd_projects gd)) (gd_projects gd')"

definition same_report_except ::
  "world \<Rightarrow> (nat \<Rightarrow> nat \<Rightarrow> nat list) \<Rightarrow> json \<Rightarrow> json \<Rightarrow> json
     \<Rightarrow> group_data list \<Rightarrow> group_data list \<Rightarrow> bool" where
  "same_report_except w sched environments p0 e0 report report' \<longleftrightarrow>
     list_all2 (\<lambda>(i, gd) gd'. same_group_except w (sched i) environments p0 e0 gd gd')
       (enumerate 0 report) report'"

text \<open>
  Modelled from the spec: the offset table of \<open>America/Los_Angeles\<close>, which pytz supplies
  and the repository does not contain. This is the rule in force since 2007, the one that
  covers the date the specification names: UTC-8 (standard time), and UTC-7 (daylight
  time) from 10:00 UTC on the second Sunday of March to 09:00 UTC on the first Sunday of
  November. It is used only to build concrete worlds.
\<close>

definition first_sunday_from :: "int \<Rightarrow> int" where
  "first_sunday_from day = day + (7 - (day + 4) mod 7) mod 7"

definition us_pacific_utcoffset :: "int \<Rightarrow> int" where
  "us_pacific_utcoffset t =
     (let y = fst (civil_from_days (t div 86400));
          dst_start = (first_sunday_from (days_from_civil y 3 1) + 7) * 86400 + 10 * 3600;
          dst_end = first_sunday_from (days_from_civil y 11 1) * 86400 + 9 * 3600
      in if dst_start \<le> t \<and> t < dst_end then - 25200 else - 28800)"

text \<open>
  Vocabulary for statements about the paginator: the response to the \<open>k\<close>-th page request
  (\<open>skip = 30 * k\<close>), and the records of a well-formed page (a dict whose \<open>Items\<close> is a
  list). \<open>serve_pages\<close> is a server that answers the page requests of one pair from a
  given list of pages and every other request with status 404.
\<close>

definition page_items :: "py_exn + json \<Rightarrow> json list option" where
  "page_items resp =
     (case resp of
        Inr (JObj kvs) \<Rightarrow> (case map_of kvs ''Items'' of Some (JArr xs) \<Rightarrow> Some xs | _ \<Rightarrow> None)
      | _ \<Rightarrow> None)"

definition page_response :: "world \<Rightarrow> json \<Rightarrow> json \<Rightarrow> nat \<Rightarrow> py_exn + json" where
  "page_response w p e k = make_api_request w (deployments_endpoint p e (take_size * int k))"

definition numbered_items :: "nat \<Rightarrow> nat \<Rightarrow> json list" where
  "numbered_items start n =
     map (\<lambda>i. JObj [(''Id'', JStr (''Deployments-'' @ str_int (int i)))]) [start..<start + n]"

definition serve_pages :: "json \<Rightarrow> json \<Rightarrow> json list list \<Rightarrow> world" where
  "serve_pages p e pgs =
     \<lparr>requests_get = (\<lambda>url.
        case find (\<lambda>k. url = api_url (deployments_endpoint p e (take_size * int k)))
               [0..<length pgs] of
          Some k \<Rightarrow> Response 200 (Some (JObj [(''Items'', JArr (pgs ! k))]))
        | None \<Rightarrow> Response 404 None),
      los_angeles_utcoffset = us_pacific_utcoffset\<rparr>"

declare fetch_loop.simps [code]

text \<open>Two concrete histories of one pair: pages of 30, 30, 17 and of 30, 30, 30, 0 records.\<close>

definition demo_project :: json where
  "demo_project = JStr ''Projects-1''"

definition demo_environment :: json where
  "demo_environment = JStr ''Environments-1''"

definition world_30_30_17 :: world where
  "world_30_30_17 = serve_pages demo_project demo_environment
     [numbered_items 0 30, numbered_items 30 30, numbered_items 60 17]"

definition world_30_30_30_0 :: world where
  "world_30_30_30_0 = serve_pages demo_project demo_environment
     [numbered_items 0 30, numbered_items 30 30, numbered_items 60 30, []]"

text \<open>
  Concrete worlds for the resolver: a server that answers the listed endpoints with status
  200 and the given body, and every other request with status 404.
\<close>

definition serve :: "(string \<times> json) list \<Rightarrow> world" where
  "serve table =
     \<lparr>requests_get = (\<lambda>url.
        case map_of (map (\<lambda>(endpoint, body). (api_url endpoint, body)) table) url of
          Some body \<Rightarrow> Response 200 (Some body)
        | None \<Rightarrow> Response 404 None),
      los_angeles_utcoffset = us_pacific_utcoffset\<rparr>"

definition deployment_record :: "string \<Rightarrow> string \<Rightarrow> json" where
  "deployment_record n created =
     JObj [(''Id'', JStr (''Deployments-'' @ n)), (''ReleaseId'', JStr (''Releases-'' @ n)),
           (''TaskId'', JStr (''ServerTasks-'' @ n)), (''Created'', JStr created)]"

definition first_page :: "json list \<Rightarrow> string \<times> json" where
  "first_page items =
     (deployments_endpoint demo_project demo_environment 0, JObj [(''Items'', JArr items)])"

text \<open>
  A history of four deployments, most recent first: the latest failed, the next one's task
  has no \<open>State\<close>, the two oldest succeeded.
\<close>

definition demo_history :: "json list" where
  "demo_history =
     [deployment_record ''4'' ''2024-07-04T12:30:15.123+00:00'',
      deployment_record ''3'' ''2024-07-03T09:00:00.000+00:00'',
      deployment_record ''2'' ''2024-01-01T00:00:00.000000+00:00'',
      deployment_record ''1'' ''2023-12-24T18:00:00.000+00:00'']"

definition demo_tasks_releases :: "(string \<times> json) list" where
  "demo_tasks_releases =
     [(''tasks/ServerTasks-4'', JObj [(''State'', JStr ''Failed'')]),
      (''tasks/ServerTasks-3'', JObj [(''Id'', JStr ''ServerTasks-3'')]),
      (''tasks/ServerTasks-2'', JObj [(''State'', JStr ''Success'')]),
      (''tasks/ServerTasks-1'', JObj [(''State'', JStr ''Success'')]),
      (''releases/Releases-4'', JObj [(''Version'', JStr ''1.4.0''), (''ReleaseNotes'', JStr ''fix'')]),
      (''releases/Releases-3'', JObj [(''Version'', JStr ''1.3.0'')]),
      (''releases/Releases-1'', JObj [(''Version'', JStr ''1.1.0'')])]"

definition demo_report :: environment_report where
  "demo_report =
     \<lparr>version = JStr ''1.4.0'', release_notes = JStr ''fix'',
      deployment_date = ''2024-07-04 05:30:15 PDT'', failed = Some True,
      last_successful_version = Some (JStr ''1.2.0''),
      last_successful_date = Some ''2023-12-31 16:00:00 PDT'', env_name = None\<rparr>"

definition failed_world :: world where
  "failed_world = serve (first_page demo_history # demo_tasks_releases
                          @ [(''releases/Releases-2'', JObj [(''Version'', JStr ''1.2.0'')])])"

text \<open>The same history on a server that no longer has the release of deployment 2.\<close>

definition release_gone_world :: world where
  "release_gone_world = serve (first_page demo_history # demo_tasks_releases)"

text \<open>
  A history of one successful deployment whose timestamp has no fractional seconds, and one
  whose latest task has no \<open>State\<close>.
\<close>

definition plain_timestamp_world :: world where
  "plain_timestamp_world =
     serve [first_page [deployment_record ''1'' ''2024-01-01T00:00:00+00:00''],
            (''tasks/ServerTasks-1'', JObj [(''State'', JStr ''Success'')]),
            (''releases/Releases-1'', JObj [(''Version'', JStr ''1.1.0'')])]"

definition stateless_report :: environment_report where
  "stateless_report =
     \<lparr>version = JStr ''1.3.0'', release_notes = JNull,
      deployment_date = ''2024-07-04 05:30:15 PDT'', failed = None,
      last_successful_version = None, last_successful_date = None, env_name = None\<rparr>"

definition stateless_world :: world where
  "stateless_world =
     serve [first_page [deployment_record ''3'' ''2024-07-04T12:30:15.123+00:00''],
            (''tasks/ServerTasks-3'', JObj [(''Id'', JStr ''ServerTasks-3'')]),
            (''releases/Releases-3'', JObj [(''Version'', JStr ''1.3.0'')])]"

text \<open>A history whose latest deployment has a task but no release on the server.\<close>

definition latest_release_gone_world :: world where
  "latest_release_gone_world =
     serve [first_page [deployment_record ''3'' ''2024-07-03T09:00:00.000+00:00''],
            (''tasks/ServerTasks-3'', JObj [(''State'', JStr ''Success'')])]"

text \<open>
  A history of two deployments without a successful one: the latest failed, and the
  older one's task has no \<open>State\<close>.
\<close>

definition stale_world :: world where
  "stale_world =
     serve [first_page [deployment_record ''4'' ''2024-07-04T12:30:15.123+00:00'',
                        deployment_record ''3'' ''2024-07-03T09:00:00.000+00:00''],
            (''tasks/ServerTasks-4'', JObj [(''State'', JStr ''Failed'')]),
            (''tasks/ServerTasks-3'', JObj [(''Id'', JStr ''ServerTasks-3'')]),
            (''releases/Releases-4'',
               JObj [(''Version'', JStr ''1.4.0''), (''ReleaseNotes'', JStr ''fix'')])]"

text \<open>
  A space with two groups, two projects (the second in a group that is not among the
  fetched groups) and two environments. The first project has one successful deployment in
  each environment.
\<close>

definition staging :: json where
  "staging = JStr ''Environments-2''"

definition demo_projects :: "json list" where
  "demo_projects =
     [JObj [(''Id'', JStr ''Projects-1''), (''Name'', JStr ''Api''),
            (''ProjectGroupId'', JStr ''ProjectGroups-1'')],
      JObj [(''Id'', JStr ''Projects-2''), (''Name'', JStr ''Orphan''),
            (''ProjectGroupId'', JStr ''ProjectGroups-9'')]]"

definition demo_groups :: "json list" where
  "demo_groups =
     [JObj [(''Id'', JStr ''ProjectGroups-1''), (''Name'', JStr ''Core'')],
      JObj [(''Id'', JStr ''ProjectGroups-2''), (''Name'', JStr ''Empty'')]]"

definition production_env :: json where
  "production_env = JObj [(''Id'', JStr ''Environments-1''), (''Name'', JStr ''Production'')]"

definition staging_env :: json where
  "staging_env = JObj [(''Id'', JStr ''Environments-2''), (''Name'', JStr ''Staging'')]"

definition demo_environments :: "json list" where
  "demo_environments = [production_env, staging_env]"

definition space_world :: world where
  "space_world =
     serve [(''projects/all'', JArr demo_projects),
            (''projectgroups/all'', JArr demo_groups),
            (''environments/all'', JArr demo_environments),
            (''projects/Projects-1'',
               JObj [(''PersistenceSettings'', JObj [(''Url'', JStr ''https://git.example.com/api.git'')])]),
            first_page [deployment_record ''3'' ''2024-07-04T12:30:15.123+00:00''],
            (deployments_endpoint demo_project staging 0,
               JObj [(''Items'', JArr [deployment_record ''1'' ''2024-07-04T12:30:15.123+00:00''])]),
            (''tasks/ServerTasks-3'', JObj [(''State'', JStr ''Success'')]),
            (''releases/Releases-3'', JObj [(''Version'', JStr ''1.3.0'')]),
            (''tasks/ServerTasks-1'', JObj [(''State'', JStr ''Success'')]),
            (''releases/Releases-1'', JObj [(''Version'', JStr ''1.1.0'')])]"

definition success_report :: "string \<Rightarrow> json option \<Rightarrow> environment_report" where
  "success_report v name =
     \<lparr>version = JStr v, release_notes = JNull,
      deployment_date = ''2024-07-04 05:30:15 PDT'', failed = None,
      last_successful_version = None, last_successful_date = None, env_name = name\<rparr>"

text \<open>The second future of every project completes first.\<close>

definition demo_sched :: "nat \<Rightarrow> nat \<Rightarrow> nat list" where
  "demo_sched g p = [Suc 0, 0]"

definition space_report :: "environment_report list \<Rightarrow> group_data list" where
  "space_report reports =
     [\<lparr>gd_id = JStr ''ProjectGroups-1'', gd_name = JStr ''Core'',
       gd_projects =
         [\<lparr>pd_id = JStr ''Projects-1'', pd_name = JStr ''Api'',
           pd_git_url = JStr ''https://git.example.com/api.git'',
           pd_environments = reports\<rparr>]\<rparr>,
      \<lparr>gd_id = JStr ''ProjectGroups-2'', gd_name = JStr ''Empty'', gd_projects = []\<rparr>]"

text \<open>The same world with a failure forced on one request.\<close>

definition inject_failure :: "world \<Rightarrow> string \<Rightarrow> py_exn \<Rightarrow> world" where
  "inject_failure w endpoint x =
     w\<lparr>requests_get := (\<lambda>url. if url = api_url endpoint then Raised x else requests_get w url)\<rparr>"

definition broken_world :: world where
  "broken_world =
     inject_failure space_world (deployments_endpoint demo_project demo_environment 0)
       ConnectionError"

section \<open>Properties of the paginator\<close>

lemma page_itemsD:
  assumes "page_items resp = Some xs"
  obtains r where "resp = Inr r" "py_getitem r ''Items'' = Inr (JArr xs)" "truthy r"
proof -
  from assms obtain kvs where kvs: "resp = Inr (JObj kvs)" "map_of kvs ''Items'' = Some (JArr xs)"
    by (auto simp: page_items_def split: sum.splits json.splits option.splits)
  then have "kvs \<noteq> []" by auto
  with kvs that [of "JObj kvs"] show thesis by simp
qed

lemma fetch_loop_stop_absent:
  assumes "make_api_request w (deployments_endpoint p e skip) = Inr r" "\<not> truthy r"
  shows "fetch_loop w p e skip acc tr = Some (Inr acc, tr @ [deployments_endpoint p e skip])"
  using assms by (subst fetch_loop.simps) simp

lemma fetch_loop_stop_short:
  assumes "page_items (make_api_request w (deployments_endpoint p e skip)) = Some xs"
    "int (length xs) < take_size"
  shows "fetch_loop w p e skip acc tr = Some (Inr (acc @ xs), tr @ [deployments_endpoint p e skip])"
  using assms(1)
proof (rule page_itemsD)
  fix r assume "make_api_request w (deployments_endpoint p e skip) = Inr r"
    "py_getitem r ''Items'' = Inr (JArr xs)" "truthy r"
  then show ?thesis using assms(2) by (subst fetch_loop.simps) (cases xs; simp)
qed

lemma fetch_loop_continue:
  assumes "page_items (make_api_request w (deployments_endpoint p e skip)) = Some xs"
    "take_size \<le> int (length xs)"
  shows "fetch_loop w p e skip acc tr =
         fetch_loop w p e (skip + take_size) (acc @ xs) (tr @ [deployments_endpoint p e skip])"
  using assms(1)
proof (rule page_itemsD)
  fix r assume "make_api_request w (deployments_endpoint p e skip) = Inr r"
    "py_getitem r ''Items'' = Inr (JArr xs)" "truthy r"
  moreover have "xs \<noteq> []" using assms(2) by (auto simp: take_size_def)
  ultimately show ?thesis using assms(2) by (subst fetch_loop.simps) simp
qed

lemma fetch_loop_run:
  assumes "\<forall>k<n. page_items (make_api_request w (deployments_endpoint p e (skip + take_size * int k)))
                   = Some (pages k) \<and> take_size \<le> int (length (pages k))"
    and "(\<exists>r. make_api_request w (deployments_endpoint p e (skip + take_size * int n)) = Inr r
             \<and> \<not> truthy r \<and> final = [])
         \<or> (page_items (make_api_request w (deployments_endpoint p e (skip + take_size * int n)))
               = Some final \<and> int (length final) < take_size)"
  shows "fetch_loop w p e skip acc tr =
         Some (Inr (acc @ concat (map pages [0..<n]) @ final),
               tr @ map (\<lambda>k. deployments_endpoint p e (skip + take_size * int k)) [0..<Suc n])"
  using assms
proof (induction n arbitrary: skip acc tr pages)
  case 0
  then show ?case
    by (auto simp: fetch_loop_stop_absent fetch_loop_stop_short)
next
  case (Suc n)
  from Suc.prems(1) have first:
    "page_items (make_api_request w (deployments_endpoint p e skip)) = Some (pages 0)"
    "take_size \<le> int (length (pages 0))"
    by (auto dest: spec [of _ 0])
  have shift: "skip + take_size + take_size * int k = skip + take_size * int (Suc k)" for k
    by (simp add: algebra_simps)
  have rest: "\<forall>k<n. page_items (make_api_request w
                        (deployments_endpoint p e (skip + take_size + take_size * int k)))
                   = Some ((\<lambda>k. pages (Suc k)) k) \<and> take_size \<le> int (length ((\<lambda>k. pages (Suc k)) k))"
    using Suc.prems(1) unfolding shift by auto
  have fin: "(\<exists>r. make_api_request w (deployments_endpoint p e (skip + take_size + take_size * int n)) = Inr r
             \<and> \<not> truthy r \<and> final = [])
         \<or> (page_items (make_api_request w (deployments_endpoint p e (skip + take_size + take_size * int n)))
               = Some final \<and> int (length final) < take_size)"
    using Suc.prems(2) unfolding shift .
  have cat: "concat (map pages [0..<Suc n]) = pages 0 @ concat (map (\<lambda>k. pages (Suc k)) [0..<n])"
    by (simp only: upt_conv_Cons [of 0 "Suc n"] map_Suc_upt [symmetric]) (simp add: comp_def)
  have urls: "map (\<lambda>k. deployments_endpoint p e (skip + take_size * int k)) [0..<Suc (Suc n)]
      = deployments_endpoint p e skip
        # map (\<lambda>k. deployments_endpoint p e (skip + take_size + take_size * int k)) [0..<Suc n]"
    unfolding shift
    by (simp only: upt_conv_Cons [of 0 "Suc (Suc n)"] map_Suc_upt [symmetric]) (simp add: comp_def)
  show ?case
    unfolding fetch_loop_continue [OF first] Suc.IH [OF rest fin] cat urls by simp
qed

text \<open>
  Claim C4. The paginator returns, and returns the in-order concatenation of the pages it
  fetched: when the first \<open>n\<close> page requests are answered with full pages (at least 30
  records) and request \<open>n\<close> is answered with nothing (\<open>None\<close>, or any other empty
  response), with an empty page or with a short page, the loop ends after exactly
  \<open>n + 1\<close> requests, at \<open>skip = 0, 30, ..., 30 * n\<close>, and returns the records of pages
  \<open>0..n\<close> in order, as a value and not as an error. The instances with pages of sizes
  30, 30, 17 (3 requests, 77 records) and 30, 30, 30, 0 (4 requests) follow.
\<close>

theorem paginator_returns_concatenation:
  assumes full: "\<forall>k<n. page_items (page_response w p e k) = Some (pages k)
                        \<and> take_size \<le> int (length (pages k))"
    and stop: "(page_response w p e n = Inr r \<and> \<not> truthy r \<and> final = [])
               \<or> (page_items (page_response w p e n) = Some final
                   \<and> int (length final) < take_size)"
  shows "fetch_deployments_with_pagination w p e = Some (Inr (concat (map pages [0..<n]) @ final))
         \<and> pagination_requests w p e
             = Some (map (\<lambda>k. deployments_endpoint p e (take_size * int k)) [0..<Suc n])
         \<and> map_option length (pagination_requests w p e) = Some (n + 1)"
proof -
  have "fetch_loop w p e 0 [] [] =
          Some (Inr ([] @ concat (map pages [0..<n]) @ final),
                [] @ map (\<lambda>k. deployments_endpoint p e (0 + take_size * int k)) [0..<Suc n])"
    using full stop unfolding page_response_def
    by (intro fetch_loop_run) auto
  then show ?thesis
    by (simp add: fetch_deployments_with_pagination_def pagination_requests_def)
qed

theorem paginator_returns_concatenation_witness:
  "(fetch_deployments_with_pagination world_30_30_17 demo_project demo_environment
      = Some (Inr (numbered_items 0 77))
    \<and> length (numbered_items 0 77) = 77
    \<and> map_option length (pagination_requests world_30_30_17 demo_project demo_environment)
        = Some 3)
   \<and> (fetch_deployments_with_pagination world_30_30_30_0 demo_project demo_environment
        = Some (Inr (numbered_items 0 90))
      \<and> map_option length (pagination_requests world_30_30_30_0 demo_project demo_environment)
          = Some 4)"
proof -
  let ?p = demo_project and ?e = demo_environment
  let ?pages = "\<lambda>k::nat. numbered_items (30 * k) 30"
  have a0: "page_items (page_response world_30_30_17 ?p ?e 0) = Some (?pages 0)"
    and a1: "page_items (page_response world_30_30_17 ?p ?e 1) = Some (?pages 1)"
    and a2: "page_items (page_response world_30_30_17 ?p ?e 2) = Some (numbered_items 60 17)"
    by code_simp+
  have len: "take_size \<le> int (length (numbered_items s 30))" for s
    by (simp add: numbered_items_def take_size_def)
  have fullA: "\<forall>k<2. page_items (page_response world_30_30_17 ?p ?e k) = Some (?pages k)
                       \<and> take_size \<le> int (length (?pages k))"
  proof (intro allI impI)
    fix k :: nat assume "k < 2"
    then consider "k = 0" | "k = 1" by arith
    then show "page_items (page_response world_30_30_17 ?p ?e k) = Some (?pages k)
                 \<and> take_size \<le> int (length (?pages k))"
      using a0 a1 len by cases simp_all
  qed
  have stopA: "(page_response world_30_30_17 ?p ?e 2 = Inr JNull \<and> \<not> truthy JNull
                  \<and> numbered_items 60 17 = [])
               \<or> (page_items (page_response world_30_30_17 ?p ?e 2) = Some (numbered_items 60 17)
                   \<and> int (length (numbered_items 60 17)) < take_size)"
    using a2 by (simp add: numbered_items_def take_size_def)
  have catA: "concat (map ?pages [0..<2]) @ numbered_items 60 17 = numbered_items 0 77"
    by code_simp
  have b0: "page_items (page_response world_30_30_30_0 ?p ?e 0) = Some (?pages 0)"
    and b1: "page_items (page_response world_30_30_30_0 ?p ?e 1) = Some (?pages 1)"
    and b2: "page_items (page_response world_30_30_30_0 ?p ?e 2) = Some (?pages 2)"
    and b3: "page_items (page_response world_30_30_30_0 ?p ?e 3) = Some []"
    by code_simp+
  have fullB: "\<forall>k<3. page_items (page_response world_30_30_30_0 ?p ?e k) = Some (?pages k)
                       \<and> take_size \<le> int (length (?pages k))"
  proof (intro allI impI)
    fix k :: nat assume "k < 3"
    then consider "k = 0" | "k = 1" | "k = 2" by arith
    then show "page_items (page_response world_30_30_30_0 ?p ?e k) = Some (?pages k)
                 \<and> take_size \<le> int (length (?pages k))"
      using b0 b1 b2 len by cases simp_all
  qed
  have stopB: "(page_response world_30_30_30_0 ?p ?e 3 = Inr JNull \<and> \<not> truthy JNull
                  \<and> ([]::json list) = [])
               \<or> (page_items (page_response world_30_30_30_0 ?p ?e 3) = Some []
                   \<and> int (length ([]::json list)) < take_size)"
    using b3 by (simp add: take_size_def)
  have catB: "concat (map ?pages [0..<3]) @ [] = numbered_items 0 90"
    by code_simp
  have len77: "length (numbered_items 0 77) = 77"
    by (simp add: numbered_items_def)
  show ?thesis
    using paginator_returns_concatenation [OF fullA stopA]
      paginator_returns_concatenation [OF fullB stopB] len77
    unfolding catA catB by simp
qed

section \<open>Properties of the API client\<close>

text \<open>
  Claim C5, as amended. For every endpoint, \<open>make_api_request\<close> returns \<open>None\<close> without
  raising whenever the server answers with a status other than 200, hence on every status
  outside 2xx. A transport failure is different: the exception that \<open>requests.get\<close>
  raises is not caught in \<open>make_api_request\<close> and reaches its caller.
\<close>

theorem make_api_request_absent_or_raises:
  "(requests_get w (api_url endpoint) = Response status_code body \<and> status_code \<noteq> 200
      \<longrightarrow> make_api_request w endpoint = Inr JNull)
   \<and> (requests_get w (api_url endpoint) = Raised x \<longrightarrow> make_api_request w endpoint = Inl x)"
  by (simp add: make_api_request_def)

theorem make_api_request_absent_or_raises_witness:
  "make_api_request \<lparr>requests_get = (\<lambda>url. Response 404 None), los_angeles_utcoffset = us_pacific_utcoffset\<rparr> ''projects/all'' = Inr JNull
   \<and> make_api_request \<lparr>requests_get = (\<lambda>url. Raised ConnectionError), los_angeles_utcoffset = us_pacific_utcoffset\<rparr> ''projects/all''
       = Inl ConnectionError"
  using make_api_request_absent_or_raises
          [of "\<lparr>requests_get = (\<lambda>url. Response 404 None), los_angeles_utcoffset = us_pacific_utcoffset\<rparr>" "''projects/all''" 404 None]
        make_api_request_absent_or_raises
          [of "\<lparr>requests_get = (\<lambda>url. Raised ConnectionError), los_angeles_utcoffset = us_pacific_utcoffset\<rparr>" "''projects/all''" _ _
              ConnectionError]
  by simp

text \<open>
  The claim as stated fails: when the transport fails, \<open>make_api_request\<close> raises instead
  of returning \<open>None\<close>.
\<close>

theorem make_api_request_transport_failure_counterexample:
  "make_api_request \<lparr>requests_get = (\<lambda>url. Raised ConnectionError), los_angeles_utcoffset = us_pacific_utcoffset\<rparr> ''projects/all''
     \<noteq> Inr JNull"
  by (simp add: make_api_request_def)

section \<open>Properties of the resolver\<close>

subsection \<open>The scan and the try block\<close>

lemma bind_exn_Inl [simp]: "bind_exn (Inl x) f = Inl x"
  by (simp add: bind_exn_def)

lemma bind_exn_Inr [simp]: "bind_exn (Inr v) f = f v"
  by (simp add: bind_exn_def)

lemma bind_exn_eq_Inr:
  "bind_exn r f = Inr y \<longleftrightarrow> (\<exists>v. r = Inr v \<and> f v = Inr y)"
  by (cases r) simp_all

lemma is_successful_iff:
  "is_successful w d \<longleftrightarrow>
     (\<exists>task. fetch_task w d = Inr task \<and> truthy task
        \<and> py_get task ''State'' (JStr ''Unknown'') = Inr (JStr ''Success''))"
  by (auto simp: is_successful_def task_state_def split: sum.splits if_splits)

lemma find_last_successful_step:
  "find_last_successful w (d # rest) =
     bind_exn (fetch_task w d) (\<lambda>task.
       if truthy task then
         bind_exn (py_get task ''State'' (JStr ''Unknown'')) (\<lambda>state.
           if state = JStr ''Success''
           then bind_exn (last_successful_of w d) (\<lambda>found. Inr (Some found))
           else find_last_successful w rest)
       else find_last_successful w rest)"
  by (cases "py_getitem d ''TaskId''") (simp_all add: fetch_task_def)

lemma find_last_successful_first:
  assumes "find_last_successful w ds = Inr res"
  shows "case find (is_successful w) ds of
           None \<Rightarrow> res = None
         | Some d \<Rightarrow> \<exists>found. last_successful_of w d = Inr found \<and> res = Some found"
  using assms
proof (induction ds)
  case Nil
  then show ?case by simp
next
  case (Cons d rest)
  from Cons.prems obtain task where task: "fetch_task w d = Inr task"
    unfolding find_last_successful_step by (auto simp: bind_exn_eq_Inr)
  show ?case
  proof (cases "truthy task")
    case False
    with task have "\<not> is_successful w d" by (simp add: is_successful_iff)
    moreover from Cons.prems task False have "find_last_successful w rest = Inr res"
      unfolding find_last_successful_step by simp
    ultimately show ?thesis using Cons.IH by simp
  next
    case True
    with Cons.prems task obtain state where
      state: "py_get task ''State'' (JStr ''Unknown'') = Inr state"
      unfolding find_last_successful_step by (auto simp: bind_exn_eq_Inr)
    show ?thesis
    proof (cases "state = JStr ''Success''")
      case True
      with task \<open>truthy task\<close> state have "is_successful w d" by (simp add: is_successful_iff)
      moreover from Cons.prems task \<open>truthy task\<close> state True
      have "\<exists>found. last_successful_of w d = Inr found \<and> res = Some found"
        unfolding find_last_successful_step by (auto simp: bind_exn_eq_Inr)
      ultimately show ?thesis by simp
    next
      case False
      with task \<open>truthy task\<close> state have "\<not> is_successful w d" by (simp add: is_successful_iff)
      moreover from Cons.prems task \<open>truthy task\<close> state False
      have "find_last_successful w rest = Inr res"
        unfolding find_last_successful_step by simp
      ultimately show ?thesis using Cons.IH by simp
    qed
  qed
qed

lemma resolve_deployments_Nil: "resolve_deployments w e [] = Inr None"
  by (simp add: resolve_deployments_def)

lemma resolve_deployments_Cons:
  "resolve_deployments w e (latest # older) =
     bind_exn (fetch_release w latest) (\<lambda>release.
     bind_exn (fetch_task w latest) (\<lambda>task.
     if \<not> truthy release \<or> \<not> truthy task then Inr None
     else
       bind_exn (py_get task ''State'' (JStr ''Unknown'')) (\<lambda>state.
       bind_exn (latest_output w latest release) (\<lambda>output.
       if state = JStr ''Failed'' then
         bind_exn (find_last_successful w older) (\<lambda>found.
         Inr (Some (e, mark_failed output found)))
       else Inr (Some (e, output))))))"
proof -
  have fin: "(case found of
                None \<Rightarrow> outp\<lparr>failed := Some True\<rparr>
              | Some (sv, sd) \<Rightarrow>
                  outp\<lparr>failed := Some True, last_successful_version := Some sv,
                         last_successful_date := Some sd\<rparr>) = mark_failed outp found"
    if "last_successful_version outp = None" "last_successful_date outp = None"
    for outp found
    using that by (cases found) (auto simp: mark_failed_def)
  have tail: "bind_exn (py_getitem release ''Version'') (\<lambda>v.
            bind_exn (py_get release ''ReleaseNotes'' JNull) (\<lambda>rnotes.
            bind_exn (py_getitem latest ''Created'') (\<lambda>created.
            bind_exn (convert_to_pdt w created) (\<lambda>date.
            let output = \<lparr>version = v, release_notes = rnotes, deployment_date = date,
                           failed = None, last_successful_version = None,
                           last_successful_date = None, env_name = None\<rparr>
            in if state = JStr ''Failed'' then
                 bind_exn (find_last_successful w older) (\<lambda>found.
                 Inr (Some (e,
                   (case found of
                      None \<Rightarrow> output\<lparr>failed := Some True\<rparr>
                    | Some (sv, sd) \<Rightarrow>
                        output\<lparr>failed := Some True, last_successful_version := Some sv,
                               last_successful_date := Some sd\<rparr>))))
               else Inr (Some (e, output))))))
        = bind_exn (latest_output w latest release) (\<lambda>output.
           if state = JStr ''Failed'' then
             bind_exn (find_last_successful w older) (\<lambda>found.
             Inr (Some (e, mark_failed output found)))
           else Inr (Some (e, output)))" for release state
    unfolding latest_output_def
    by (cases "py_getitem release ''Version''"; cases "py_get release ''ReleaseNotes'' JNull";
        cases "py_getitem latest ''Created''"; simp;
        cases "convert_to_pdt w (projr (py_getitem latest ''Created''))"; simp add: Let_def fin)
  show ?thesis
    unfolding resolve_deployments_def list.case tail
    by (cases "py_getitem latest ''ReleaseId''"; simp add: fetch_release_def fetch_task_def;
        cases "make_api_request w (''releases/'' @ py_str (projr (py_getitem latest ''ReleaseId'')))";
        simp; cases "py_getitem latest ''TaskId''"; simp)
qed

lemma resolve_deployments_report:
  assumes "resolve_deployments w e (latest # older) = Inr (Some (eid, out))"
  shows "\<exists>release task state output.
    eid = e \<and>
    fetch_release w latest = Inr release \<and> truthy release \<and>
    fetch_task w latest = Inr task \<and> truthy task \<and>
    py_get task ''State'' (JStr ''Unknown'') = Inr state \<and>
    latest_output w latest release = Inr output \<and>
    (if state = JStr ''Failed''
     then \<exists>found. find_last_successful w older = Inr found \<and> out = mark_failed output found
     else out = output)"
  using assms unfolding resolve_deployments_Cons
  by (auto simp: bind_exn_eq_Inr split: if_splits)

lemma process_deployment_eq:
  assumes "fetch_deployments_with_pagination w p e = Some (Inr ds)"
  shows "process_deployment_body w p e = Some (resolve_deployments w e ds)"
    and "process_deployment w p e =
           Some (case resolve_deployments w e ds of Inl x \<Rightarrow> None | Inr res \<Rightarrow> res)"
  using assms by (simp_all add: process_deployment_def process_deployment_body_def)

lemma process_deployment_report:
  assumes "process_deployment w p e = Some (Some r)"
  shows "\<exists>latest older. fetch_deployments_with_pagination w p e = Some (Inr (latest # older))
           \<and> resolve_deployments w e (latest # older) = Inr (Some r)"
proof -
  obtain ds where ds: "fetch_deployments_with_pagination w p e = Some (Inr ds)"
  proof (cases "fetch_deployments_with_pagination w p e")
    case None
    with assms show thesis
      by (simp add: process_deployment_def process_deployment_body_def)
  next
    case (Some r0)
    with assms that show thesis
      by (cases r0) (simp_all add: process_deployment_def process_deployment_body_def)
  qed
  with assms have res: "resolve_deployments w e ds = Inr (Some r)"
    by (simp add: process_deployment_eq split: sum.splits)
  from res have "ds \<noteq> []" by (auto simp: resolve_deployments_Nil)
  with ds res show ?thesis by (cases ds) auto
qed

lemma task_state_eq:
  "fetch_task w d = Inr task \<Longrightarrow> truthy task \<Longrightarrow> py_get task ''State'' (JStr ''Unknown'') = Inr state
     \<Longrightarrow> task_state w d = Some state"
  by (simp add: task_state_def)

lemma scan_without_success:
  assumes "\<forall>d\<in>set ds. \<not> is_successful w d \<and> \<not> scan_raises w d"
  shows "find_last_successful w ds = Inr None"
  using assms
proof (induction ds)
  case Nil
  then show ?case by simp
next
  case (Cons d rest)
  then have d: "\<not> is_successful w d" "\<not> scan_raises w d"
    and rest: "find_last_successful w rest = Inr None" by auto
  from d(2) obtain task where task: "fetch_task w d = Inr task"
    by (auto simp: scan_raises_def split: sum.splits)
  show ?case
  proof (cases "truthy task")
    case False
    with task rest show ?thesis unfolding find_last_successful_step by simp
  next
    case True
    with d(2) task obtain state where state: "py_get task ''State'' (JStr ''Unknown'') = Inr state"
      by (cases "py_get task ''State'' (JStr ''Unknown'')") (auto simp: scan_raises_def)
    with d(1) task True have "state \<noteq> JStr ''Success''"
      by (auto simp: is_successful_iff)
    with task True state rest show ?thesis unfolding find_last_successful_step by simp
  qed
qed

subsection \<open>Concrete histories\<close>

lemma single_page:
  assumes "page_items (page_response w p e 0) = Some xs" "int (length xs) < take_size"
  shows "fetch_deployments_with_pagination w p e = Some (Inr xs)"
  using fetch_loop_stop_short [of w p e 0 xs "[]" "[]"] assms
  by (simp add: page_response_def fetch_deployments_with_pagination_def)

lemma no_page:
  assumes "page_response w p e 0 = Inr JNull"
  shows "fetch_deployments_with_pagination w p e = Some (Inr [])"
  using fetch_loop_stop_absent [of w p e 0 JNull "[]" "[]"] assms
  by (simp add: page_response_def fetch_deployments_with_pagination_def)

lemma serve_utcoffset: "los_angeles_utcoffset (serve table) = us_pacific_utcoffset"
  by (simp add: serve_def)

lemma convert_to_pdt_eval:
  assumes "strptime s = Inr dt" "in_range (utc_micros dt)"
    "los_angeles_utcoffset w (utc_micros dt div 1000000) = off"
    "in_range (utc_micros dt + off * 1000000)"
  shows "convert_to_pdt w (JStr s) =
           Inr (strftime_pdt \<lparr>utc_micros = utc_micros dt, utcoffset_micros = off * 1000000\<rparr>)"
  using assms by (simp add: convert_to_pdt_def astimezone_def Let_def)

lemma convert_new_year:
  assumes "los_angeles_utcoffset w 1704067200 = - 28800"
  shows "convert_to_pdt w (JStr ''2024-01-01T00:00:00.000000+00:00'') = Inr ''2023-12-31 16:00:00 PDT''"
proof -
  have parse: "strptime ''2024-01-01T00:00:00.000000+00:00''
                 = Inr \<lparr>utc_micros = 1704067200000000, utcoffset_micros = 0\<rparr>"
    by code_simp
  have range: "in_range 1704067200000000" "in_range (1704067200000000 + (- 28800) * 1000000)"
    by code_simp+
  have fmt: "strftime_pdt \<lparr>utc_micros = 1704067200000000, utcoffset_micros = (- 28800) * 1000000\<rparr>
               = ''2023-12-31 16:00:00 PDT''"
    by code_simp
  show ?thesis
    using convert_to_pdt_eval [OF parse, of w "- 28800"] range assms fmt by simp
qed

lemma convert_july:
  assumes "los_angeles_utcoffset w 1720096215 = - 25200"
  shows "convert_to_pdt w (JStr ''2024-07-04T12:30:15.123+00:00'') = Inr ''2024-07-04 05:30:15 PDT''"
proof -
  have parse: "strptime ''2024-07-04T12:30:15.123+00:00''
                 = Inr \<lparr>utc_micros = 1720096215123000, utcoffset_micros = 0\<rparr>"
    by code_simp
  have range: "in_range 1720096215123000" "in_range (1720096215123000 + (- 25200) * 1000000)"
    by code_simp+
  have fmt: "strftime_pdt \<lparr>utc_micros = 1720096215123000, utcoffset_micros = (- 25200) * 1000000\<rparr>
               = ''2024-07-04 05:30:15 PDT''"
    by code_simp
  show ?thesis
    using convert_to_pdt_eval [OF parse, of w "- 25200"] range assms fmt by simp
qed

lemma us_pacific_offsets:
  "us_pacific_utcoffset 1704067200 = - 28800" "us_pacific_utcoffset 1720096215 = - 25200"
  by code_simp+

lemma failed_world_history:
  "fetch_deployments_with_pagination failed_world demo_project demo_environment
     = Some (Inr demo_history)"
proof (rule single_page)
  show "page_items (page_response failed_world demo_project demo_environment 0) = Some demo_history"
    by code_simp
  show "int (length demo_history) < take_size"
    by (simp add: demo_history_def take_size_def)
qed

lemma failed_world_fetches:
  "fetch_release failed_world (deployment_record ''4'' ''2024-07-04T12:30:15.123+00:00'')
     = Inr (JObj [(''Version'', JStr ''1.4.0''), (''ReleaseNotes'', JStr ''fix'')])"
  "fetch_task failed_world (deployment_record ''4'' ''2024-07-04T12:30:15.123+00:00'')
     = Inr (JObj [(''State'', JStr ''Failed'')])"
  "fetch_task failed_world (deployment_record ''3'' ''2024-07-03T09:00:00.000+00:00'')
     = Inr (JObj [(''Id'', JStr ''ServerTasks-3'')])"
  "fetch_task failed_world (deployment_record ''2'' ''2024-01-01T00:00:00.000000+00:00'')
     = Inr (JObj [(''State'', JStr ''Success'')])"
  "fetch_release failed_world (deployment_record ''2'' ''2024-01-01T00:00:00.000000+00:00'')
     = Inr (JObj [(''Version'', JStr ''1.2.0'')])"
  by code_simp+

lemma failed_world_offsets:
  "los_angeles_utcoffset failed_world 1704067200 = - 28800"
  "los_angeles_utcoffset failed_world 1720096215 = - 25200"
  by (simp_all add: failed_world_def serve_utcoffset us_pacific_offsets)

lemma last_successful_of_eq:
  "last_successful_of w d =
     bind_exn (fetch_release w d) (\<lambda>success_release.
     bind_exn (py_getitem success_release ''Version'') (\<lambda>v.
     bind_exn (py_getitem d ''Created'') (\<lambda>created.
     bind_exn (convert_to_pdt w created) (\<lambda>date.
     Inr (v, date)))))"
  by (cases "py_getitem d ''ReleaseId''") (simp_all add: last_successful_of_def fetch_release_def)

lemma created [simp]: "py_getitem (deployment_record n c) ''Created'' = Inr (JStr c)"
  by (simp add: deployment_record_def)

lemma failed_world_last_successful:
  "last_successful_of failed_world (deployment_record ''2'' ''2024-01-01T00:00:00.000000+00:00'')
     = Inr (JStr ''1.2.0'', ''2023-12-31 16:00:00 PDT'')"
  by (simp add: last_successful_of_eq failed_world_fetches convert_new_year failed_world_offsets)

lemma failed_world_scan:
  "find_last_successful failed_world (tl demo_history)
     = Inr (Some (JStr ''1.2.0'', ''2023-12-31 16:00:00 PDT''))"
  by (simp add: demo_history_def find_last_successful_step failed_world_fetches
        failed_world_last_successful del: find_last_successful.simps(2))

lemma failed_world_resolve:
  "resolve_deployments failed_world demo_environment demo_history
     = Inr (Some (demo_environment, demo_report))"
proof -
  have h: "demo_history = hd demo_history # tl demo_history"
    by (simp add: demo_history_def)
  have hd: "hd demo_history = deployment_record ''4'' ''2024-07-04T12:30:15.123+00:00''"
    by (simp add: demo_history_def)
  show ?thesis
    apply (subst h)
    apply (simp add: resolve_deployments_Cons hd failed_world_fetches latest_output_def
        convert_july failed_world_offsets failed_world_scan mark_failed_def demo_report_def)
    done
qed

lemma failed_world_report:
  "process_deployment failed_world demo_project demo_environment
     = Some (Some (demo_environment, demo_report))"
  by (simp add: process_deployment_eq(2) [OF failed_world_history] failed_world_resolve)

lemma release_gone_world_history:
  "fetch_deployments_with_pagination release_gone_world demo_project demo_environment
     = Some (Inr demo_history)"
proof (rule single_page)
  show "page_items (page_response release_gone_world demo_project demo_environment 0)
          = Some demo_history"
    by code_simp
  show "int (length demo_history) < take_size"
    by (simp add: demo_history_def take_size_def)
qed

lemma release_gone_world_fetches:
  "fetch_release release_gone_world (deployment_record ''4'' ''2024-07-04T12:30:15.123+00:00'')
     = Inr (JObj [(''Version'', JStr ''1.4.0''), (''ReleaseNotes'', JStr ''fix'')])"
  "fetch_task release_gone_world (deployment_record ''4'' ''2024-07-04T12:30:15.123+00:00'')
     = Inr (JObj [(''State'', JStr ''Failed'')])"
  "fetch_task release_gone_world (deployment_record ''3'' ''2024-07-03T09:00:00.000+00:00'')
     = Inr (JObj [(''Id'', JStr ''ServerTasks-3'')])"
  "fetch_task release_gone_world (deployment_record ''2'' ''2024-01-01T00:00:00.000000+00:00'')
     = Inr (JObj [(''State'', JStr ''Success'')])"
  "fetch_release release_gone_world (deployment_record ''2'' ''2024-01-01T00:00:00.000000+00:00'')
     = Inr JNull"
  by code_simp+

lemma release_gone_world_report:
  "process_deployment release_gone_world demo_project demo_environment = Some None"
proof -
  have h: "demo_history = deployment_record ''4'' ''2024-07-04T12:30:15.123+00:00''
                            # tl demo_history"
    by (simp add: demo_history_def)
  have off: "los_angeles_utcoffset release_gone_world 1720096215 = - 25200"
    by (simp add: release_gone_world_def serve_utcoffset us_pacific_offsets)
  have scan: "find_last_successful release_gone_world (tl demo_history) = Inl TypeError"
    by (simp add: demo_history_def find_last_successful_step release_gone_world_fetches
          last_successful_of_eq del: find_last_successful.simps(2))
  have "resolve_deployments release_gone_world demo_environment demo_history = Inl TypeError"
    by (subst h)
       (simp add: resolve_deployments_Cons release_gone_world_fetches latest_output_def
          convert_july off scan)
  then show ?thesis
    by (simp add: process_deployment_eq(2) [OF release_gone_world_history])
qed

lemma plain_timestamp_world_history:
  "fetch_deployments_with_pagination plain_timestamp_world demo_project demo_environment
     = Some (Inr [deployment_record ''1'' ''2024-01-01T00:00:00+00:00''])"
proof (rule single_page)
  show "page_items (page_response plain_timestamp_world demo_project demo_environment 0)
          = Some [deployment_record ''1'' ''2024-01-01T00:00:00+00:00'']"
    by code_simp
  show "int (length [deployment_record ''1'' ''2024-01-01T00:00:00+00:00'']) < take_size"
    by (simp add: take_size_def)
qed

lemma plain_timestamp_world_fetches:
  "fetch_release plain_timestamp_world (deployment_record ''1'' ''2024-01-01T00:00:00+00:00'')
     = Inr (JObj [(''Version'', JStr ''1.1.0'')])"
  "fetch_task plain_timestamp_world (deployment_record ''1'' ''2024-01-01T00:00:00+00:00'')
     = Inr (JObj [(''State'', JStr ''Success'')])"
  by code_simp+

lemma plain_timestamp_rejected:
  "convert_to_pdt w (JStr ''2024-01-01T00:00:00+00:00'') = Inl ValueError"
proof -
  have "strptime ''2024-01-01T00:00:00+00:00'' = Inl ValueError" by code_simp
  then show ?thesis by (simp add: convert_to_pdt_def)
qed

lemma plain_timestamp_world_report:
  "process_deployment plain_timestamp_world demo_project demo_environment = Some None"
proof -
  have "resolve_deployments plain_timestamp_world demo_environment
          [deployment_record ''1'' ''2024-01-01T00:00:00+00:00''] = Inl ValueError"
    by (simp add: resolve_deployments_Cons plain_timestamp_world_fetches latest_output_def
          plain_timestamp_rejected)
  then show ?thesis
    by (simp add: process_deployment_eq(2) [OF plain_timestamp_world_history])
qed

lemma stateless_world_history:
  "fetch_deployments_with_pagination stateless_world demo_project demo_environment
     = Some (Inr [deployment_record ''3'' ''2024-07-04T12:30:15.123+00:00''])"
proof (rule single_page)
  show "page_items (page_response stateless_world demo_project demo_environment 0)
          = Some [deployment_record ''3'' ''2024-07-04T12:30:15.123+00:00'']"
    by code_simp
  show "int (length [deployment_record ''3'' ''2024-07-04T12:30:15.123+00:00'']) < take_size"
    by (simp add: take_size_def)
qed

lemma stateless_world_fetches:
  "fetch_release stateless_world (deployment_record ''3'' ''2024-07-04T12:30:15.123+00:00'')
     = Inr (JObj [(''Version'', JStr ''1.3.0'')])"
  "fetch_task stateless_world (deployment_record ''3'' ''2024-07-04T12:30:15.123+00:00'')
     = Inr (JObj [(''Id'', JStr ''ServerTasks-3'')])"
  by code_simp+

lemma stateless_world_report:
  "process_deployment stateless_world demo_project demo_environment
     = Some (Some (demo_environment,
         stateless_report))"
proof -
  have off: "los_angeles_utcoffset stateless_world 1720096215 = - 25200"
    by (simp add: stateless_world_def serve_utcoffset us_pacific_offsets)
  have "resolve_deployments stateless_world demo_environment
          [deployment_record ''3'' ''2024-07-04T12:30:15.123+00:00'']
        = Inr (Some (demo_environment,
         stateless_report))"
    by (simp add: resolve_deployments_Cons stateless_world_fetches latest_output_def
          convert_july off stateless_report_def)
  then show ?thesis
    by (simp add: process_deployment_eq(2) [OF stateless_world_history])
qed

lemma latest_release_gone_world_history:
  "fetch_deployments_with_pagination latest_release_gone_world demo_project demo_environment
     = Some (Inr [deployment_record ''3'' ''2024-07-03T09:00:00.000+00:00''])"
proof (rule single_page)
  show "page_items (page_response latest_release_gone_world demo_project demo_environment 0)
          = Some [deployment_record ''3'' ''2024-07-03T09:00:00.000+00:00'']"
    by code_simp
  show "int (length [deployment_record ''3'' ''2024-07-03T09:00:00.000+00:00'']) < take_size"
    by (simp add: take_size_def)
qed

lemma latest_release_gone_world_fetches:
  "fetch_release latest_release_gone_world (deployment_record ''3'' ''2024-07-03T09:00:00.000+00:00'')
     = Inr JNull"
  "fetch_task latest_release_gone_world (deployment_record ''3'' ''2024-07-03T09:00:00.000+00:00'')
     = Inr (JObj [(''State'', JStr ''Success'')])"
  by code_simp+

lemma empty_world_history:
  "fetch_deployments_with_pagination (serve []) demo_project demo_environment = Some (Inr [])"
proof (rule no_page)
  show "page_response (serve []) demo_project demo_environment 0 = Inr JNull"
    by (simp add: page_response_def make_api_request_def serve_def)
qed

lemma failed_world_states:
  "task_state failed_world (deployment_record ''4'' ''2024-07-04T12:30:15.123+00:00'')
     = Some (JStr ''Failed'')"
  "\<not> is_successful failed_world (deployment_record ''3'' ''2024-07-03T09:00:00.000+00:00'')"
  "\<not> scan_raises failed_world (deployment_record ''3'' ''2024-07-03T09:00:00.000+00:00'')"
  "is_successful failed_world (deployment_record ''2'' ''2024-01-01T00:00:00.000000+00:00'')"
  by (simp_all add: task_state_def is_successful_def scan_raises_def failed_world_fetches)

subsection \<open>The timestamp conversion\<close>

text \<open>
  Claim C9. The specification asks that \<open>2024-01-01T00:00:00.000000+00:00\<close> be shown as the
  Los Angeles time of that date with that date's zone designation. The code converts the
  instant with the zone's offset, UTC-8 on that date, and then writes the literal \<open>PDT\<close>
  of its format string after it, as it does after every timestamp it converts: the result
  is \<open>2023-12-31 16:00:00 PDT\<close>, a standard-time reading under the daylight-time name.
\<close>

theorem convert_to_pdt_labels_every_date_pdt:
  "(los_angeles_utcoffset w 1704067200 = - 28800
      \<longrightarrow> convert_to_pdt w (JStr ''2024-01-01T00:00:00.000000+00:00'')
            = Inr ''2023-12-31 16:00:00 PDT'')
   \<and> (convert_to_pdt w t = Inr s \<longrightarrow> (\<exists>body. s = body @ '' PDT''))"
proof -
  have suffix: "\<exists>body. a @ CHR ''-'' # b @ CHR ''-'' # c @ CHR '' '' # d @ CHR '':'' # e
                   @ CHR '':'' # f @ '' PDT'' = body @ '' PDT''"
    for a b c d e f :: string
    by (rule exI [of _ "a @ CHR ''-'' # b @ CHR ''-'' # c @ CHR '' '' # d @ CHR '':'' # e
                          @ CHR '':'' # f"]) simp
  have "\<exists>body. s = body @ '' PDT''" if "convert_to_pdt w t = Inr s"
  proof -
    from that obtain dt where "s = strftime_pdt dt"
      by (cases t) (auto simp: convert_to_pdt_def bind_exn_eq_Inr)
    then show ?thesis
      using suffix by (simp add: strftime_pdt_def Let_def split: prod.splits)
  qed
  with convert_new_year [of w] show ?thesis by blast
qed

theorem convert_to_pdt_labels_every_date_pdt_witness:
  "los_angeles_utcoffset (serve []) 1704067200 = - 28800
   \<and> convert_to_pdt (serve []) (JStr ''2024-01-01T00:00:00.000000+00:00'')
       = Inr ''2023-12-31 16:00:00 PDT''"
proof -
  have off: "los_angeles_utcoffset (serve []) 1704067200 = - 28800"
    by (simp add: serve_utcoffset us_pacific_offsets)
  with convert_to_pdt_labels_every_date_pdt [of "serve []"] show ?thesis by blast
qed

subsection \<open>When the resolver emits a report\<close>

lemma last_successful_of_values:
  "last_successful_of w d = Inr (sv, sd) \<longleftrightarrow>
     (\<exists>success_release created.
        fetch_release w d = Inr success_release
        \<and> py_getitem success_release ''Version'' = Inr sv
        \<and> py_getitem d ''Created'' = Inr created
        \<and> convert_to_pdt w created = Inr sd)"
  unfolding last_successful_of_eq by (auto simp: bind_exn_eq_Inr)

lemma not_isl_iff: "\<not> isl r \<longleftrightarrow> (\<exists>v. r = Inr v)"
  by (cases r) simp_all

lemma has_success_values_iff:
  "has_success_values w d \<longleftrightarrow> (\<exists>found. last_successful_of w d = Inr found)"
proof
  assume "has_success_values w d"
  then obtain success_release sv created sd where
    "fetch_release w d = Inr success_release" "py_getitem success_release ''Version'' = Inr sv"
    "py_getitem d ''Created'' = Inr created" "convert_to_pdt w created = Inr sd"
    by (auto simp: has_success_values_def not_isl_iff split: sum.splits)
  then have "last_successful_of w d = Inr (sv, sd)"
    unfolding last_successful_of_values by blast
  then show "\<exists>found. last_successful_of w d = Inr found" by blast
next
  assume "\<exists>found. last_successful_of w d = Inr found"
  then obtain sv sd where "last_successful_of w d = Inr (sv, sd)" by auto
  then show "has_success_values w d"
    unfolding last_successful_of_values by (auto simp: has_success_values_def)
qed

lemma scan_completes_iff:
  "scan_completes w ds \<longleftrightarrow> (\<exists>found. find_last_successful w ds = Inr found)"
proof (induction ds)
  case Nil
  then show ?case by simp
next
  case (Cons d rest)
  show ?case
  proof (cases "fetch_task w d")
    case (Inl x)
    then show ?thesis
      unfolding find_last_successful_step by (simp add: scan_raises_def)
  next
    case (Inr task)
    show ?thesis
    proof (cases "truthy task")
      case False
      with Inr have "\<not> scan_raises w d" "\<not> is_successful w d"
        by (simp_all add: scan_raises_def is_successful_iff)
      with Inr False Cons.IH show ?thesis
        unfolding find_last_successful_step by simp
    next
      case True
      show ?thesis
      proof (cases "py_get task ''State'' (JStr ''Unknown'')")
        case (Inl x)
        with Inr True show ?thesis
          unfolding find_last_successful_step by (simp add: scan_raises_def)
      next
        case state: (Inr state)
        with Inr True have clean: "\<not> scan_raises w d"
          and succ: "is_successful w d \<longleftrightarrow> state = JStr ''Success''"
          by (simp_all add: scan_raises_def is_successful_iff)
        show ?thesis
        proof (cases "state = JStr ''Success''")
          case False
          with Inr True state clean succ Cons.IH show ?thesis
            unfolding find_last_successful_step by simp
        next
          case success: True
          with Inr True state have
            "find_last_successful w (d # rest)
               = bind_exn (last_successful_of w d) (\<lambda>found. Inr (Some found))"
            unfolding find_last_successful_step by simp
          then have "(\<exists>found. find_last_successful w (d # rest) = Inr found)
                       \<longleftrightarrow> has_success_values w d"
            unfolding has_success_values_iff by (auto simp: bind_exn_eq_Inr)
          with clean succ success show ?thesis by simp
        qed
      qed
    qed
  qed
qed

lemma find_last_successful_found:
  assumes "\<forall>x\<in>set pre. \<not> is_successful w x \<and> \<not> scan_raises w x"
    and "is_successful w d" and "last_successful_of w d = Inr found"
  shows "find_last_successful w (pre @ d # post) = Inr (Some found)"
  using assms(1)
proof (induction pre)
  case Nil
  from assms(2) obtain task where "fetch_task w d = Inr task" "truthy task"
    "py_get task ''State'' (JStr ''Unknown'') = Inr (JStr ''Success'')"
    unfolding is_successful_iff by blast
  with assms(3) show ?case
    unfolding append_Nil find_last_successful_step by simp
next
  case (Cons x pre)
  then have x: "\<not> is_successful w x" "\<not> scan_raises w x"
    and rest: "find_last_successful w (pre @ d # post) = Inr (Some found)" by auto
  from x(2) obtain task where task: "fetch_task w x = Inr task"
    by (auto simp: scan_raises_def split: sum.splits)
  show ?case
  proof (cases "truthy task")
    case False
    with task rest show ?thesis
      unfolding append_Cons find_last_successful_step by simp
  next
    case True
    with x(2) task obtain state where state: "py_get task ''State'' (JStr ''Unknown'') = Inr state"
      by (cases "py_get task ''State'' (JStr ''Unknown'')") (auto simp: scan_raises_def)
    with x(1) task True have "state \<noteq> JStr ''Success''"
      by (auto simp: is_successful_iff)
    with task True state rest show ?thesis
      unfolding append_Cons find_last_successful_step by simp
  qed
qed

lemma latest_output_values:
  "latest_output w latest release = Inr outp \<longleftrightarrow>
     (\<exists>v rnotes created date.
        py_getitem release ''Version'' = Inr v
        \<and> py_get release ''ReleaseNotes'' JNull = Inr rnotes
        \<and> py_getitem latest ''Created'' = Inr created
        \<and> convert_to_pdt w created = Inr date
        \<and> outp = \<lparr>version = v, release_notes = rnotes, deployment_date = date,
                   failed = None, last_successful_version = None,
                   last_successful_date = None, env_name = None\<rparr>)"
  unfolding latest_output_def by (auto simp: bind_exn_eq_Inr)

lemma resolve_deployments_emits:
  assumes "fetch_release w latest = Inr release" "truthy release"
    and "fetch_task w latest = Inr task" "truthy task"
    and "py_get task ''State'' (JStr ''Unknown'') = Inr state"
    and "latest_output w latest release = Inr outp"
  shows "resolve_deployments w e (latest # older) =
           (if state = JStr ''Failed''
            then bind_exn (find_last_successful w older) (\<lambda>found.
                   Inr (Some (e, mark_failed outp found)))
            else Inr (Some (e, outp)))"
  unfolding resolve_deployments_Cons using assms by simp

lemma task_state_failedD:
  assumes "task_state w d = Some state"
  shows "\<exists>task. fetch_task w d = Inr task \<and> truthy task
           \<and> py_get task ''State'' (JStr ''Unknown'') = Inr state"
  using assms by (auto simp: task_state_def split: sum.splits if_splits)

lemma plain_timestamp_world_raises:
  "process_deployment_body plain_timestamp_world demo_project demo_environment
     = Some (Inl ValueError)"
proof -
  have "resolve_deployments plain_timestamp_world demo_environment
          [deployment_record ''1'' ''2024-01-01T00:00:00+00:00''] = Inl ValueError"
    by (simp add: resolve_deployments_Cons plain_timestamp_world_fetches latest_output_def
          plain_timestamp_rejected)
  then show ?thesis
    by (simp add: process_deployment_eq(1) [OF plain_timestamp_world_history])
qed

lemma failed_world_scan_completes: "scan_completes failed_world (tl demo_history)"
  unfolding scan_completes_iff using failed_world_scan by simp

subsection \<open>Presence of a report\<close>

text \<open>
  Claim C1, as amended. When the paginated list is empty the resolver returns \<open>None\<close>.
  A list that is not empty is not enough for a report, and neither is it with both
  fetches succeeding. The resolver returns a report exactly when the list has a first
  record, the latest, whose release and task are both fetched and are not empty, the task
  is a dict, the release is a dict with a \<open>Version\<close>, the record has a \<open>Created\<close> that
  the conversion accepts and, if the task's state is \<open>Failed\<close>, the scan over the older
  records completes; the report is for the environment asked for and carries the
  release's \<open>Version\<close> and \<open>ReleaseNotes\<close> and the converted \<open>Created\<close>. An exception
  raised anywhere in the \<open>try\<close> block gives \<open>None\<close>.
\<close>

theorem report_presence:
  "(fetch_deployments_with_pagination w p e = Some (Inr []) \<longrightarrow> process_deployment w p e = Some None)
   \<and> (process_deployment w p e = Some (Some r)
        \<longrightarrow> (\<exists>latest older release task state v rnotes created date.
               fetch_deployments_with_pagination w p e = Some (Inr (latest # older))
               \<and> fetch_release w latest = Inr release \<and> truthy release
               \<and> fetch_task w latest = Inr task \<and> truthy task
               \<and> py_get task ''State'' (JStr ''Unknown'') = Inr state
               \<and> py_getitem release ''Version'' = Inr v
               \<and> py_get release ''ReleaseNotes'' JNull = Inr rnotes
               \<and> py_getitem latest ''Created'' = Inr created
               \<and> convert_to_pdt w created = Inr date
               \<and> (state = JStr ''Failed'' \<longrightarrow> scan_completes w older)
               \<and> fst r = e \<and> version (snd r) = v \<and> release_notes (snd r) = rnotes
               \<and> deployment_date (snd r) = date))
   \<and> (fetch_deployments_with_pagination w p e = Some (Inr (latest # older))
        \<and> fetch_release w latest = Inr release \<and> truthy release
        \<and> fetch_task w latest = Inr task \<and> truthy task
        \<and> py_get task ''State'' (JStr ''Unknown'') = Inr state
        \<and> py_getitem release ''Version'' = Inr v
        \<and> py_get release ''ReleaseNotes'' JNull = Inr rnotes
        \<and> py_getitem latest ''Created'' = Inr created
        \<and> convert_to_pdt w created = Inr date
        \<and> (state = JStr ''Failed'' \<longrightarrow> scan_completes w older)
        \<longrightarrow> (\<exists>out. process_deployment w p e = Some (Some (e, out))
                \<and> version out = v \<and> release_notes out = rnotes \<and> deployment_date out = date))
   \<and> (process_deployment_body w p e = Some (Inl x) \<longrightarrow> process_deployment w p e = Some None)"
proof (intro conjI impI)
  assume "fetch_deployments_with_pagination w p e = Some (Inr [])"
  then show "process_deployment w p e = Some None"
    by (simp add: process_deployment_eq resolve_deployments_Nil)
next
  assume "process_deployment w p e = Some (Some r)"
  from process_deployment_report [OF this] obtain latest older where
    ds: "fetch_deployments_with_pagination w p e = Some (Inr (latest # older))"
    and res: "resolve_deployments w e (latest # older) = Inr (Some r)" by blast
  obtain eid out where r: "r = (eid, out)" by (cases r)
  from resolve_deployments_report [OF res [unfolded r]] obtain release task state outp where
    parts: "eid = e" "fetch_release w latest = Inr release" "truthy release"
      "fetch_task w latest = Inr task" "truthy task"
      "py_get task ''State'' (JStr ''Unknown'') = Inr state"
      "latest_output w latest release = Inr outp"
    and out: "if state = JStr ''Failed''
              then \<exists>found. find_last_successful w older = Inr found \<and> out = mark_failed outp found
              else out = outp" by blast
  from parts(7) obtain v rnotes created date where
    fields: "py_getitem release ''Version'' = Inr v"
      "py_get release ''ReleaseNotes'' JNull = Inr rnotes"
      "py_getitem latest ''Created'' = Inr created" "convert_to_pdt w created = Inr date"
    and outp: "outp = \<lparr>version = v, release_notes = rnotes, deployment_date = date,
                   failed = None, last_successful_version = None,
                   last_successful_date = None, env_name = None\<rparr>"
    unfolding latest_output_values by blast
  from out have scan: "state = JStr ''Failed'' \<longrightarrow> scan_completes w older"
    unfolding scan_completes_iff by auto
  from out outp have vals: "version out = v" "release_notes out = rnotes"
    "deployment_date out = date"
    by (auto simp: mark_failed_def split: if_splits)
  from ds parts fields scan vals r
  have "fetch_deployments_with_pagination w p e = Some (Inr (latest # older))
               \<and> fetch_release w latest = Inr release \<and> truthy release
               \<and> fetch_task w latest = Inr task \<and> truthy task
               \<and> py_get task ''State'' (JStr ''Unknown'') = Inr state
               \<and> py_getitem release ''Version'' = Inr v
               \<and> py_get release ''ReleaseNotes'' JNull = Inr rnotes
               \<and> py_getitem latest ''Created'' = Inr created
               \<and> convert_to_pdt w created = Inr date
               \<and> (state = JStr ''Failed'' \<longrightarrow> scan_completes w older)
               \<and> fst r = e \<and> version (snd r) = v \<and> release_notes (snd r) = rnotes
               \<and> deployment_date (snd r) = date"
    by simp
  then show "\<exists>latest older release task state v rnotes created date.
               fetch_deployments_with_pagination w p e = Some (Inr (latest # older))
               \<and> fetch_release w latest = Inr release \<and> truthy release
               \<and> fetch_task w latest = Inr task \<and> truthy task
               \<and> py_get task ''State'' (JStr ''Unknown'') = Inr state
               \<and> py_getitem release ''Version'' = Inr v
               \<and> py_get release ''ReleaseNotes'' JNull = Inr rnotes
               \<and> py_getitem latest ''Created'' = Inr created
               \<and> convert_to_pdt w created = Inr date
               \<and> (state = JStr ''Failed'' \<longrightarrow> scan_completes w older)
               \<and> fst r = e \<and> version (snd r) = v \<and> release_notes (snd r) = rnotes
               \<and> deployment_date (snd r) = date"
    by (intro exI)
next
  assume a: "fetch_deployments_with_pagination w p e = Some (Inr (latest # older))
        \<and> fetch_release w latest = Inr release \<and> truthy release
        \<and> fetch_task w latest = Inr task \<and> truthy task
        \<and> py_get task ''State'' (JStr ''Unknown'') = Inr state
        \<and> py_getitem release ''Version'' = Inr v
        \<and> py_get release ''ReleaseNotes'' JNull = Inr rnotes
        \<and> py_getitem latest ''Created'' = Inr created
        \<and> convert_to_pdt w created = Inr date
        \<and> (state = JStr ''Failed'' \<longrightarrow> scan_completes w older)"
  define outp where "outp = \<lparr>version = v, release_notes = rnotes, deployment_date = date,
                   failed = None, last_successful_version = None,
                   last_successful_date = None, env_name = None\<rparr>"
  from a have f: "fetch_deployments_with_pagination w p e = Some (Inr (latest # older))"
    by simp
  from a have base: "latest_output w latest release = Inr outp"
    unfolding latest_output_values outp_def by blast
  from a have fetched: "fetch_release w latest = Inr release" "truthy release"
    "fetch_task w latest = Inr task" "truthy task"
    "py_get task ''State'' (JStr ''Unknown'') = Inr state" by simp_all
  note res = resolve_deployments_emits [OF fetched base, of e older]
  have "\<exists>out. resolve_deployments w e (latest # older) = Inr (Some (e, out))
          \<and> version out = v \<and> release_notes out = rnotes \<and> deployment_date out = date"
  proof (cases "state = JStr ''Failed''")
    case False
    with res show ?thesis by (simp add: outp_def)
  next
    case True
    with a have "scan_completes w older" by simp
    then obtain found where "find_last_successful w older = Inr found"
      unfolding scan_completes_iff by blast
    with res True show ?thesis by (simp add: outp_def mark_failed_def)
  qed
  then show "\<exists>out. process_deployment w p e = Some (Some (e, out))
                \<and> version out = v \<and> release_notes out = rnotes \<and> deployment_date out = date"
    by (auto simp: process_deployment_eq(2) [OF f])
next
  assume "process_deployment_body w p e = Some (Inl x)"
  then show "process_deployment w p e = Some None"
    by (simp add: process_deployment_def)
qed

theorem report_presence_witness:
  "process_deployment (serve []) demo_project demo_environment = Some None
   \<and> (\<exists>out. process_deployment failed_world demo_project demo_environment
               = Some (Some (demo_environment, out))
         \<and> version out = JStr ''1.4.0'' \<and> release_notes out = JStr ''fix''
         \<and> deployment_date out = ''2024-07-04 05:30:15 PDT'')
   \<and> (\<exists>older release task.
         fetch_deployments_with_pagination failed_world demo_project demo_environment
           = Some (Inr (deployment_record ''4'' ''2024-07-04T12:30:15.123+00:00'' # older))
         \<and> fetch_release failed_world (deployment_record ''4'' ''2024-07-04T12:30:15.123+00:00'')
             = Inr release \<and> truthy release
         \<and> fetch_task failed_world (deployment_record ''4'' ''2024-07-04T12:30:15.123+00:00'')
             = Inr task \<and> truthy task)
   \<and> process_deployment_body plain_timestamp_world demo_project demo_environment
       = Some (Inl ValueError)
   \<and> process_deployment plain_timestamp_world demo_project demo_environment = Some None"
proof -
  let ?latest = "deployment_record ''4'' ''2024-07-04T12:30:15.123+00:00''"
  let ?release = "JObj [(''Version'', JStr ''1.4.0''), (''ReleaseNotes'', JStr ''fix'')]"
  let ?task = "JObj [(''State'', JStr ''Failed'')]"
  have h: "demo_history = ?latest # tl demo_history"
    by (simp add: demo_history_def)
  have hist: "fetch_deployments_with_pagination failed_world demo_project demo_environment
                = Some (Inr (?latest # tl demo_history))"
    using failed_world_history h by simp
  have fields: "truthy ?release" "truthy ?task"
    "py_get ?task ''State'' (JStr ''Unknown'') = Inr (JStr ''Failed'')"
    "py_getitem ?release ''Version'' = Inr (JStr ''1.4.0'')"
    "py_get ?release ''ReleaseNotes'' JNull = Inr (JStr ''fix'')"
    "py_getitem ?latest ''Created'' = Inr (JStr ''2024-07-04T12:30:15.123+00:00'')"
    by simp_all
  have date: "convert_to_pdt failed_world (JStr ''2024-07-04T12:30:15.123+00:00'')
                = Inr ''2024-07-04 05:30:15 PDT''"
    by (rule convert_july) (rule failed_world_offsets)
  have empty: "process_deployment (serve []) demo_project demo_environment = Some None"
    by (rule report_presence [where w = "serve []" and p = demo_project
               and e = demo_environment, THEN conjunct1, rule_format])
       (rule empty_world_history)
  have emitted: "\<exists>out. process_deployment failed_world demo_project demo_environment
               = Some (Some (demo_environment, out))
         \<and> version out = JStr ''1.4.0'' \<and> release_notes out = JStr ''fix''
         \<and> deployment_date out = ''2024-07-04 05:30:15 PDT''"
    by (rule report_presence [where w = failed_world and p = demo_project
               and e = demo_environment
               and latest = ?latest and older = "tl demo_history" and release = ?release
               and task = ?task and state = "JStr ''Failed''" and v = "JStr ''1.4.0''"
               and rnotes = "JStr ''fix''" and created = "JStr ''2024-07-04T12:30:15.123+00:00''"
               and date = "''2024-07-04 05:30:15 PDT''",
               THEN conjunct2, THEN conjunct2, THEN conjunct1, THEN mp])
       (intro conjI impI hist failed_world_fetches(1,2) fields date failed_world_scan_completes)
  note report_presence [where w = failed_world and p = demo_project and e = demo_environment
          and r = "(demo_environment, demo_report)", THEN conjunct2, THEN conjunct1,
          rule_format, OF failed_world_report]
  then obtain latest older release task where origin:
    "fetch_deployments_with_pagination failed_world demo_project demo_environment
       = Some (Inr (latest # older))"
    "fetch_release failed_world latest = Inr release" "truthy release"
    "fetch_task failed_world latest = Inr task" "truthy task"
    by blast
  from origin(1) hist have "latest = ?latest" by simp
  with origin have traced: "\<exists>older release task.
         fetch_deployments_with_pagination failed_world demo_project demo_environment
           = Some (Inr (?latest # older))
         \<and> fetch_release failed_world ?latest = Inr release \<and> truthy release
         \<and> fetch_task failed_world ?latest = Inr task \<and> truthy task"
    by blast
  have caught: "process_deployment plain_timestamp_world demo_project demo_environment = Some None"
    by (rule report_presence [where w = plain_timestamp_world and p = demo_project
               and e = demo_environment and x = ValueError,
               THEN conjunct2, THEN conjunct2, THEN conjunct2, rule_format])
       (rule plain_timestamp_world_raises)
  show ?thesis
    by (intro conjI empty emitted traced plain_timestamp_world_raises caught)
qed

text \<open>
  The claim as stated fails: a history of one deployment whose release and task are both
  fetched, and whose \<open>Created\<close> has no fractional seconds, gives no report, because
  \<open>strptime\<close> rejects the timestamp and the exception is turned into \<open>None\<close>.
\<close>

theorem report_presence_counterexample:
  "fetch_deployments_with_pagination plain_timestamp_world demo_project demo_environment
     = Some (Inr [deployment_record ''1'' ''2024-01-01T00:00:00+00:00''])
   \<and> fetch_release plain_timestamp_world (deployment_record ''1'' ''2024-01-01T00:00:00+00:00'')
       = Inr (JObj [(''Version'', JStr ''1.1.0'')])
   \<and> truthy (JObj [(''Version'', JStr ''1.1.0'')])
   \<and> fetch_task plain_timestamp_world (deployment_record ''1'' ''2024-01-01T00:00:00+00:00'')
       = Inr (JObj [(''State'', JStr ''Success'')])
   \<and> truthy (JObj [(''State'', JStr ''Success'')])
   \<and> process_deployment plain_timestamp_world demo_project demo_environment = Some None"
  by (simp add: plain_timestamp_world_history plain_timestamp_world_fetches
        plain_timestamp_world_report)

subsection \<open>The failed flag\<close>

text \<open>
  Claim C3. For every report the resolver emits, the history it was built from is not
  empty, and the report carries \<open>failed = True\<close> exactly when the state of the latest
  (first) deployment's task is \<open>Failed\<close>; otherwise the key \<open>failed\<close> is absent.
\<close>

theorem failed_flag_iff_latest_task_failed:
  assumes "process_deployment w p e = Some (Some (eid, out))"
  shows "\<exists>latest older. fetch_deployments_with_pagination w p e = Some (Inr (latest # older))
           \<and> (failed out = Some True \<longleftrightarrow> task_state w latest = Some (JStr ''Failed''))
           \<and> (failed out \<noteq> Some True \<longrightarrow> failed out = None)"
proof -
  from process_deployment_report [OF assms] obtain latest older where
    ds: "fetch_deployments_with_pagination w p e = Some (Inr (latest # older))"
    and res: "resolve_deployments w e (latest # older) = Inr (Some (eid, out))" by blast
  from resolve_deployments_report [OF res] obtain release task state outp where
    task: "fetch_task w latest = Inr task" "truthy task"
      "py_get task ''State'' (JStr ''Unknown'') = Inr state"
    and out: "if state = JStr ''Failed''
              then \<exists>found. find_last_successful w older = Inr found \<and> out = mark_failed outp found
              else out = outp"
    and base: "latest_output w latest release = Inr outp" by blast
  from base have "failed outp = None"
    by (auto simp: latest_output_def bind_exn_eq_Inr)
  with out have "failed out = (if state = JStr ''Failed'' then Some True else None)"
    by (auto simp: mark_failed_def split: if_splits)
  with ds task_state_eq [OF task] show ?thesis by auto
qed

theorem failed_flag_iff_latest_task_failed_witness:
  "process_deployment failed_world demo_project demo_environment
     = Some (Some (demo_environment, demo_report))
   \<and> failed demo_report = Some True
   \<and> task_state failed_world (hd demo_history) = Some (JStr ''Failed'')"
proof -
  from failed_flag_iff_latest_task_failed [OF failed_world_report] obtain latest older where
    "fetch_deployments_with_pagination failed_world demo_project demo_environment
       = Some (Inr (latest # older))"
    and iff: "failed demo_report = Some True
                \<longleftrightarrow> task_state failed_world latest = Some (JStr ''Failed'')"
    by blast
  with failed_world_history have "demo_history = latest # older" by simp
  then have "latest = hd demo_history" by (metis list.sel(1))
  moreover have "failed demo_report = Some True" by (simp add: demo_report_def)
  ultimately show ?thesis using iff failed_world_report by simp
qed

subsection \<open>The last successful deployment\<close>

lemma stale_world_history:
  "fetch_deployments_with_pagination stale_world demo_project demo_environment
     = Some (Inr [deployment_record ''4'' ''2024-07-04T12:30:15.123+00:00'',
                  deployment_record ''3'' ''2024-07-03T09:00:00.000+00:00''])"
proof (rule single_page)
  show "page_items (page_response stale_world demo_project demo_environment 0)
          = Some [deployment_record ''4'' ''2024-07-04T12:30:15.123+00:00'',
                  deployment_record ''3'' ''2024-07-03T09:00:00.000+00:00'']"
    by code_simp
  show "int (length [deployment_record ''4'' ''2024-07-04T12:30:15.123+00:00'',
                     deployment_record ''3'' ''2024-07-03T09:00:00.000+00:00'']) < take_size"
    by (simp add: take_size_def)
qed

lemma stale_world_fetches:
  "fetch_release stale_world (deployment_record ''4'' ''2024-07-04T12:30:15.123+00:00'')
     = Inr (JObj [(''Version'', JStr ''1.4.0''), (''ReleaseNotes'', JStr ''fix'')])"
  by code_simp

lemma stale_world_tasks:
  "fetch_task stale_world (deployment_record ''4'' ''2024-07-04T12:30:15.123+00:00'')
     = Inr (JObj [(''State'', JStr ''Failed'')])"
  "fetch_task stale_world (deployment_record ''3'' ''2024-07-03T09:00:00.000+00:00'')
     = Inr (JObj [(''Id'', JStr ''ServerTasks-3'')])"
  by code_simp+

lemma stale_world_states:
  "task_state stale_world (deployment_record ''4'' ''2024-07-04T12:30:15.123+00:00'')
     = Some (JStr ''Failed'')"
  "\<not> is_successful stale_world (deployment_record ''3'' ''2024-07-03T09:00:00.000+00:00'')"
  "\<not> scan_raises stale_world (deployment_record ''3'' ''2024-07-03T09:00:00.000+00:00'')"
  by (simp_all add: task_state_def is_successful_def scan_raises_def stale_world_tasks)

text \<open>
  Claim C2, as amended. Take a history whose latest deployment has a task in state
  \<open>Failed\<close>, a release that is fetched and has a \<open>Version\<close>, and a \<open>Created\<close> that the
  conversion accepts. If the remainder of the history, in the order the paginator
  returned, has a record whose task is in state \<open>Success\<close>, no task lookup raises on the
  records before the first such record, and that record's release is fetched with a
  \<open>Version\<close> and its \<open>Created\<close> is accepted by the conversion, then the resolver emits
  the report of the latest deployment with \<open>failed\<close> set and with that release's
  \<open>Version\<close> and that record's converted \<open>Created\<close> as the last-successful version and
  date, whatever follows that record. If no record of the remainder is successful and no
  task lookup raises, the resolver emits the report with \<open>failed\<close> set and the two keys
  absent. And whenever a report is emitted for a history whose latest task state is
  \<open>Failed\<close>, its last-successful values are the \<open>Version\<close> of the release and the
  converted \<open>Created\<close> of the first successful record of the remainder, or are absent
  when there is none.
\<close>

theorem last_successful_is_first_success:
  "(fetch_deployments_with_pagination w p e = Some (Inr (latest # pre @ d # post))
      \<and> task_state w latest = Some (JStr ''Failed'')
      \<and> fetch_release w latest = Inr release \<and> truthy release
      \<and> py_getitem release ''Version'' = Inr v
      \<and> py_get release ''ReleaseNotes'' JNull = Inr rnotes
      \<and> py_getitem latest ''Created'' = Inr created
      \<and> convert_to_pdt w created = Inr date
      \<and> (\<forall>x\<in>set pre. \<not> is_successful w x \<and> \<not> scan_raises w x)
      \<and> is_successful w d
      \<and> fetch_release w d = Inr success_release
      \<and> py_getitem success_release ''Version'' = Inr sv
      \<and> py_getitem d ''Created'' = Inr success_created
      \<and> convert_to_pdt w success_created = Inr sd
    \<longrightarrow> process_deployment w p e
          = Some (Some (e, \<lparr>version = v, release_notes = rnotes, deployment_date = date,
                            failed = Some True, last_successful_version = Some sv,
                            last_successful_date = Some sd, env_name = None\<rparr>)))
   \<and> (fetch_deployments_with_pagination w p e = Some (Inr (latest # older))
      \<and> task_state w latest = Some (JStr ''Failed'')
      \<and> fetch_release w latest = Inr release \<and> truthy release
      \<and> py_getitem release ''Version'' = Inr v
      \<and> py_get release ''ReleaseNotes'' JNull = Inr rnotes
      \<and> py_getitem latest ''Created'' = Inr created
      \<and> convert_to_pdt w created = Inr date
      \<and> (\<forall>x\<in>set older. \<not> is_successful w x \<and> \<not> scan_raises w x)
    \<longrightarrow> process_deployment w p e
          = Some (Some (e, \<lparr>version = v, release_notes = rnotes, deployment_date = date,
                            failed = Some True, last_successful_version = None,
                            last_successful_date = None, env_name = None\<rparr>)))
   \<and> (process_deployment w p e = Some (Some (eid, out))
      \<and> fetch_deployments_with_pagination w p e = Some (Inr (latest # older))
      \<and> task_state w latest = Some (JStr ''Failed'')
    \<longrightarrow> (case find (is_successful w) older of
           None \<Rightarrow> last_successful_version out = None \<and> last_successful_date out = None
         | Some first_success \<Rightarrow>
             \<exists>success_release sv success_created sd.
               fetch_release w first_success = Inr success_release
               \<and> py_getitem success_release ''Version'' = Inr sv
               \<and> py_getitem first_success ''Created'' = Inr success_created
               \<and> convert_to_pdt w success_created = Inr sd
               \<and> last_successful_version out = Some sv \<and> last_successful_date out = Some sd))"
proof -
  have emit: "process_deployment w p e
                = Some (Some (e, \<lparr>version = v, release_notes = rnotes, deployment_date = date,
                                  failed = Some True,
                                  last_successful_version = map_option fst found,
                                  last_successful_date = map_option snd found,
                                  env_name = None\<rparr>))"
    if f: "fetch_deployments_with_pagination w p e = Some (Inr (latest # older))"
      and failed: "task_state w latest = Some (JStr ''Failed'')"
      and release: "fetch_release w latest = Inr release" "truthy release"
      and fields: "py_getitem release ''Version'' = Inr v"
        "py_get release ''ReleaseNotes'' JNull = Inr rnotes"
        "py_getitem latest ''Created'' = Inr created" "convert_to_pdt w created = Inr date"
      and scan: "find_last_successful w older = Inr found"
    for older found
  proof -
    define outp where "outp = \<lparr>version = v, release_notes = rnotes, deployment_date = date,
                   failed = None, last_successful_version = None,
                   last_successful_date = None, env_name = None\<rparr>"
    from task_state_failedD [OF failed] obtain task where
      task: "fetch_task w latest = Inr task" "truthy task"
        "py_get task ''State'' (JStr ''Unknown'') = Inr (JStr ''Failed'')" by blast
    from fields have base: "latest_output w latest release = Inr outp"
      unfolding latest_output_values outp_def by blast
    from resolve_deployments_emits [OF release task base, of e older] scan
    have "resolve_deployments w e (latest # older) = Inr (Some (e, mark_failed outp found))"
      by simp
    then show ?thesis
      by (simp add: process_deployment_eq(2) [OF f] mark_failed_def outp_def)
  qed
  have first: "process_deployment w p e
          = Some (Some (e, \<lparr>version = v, release_notes = rnotes, deployment_date = date,
                            failed = Some True, last_successful_version = Some sv,
                            last_successful_date = Some sd, env_name = None\<rparr>))"
    if a: "fetch_deployments_with_pagination w p e = Some (Inr (latest # pre @ d # post))
      \<and> task_state w latest = Some (JStr ''Failed'')
      \<and> fetch_release w latest = Inr release \<and> truthy release
      \<and> py_getitem release ''Version'' = Inr v
      \<and> py_get release ''ReleaseNotes'' JNull = Inr rnotes
      \<and> py_getitem latest ''Created'' = Inr created
      \<and> convert_to_pdt w created = Inr date
      \<and> (\<forall>x\<in>set pre. \<not> is_successful w x \<and> \<not> scan_raises w x)
      \<and> is_successful w d
      \<and> fetch_release w d = Inr success_release
      \<and> py_getitem success_release ''Version'' = Inr sv
      \<and> py_getitem d ''Created'' = Inr success_created
      \<and> convert_to_pdt w success_created = Inr sd"
  proof -
    from a have "last_successful_of w d = Inr (sv, sd)"
      unfolding last_successful_of_values by blast
    with a have "find_last_successful w (pre @ d # post) = Inr (Some (sv, sd))"
      by (intro find_last_successful_found) simp_all
    from emit [OF _ _ _ _ _ _ _ _ this] a show ?thesis by simp
  qed
  have none: "process_deployment w p e
          = Some (Some (e, \<lparr>version = v, release_notes = rnotes, deployment_date = date,
                            failed = Some True, last_successful_version = None,
                            last_successful_date = None, env_name = None\<rparr>))"
    if a: "fetch_deployments_with_pagination w p e = Some (Inr (latest # older))
      \<and> task_state w latest = Some (JStr ''Failed'')
      \<and> fetch_release w latest = Inr release \<and> truthy release
      \<and> py_getitem release ''Version'' = Inr v
      \<and> py_get release ''ReleaseNotes'' JNull = Inr rnotes
      \<and> py_getitem latest ''Created'' = Inr created
      \<and> convert_to_pdt w created = Inr date
      \<and> (\<forall>x\<in>set older. \<not> is_successful w x \<and> \<not> scan_raises w x)"
  proof -
    from a have "find_last_successful w older = Inr None"
      by (intro scan_without_success) simp
    from emit [OF _ _ _ _ _ _ _ _ this] a show ?thesis by simp
  qed
  have emitted: "case find (is_successful w) older of
           None \<Rightarrow> last_successful_version out = None \<and> last_successful_date out = None
         | Some first_success \<Rightarrow>
             \<exists>success_release sv success_created sd.
               fetch_release w first_success = Inr success_release
               \<and> py_getitem success_release ''Version'' = Inr sv
               \<and> py_getitem first_success ''Created'' = Inr success_created
               \<and> convert_to_pdt w success_created = Inr sd
               \<and> last_successful_version out = Some sv \<and> last_successful_date out = Some sd"
    if a: "process_deployment w p e = Some (Some (eid, out))
      \<and> fetch_deployments_with_pagination w p e = Some (Inr (latest # older))
      \<and> task_state w latest = Some (JStr ''Failed'')"
  proof -
    from a have f: "fetch_deployments_with_pagination w p e = Some (Inr (latest # older))"
      by simp
    from a have res: "resolve_deployments w e (latest # older) = Inr (Some (eid, out))"
      by (simp add: process_deployment_eq(2) [OF f] split: sum.splits)
    from resolve_deployments_report [OF res] obtain release task state outp where
      task: "fetch_task w latest = Inr task" "truthy task"
        "py_get task ''State'' (JStr ''Unknown'') = Inr state"
      and out: "if state = JStr ''Failed''
                then \<exists>found. find_last_successful w older = Inr found \<and> out = mark_failed outp found
                else out = outp" by blast
    from a task_state_eq [OF task] have "state = JStr ''Failed''" by simp
    with out obtain found where found: "find_last_successful w older = Inr found"
      and o: "out = mark_failed outp found" by auto
    show ?thesis
    proof (cases "find (is_successful w) older")
      case None
      with find_last_successful_first [OF found] o show ?thesis
        by (simp add: mark_failed_def)
    next
      case (Some first_success)
      with find_last_successful_first [OF found] obtain sv sd where
        "last_successful_of w first_success = Inr (sv, sd)" "found = Some (sv, sd)"
        by auto
      with o Some show ?thesis
        unfolding last_successful_of_values by (auto simp: mark_failed_def)
    qed
  qed
  from first none emitted show ?thesis by blast
qed

theorem last_successful_is_first_success_witness:
  "process_deployment failed_world demo_project demo_environment
     = Some (Some (demo_environment,
         \<lparr>version = JStr ''1.4.0'', release_notes = JStr ''fix'',
          deployment_date = ''2024-07-04 05:30:15 PDT'', failed = Some True,
          last_successful_version = Some (JStr ''1.2.0''),
          last_successful_date = Some ''2023-12-31 16:00:00 PDT'', env_name = None\<rparr>))
   \<and> demo_history = [deployment_record ''4'' ''2024-07-04T12:30:15.123+00:00'',
                     deployment_record ''3'' ''2024-07-03T09:00:00.000+00:00'',
                     deployment_record ''2'' ''2024-01-01T00:00:00.000000+00:00'',
                     deployment_record ''1'' ''2023-12-24T18:00:00.000+00:00'']
   \<and> fetch_release failed_world (deployment_record ''2'' ''2024-01-01T00:00:00.000000+00:00'')
       = Inr (JObj [(''Version'', JStr ''1.2.0'')])
   \<and> process_deployment stale_world demo_project demo_environment
       = Some (Some (demo_environment,
           \<lparr>version = JStr ''1.4.0'', release_notes = JStr ''fix'',
            deployment_date = ''2024-07-04 05:30:15 PDT'', failed = Some True,
            last_successful_version = None, last_successful_date = None, env_name = None\<rparr>))
   \<and> find (is_successful failed_world) (tl demo_history)
       = Some (deployment_record ''2'' ''2024-01-01T00:00:00.000000+00:00'')
   \<and> last_successful_version demo_report = Some (JStr ''1.2.0'')
   \<and> last_successful_date demo_report = Some ''2023-12-31 16:00:00 PDT''"
proof -
  let ?latest = "deployment_record ''4'' ''2024-07-04T12:30:15.123+00:00''"
  let ?skipped = "deployment_record ''3'' ''2024-07-03T09:00:00.000+00:00''"
  let ?success = "deployment_record ''2'' ''2024-01-01T00:00:00.000000+00:00''"
  let ?oldest = "deployment_record ''1'' ''2023-12-24T18:00:00.000+00:00''"
  let ?release = "JObj [(''Version'', JStr ''1.4.0''), (''ReleaseNotes'', JStr ''fix'')]"
  let ?success_release = "JObj [(''Version'', JStr ''1.2.0'')]"
  have h: "demo_history = ?latest # [?skipped] @ ?success # [?oldest]"
    by (simp add: demo_history_def)
  have hist: "fetch_deployments_with_pagination failed_world demo_project demo_environment
                = Some (Inr (?latest # [?skipped] @ ?success # [?oldest]))"
    using failed_world_history h by simp
  have fields: "truthy ?release"
    "py_getitem ?release ''Version'' = Inr (JStr ''1.4.0'')"
    "py_get ?release ''ReleaseNotes'' JNull = Inr (JStr ''fix'')"
    "py_getitem ?latest ''Created'' = Inr (JStr ''2024-07-04T12:30:15.123+00:00'')"
    "py_getitem ?success_release ''Version'' = Inr (JStr ''1.2.0'')"
    "py_getitem ?success ''Created'' = Inr (JStr ''2024-01-01T00:00:00.000000+00:00'')"
    by simp_all
  have dates: "convert_to_pdt failed_world (JStr ''2024-07-04T12:30:15.123+00:00'')
                = Inr ''2024-07-04 05:30:15 PDT''"
    "convert_to_pdt failed_world (JStr ''2024-01-01T00:00:00.000000+00:00'')
                = Inr ''2023-12-31 16:00:00 PDT''"
    by (simp_all add: convert_july convert_new_year failed_world_offsets)
  have pre: "\<forall>x\<in>set [?skipped]. \<not> is_successful failed_world x \<and> \<not> scan_raises failed_world x"
    by (simp add: failed_world_states)
  from last_successful_is_first_success
         [where w = failed_world and p = demo_project and e = demo_environment
            and latest = ?latest and pre = "[?skipped]" and d = ?success and post = "[?oldest]"
            and release = ?release and v = "JStr ''1.4.0''" and rnotes = "JStr ''fix''"
            and created = "JStr ''2024-07-04T12:30:15.123+00:00''"
            and date = "''2024-07-04 05:30:15 PDT''" and success_release = ?success_release
            and sv = "JStr ''1.2.0''"
            and success_created = "JStr ''2024-01-01T00:00:00.000000+00:00''"
            and sd = "''2023-12-31 16:00:00 PDT''"]
       hist failed_world_states(1,4) failed_world_fetches(1,5) fields dates pre
  have with_success: "process_deployment failed_world demo_project demo_environment
     = Some (Some (demo_environment,
         \<lparr>version = JStr ''1.4.0'', release_notes = JStr ''fix'',
          deployment_date = ''2024-07-04 05:30:15 PDT'', failed = Some True,
          last_successful_version = Some (JStr ''1.2.0''),
          last_successful_date = Some ''2023-12-31 16:00:00 PDT'', env_name = None\<rparr>))"
    by blast
  have stale_dates: "convert_to_pdt stale_world (JStr ''2024-07-04T12:30:15.123+00:00'')
                = Inr ''2024-07-04 05:30:15 PDT''"
    by (rule convert_july) (simp add: stale_world_def serve_utcoffset us_pacific_offsets)
  have older: "\<forall>x\<in>set [?skipped]. \<not> is_successful stale_world x \<and> \<not> scan_raises stale_world x"
    by (simp add: stale_world_states)
  from last_successful_is_first_success
         [where w = stale_world and p = demo_project and e = demo_environment
            and latest = ?latest and older = "[?skipped]" and release = ?release
            and v = "JStr ''1.4.0''" and rnotes = "JStr ''fix''"
            and created = "JStr ''2024-07-04T12:30:15.123+00:00''"
            and date = "''2024-07-04 05:30:15 PDT''"]
       stale_world_history stale_world_states(1) stale_world_fetches fields stale_dates older
  have without_success: "process_deployment stale_world demo_project demo_environment
       = Some (Some (demo_environment,
           \<lparr>version = JStr ''1.4.0'', release_notes = JStr ''fix'',
            deployment_date = ''2024-07-04 05:30:15 PDT'', failed = Some True,
            last_successful_version = None, last_successful_date = None, env_name = None\<rparr>))"
    by blast
  have first: "find (is_successful failed_world) (tl demo_history) = Some ?success"
    by (simp add: demo_history_def failed_world_states)
  have hist': "fetch_deployments_with_pagination failed_world demo_project demo_environment
                = Some (Inr (?latest # tl demo_history))"
    using failed_world_history by (simp add: demo_history_def)
  from last_successful_is_first_success
         [where w = failed_world and p = demo_project and e = demo_environment
            and latest = ?latest and older = "tl demo_history"
            and eid = demo_environment and out = demo_report]
       failed_world_report hist' failed_world_states(1)
  have "case find (is_successful failed_world) (tl demo_history) of
           None \<Rightarrow> last_successful_version demo_report = None
                     \<and> last_successful_date demo_report = None
         | Some first_success \<Rightarrow>
             \<exists>success_release sv success_created sd.
               fetch_release failed_world first_success = Inr success_release
               \<and> py_getitem success_release ''Version'' = Inr sv
               \<and> py_getitem first_success ''Created'' = Inr success_created
               \<and> convert_to_pdt failed_world success_created = Inr sd
               \<and> last_successful_version demo_report = Some sv
               \<and> last_successful_date demo_report = Some sd"
    by blast
  then have "last_successful_version demo_report = Some (JStr ''1.2.0'')
             \<and> last_successful_date demo_report = Some ''2023-12-31 16:00:00 PDT''"
    unfolding first by (auto simp: failed_world_fetches dates)
  with with_success without_success first failed_world_fetches(5) show ?thesis
    by (simp add: demo_history_def)
qed

text \<open>
  The claim as stated fails: the latest deployment failed and an older one succeeded, but
  the server no longer has the older one's release; subscripting the \<open>None\<close> that the
  fetch returned raises, and the pair gets no report at all.
\<close>

theorem last_successful_is_first_success_counterexample:
  "fetch_deployments_with_pagination release_gone_world demo_project demo_environment
     = Some (Inr demo_history)
   \<and> task_state release_gone_world (hd demo_history) = Some (JStr ''Failed'')
   \<and> task_state release_gone_world (demo_history ! 2) = Some (JStr ''Success'')
   \<and> process_deployment release_gone_world demo_project demo_environment = Some None"
  by (simp add: release_gone_world_history release_gone_world_report task_state_def
        demo_history_def release_gone_world_fetches)

subsection \<open>Absent release or task\<close>

text \<open>
  Claim C6. For a pair with a non-empty history, if the fetch of the latest deployment's
  release or of its task returns \<open>None\<close>, the resolver returns \<open>None\<close> for the pair; it
  returns normally, and when neither fetch raises no exception occurs in the block at all.
\<close>

theorem absent_release_or_task_gives_no_report:
  assumes "fetch_deployments_with_pagination w p e = Some (Inr (latest # older))"
    and "fetch_release w latest = Inr JNull \<or> fetch_task w latest = Inr JNull"
  shows "process_deployment w p e = Some None
         \<and> (\<not> isl (fetch_release w latest) \<and> \<not> isl (fetch_task w latest)
              \<longrightarrow> process_deployment_body w p e = Some (Inr None))"
proof -
  have "resolve_deployments w e (latest # older) = Inr None
        \<or> (\<exists>x. resolve_deployments w e (latest # older) = Inl x
              \<and> (isl (fetch_release w latest) \<or> isl (fetch_task w latest)))"
    using assms(2) unfolding resolve_deployments_Cons
    by (cases "fetch_release w latest"; cases "fetch_task w latest") auto
  then show ?thesis
    unfolding process_deployment_eq [OF assms(1)] by auto
qed

theorem absent_release_or_task_gives_no_report_witness:
  "fetch_release latest_release_gone_world
     (deployment_record ''3'' ''2024-07-03T09:00:00.000+00:00'') = Inr JNull
   \<and> process_deployment latest_release_gone_world demo_project demo_environment = Some None
   \<and> process_deployment_body latest_release_gone_world demo_project demo_environment
       = Some (Inr None)"
  using absent_release_or_task_gives_no_report [OF latest_release_gone_world_history]
    latest_release_gone_world_fetches
  by simp

subsection \<open>Tasks without a state\<close>

text \<open>
  Claim C10. A task response without a \<open>State\<close> field is read as state \<open>Unknown\<close>. A
  report emitted for a history whose latest task has no \<open>State\<close> does not carry
  \<open>failed\<close>. In the scan, a deployment whose task has no \<open>State\<close>, or whose task fetch
  returned \<open>None\<close>, does not count as successful and is skipped: the scan goes on with
  the records after it.
\<close>

theorem missing_state_is_unknown:
  "(map_of kvs ''State'' = None
      \<longrightarrow> py_get (JObj kvs) ''State'' (JStr ''Unknown'') = Inr (JStr ''Unknown''))
   \<and> (process_deployment w p e = Some (Some (eid, out))
        \<and> fetch_deployments_with_pagination w p e = Some (Inr (latest # older))
        \<and> fetch_task w latest = Inr (JObj kvs) \<and> map_of kvs ''State'' = None
      \<longrightarrow> failed out = None)
   \<and> ((fetch_task w d = Inr (JObj kvs) \<and> map_of kvs ''State'' = None)
         \<or> fetch_task w d = Inr JNull
      \<longrightarrow> \<not> is_successful w d
          \<and> find_last_successful w (d # rest) = find_last_successful w rest)"
proof -
  have default: "py_get (JObj kvs) ''State'' (JStr ''Unknown'') = Inr (JStr ''Unknown'')"
    if "map_of kvs ''State'' = None"
    using that by simp
  have latest: "failed out = None"
    if a: "process_deployment w p e = Some (Some (eid, out))
        \<and> fetch_deployments_with_pagination w p e = Some (Inr (latest # older))
        \<and> fetch_task w latest = Inr (JObj kvs) \<and> map_of kvs ''State'' = None"
  proof -
    from a have f: "fetch_deployments_with_pagination w p e = Some (Inr (latest # older))"
      by simp
    from a have res: "resolve_deployments w e (latest # older) = Inr (Some (eid, out))"
      by (simp add: process_deployment_eq(2) [OF f] split: sum.splits)
    from resolve_deployments_report [OF res] obtain release task state outp where
      task: "fetch_task w latest = Inr task"
        "py_get task ''State'' (JStr ''Unknown'') = Inr state"
      and out: "if state = JStr ''Failed''
                then \<exists>found. find_last_successful w older = Inr found
                       \<and> out = mark_failed outp found
                else out = outp"
      and base: "latest_output w latest release = Inr outp" by blast
    from a task have "state = JStr ''Unknown''" by auto
    with out have "out = outp" by simp
    moreover from base have "failed outp = None"
      by (auto simp: latest_output_def bind_exn_eq_Inr)
    ultimately show ?thesis by simp
  qed
  have scan: "\<not> is_successful w d
          \<and> find_last_successful w (d # rest) = find_last_successful w rest"
    if "(fetch_task w d = Inr (JObj kvs) \<and> map_of kvs ''State'' = None)
         \<or> fetch_task w d = Inr JNull"
    using that unfolding find_last_successful_step is_successful_iff by auto
  from default latest scan show ?thesis by blast
qed

theorem missing_state_is_unknown_witness:
  "py_get (JObj [(''Id'', JStr ''ServerTasks-3'')]) ''State'' (JStr ''Unknown'')
     = Inr (JStr ''Unknown'')
   \<and> process_deployment stateless_world demo_project demo_environment
       = Some (Some (demo_environment, stateless_report))
   \<and> failed stateless_report = None
   \<and> \<not> is_successful failed_world (deployment_record ''3'' ''2024-07-03T09:00:00.000+00:00'')
   \<and> find_last_successful failed_world (tl demo_history)
       = find_last_successful failed_world (tl (tl demo_history))"
proof -
  let ?kvs = "[(''Id'', JStr ''ServerTasks-3'')]"
  have none: "map_of ?kvs ''State'' = None" by simp
  have tl: "tl demo_history = deployment_record ''3'' ''2024-07-03T09:00:00.000+00:00''
                                # tl (tl demo_history)"
    by (simp add: demo_history_def)
  from missing_state_is_unknown [of ?kvs] none
  have a: "py_get (JObj ?kvs) ''State'' (JStr ''Unknown'') = Inr (JStr ''Unknown'')"
    by blast
  from missing_state_is_unknown
         [of ?kvs stateless_world demo_project demo_environment demo_environment
             stateless_report "deployment_record ''3'' ''2024-07-04T12:30:15.123+00:00''" "[]"]
       stateless_world_report stateless_world_history stateless_world_fetches(2) none
  have b: "failed stateless_report = None"
    by blast
  from missing_state_is_unknown
         [of ?kvs failed_world _ _ _ _ _ _
             "deployment_record ''3'' ''2024-07-03T09:00:00.000+00:00''" "tl (tl demo_history)"]
       failed_world_fetches(3) none
  have c: "\<not> is_successful failed_world (deployment_record ''3'' ''2024-07-03T09:00:00.000+00:00'')
           \<and> find_last_successful failed_world
                (deployment_record ''3'' ''2024-07-03T09:00:00.000+00:00'' # tl (tl demo_history))
              = find_last_successful failed_world (tl (tl demo_history))"
    by blast
  from a b c stateless_world_report show ?thesis
    unfolding tl [symmetric] by blast
qed

section \<open>Properties of the aggregator\<close>

subsection \<open>Grouping\<close>

lemma bind_run_simps [simp]:
  "bind_run None f = None"
  "bind_run (Some (Inl x)) f = Some (Inl x)"
  "bind_run (Some (Inr v)) f = f v"
  by (simp_all add: bind_run_def)

lemma bind_run_eq_Some_Inr:
  "bind_run r f = Some (Inr y) \<longleftrightarrow> (\<exists>v. r = Some (Inr v) \<and> f v = Some (Inr y))"
  by (cases r) (auto simp: bind_run_def split: sum.splits)

lemma map_of_dict_set: "map_of (dict_set d k v) = (map_of d)(k \<mapsto> v)"
  by (induction d) (auto simp: fun_eq_iff)

lemma dict_get_dict_set:
  "dict_get (dict_set d k v) k' = (if k' = k then v else dict_get d k')"
  by (simp add: dict_get_def map_of_dict_set)

lemma group_projects_lookup:
  assumes "group_projects ps acc = Inr d"
  shows "dict_get d k = dict_get acc k @ filter (\<lambda>p. key_of p ''ProjectGroupId'' = Inr k) ps"
  using assms
proof (induction ps arbitrary: acc)
  case Nil
  then show ?case by simp
next
  case (Cons p ps)
  from Cons.prems obtain gid k' where
    gid: "py_getitem p ''ProjectGroupId'' = Inr gid" and k': "dict_key gid = Inr k'"
    and rest: "group_projects ps (dict_set acc k' (dict_get acc k' @ [p])) = Inr d"
    by (cases "py_getitem p ''ProjectGroupId''"; simp add: bind_exn_def split: sum.splits)
  from gid k' have key: "key_of p ''ProjectGroupId'' = Inr k'"
    by (simp add: key_of_def bind_exn_def)
  show ?case
    unfolding Cons.IH [OF rest] by (simp add: dict_get_dict_set key)
qed

lemma belongs_to_iff:
  assumes "key_of grp ''Id'' = Inr k"
  shows "belongs_to grp p \<longleftrightarrow> key_of p ''ProjectGroupId'' = Inr k"
  using assms by (auto simp: belongs_to_def split: sum.splits)

lemma process_project_describes:
  assumes "process_project w order environments project = Some (Inr pd)"
  shows "describes_project pd project"
  using assms
  by (auto simp: process_project_def bind_run_eq_Some_Inr describes_project_def)

lemma process_projects_describe:
  assumes "process_projects w sched environments i ps = Some (Inr pds)"
  shows "list_all2 describes_project pds ps"
  using assms
proof (induction ps arbitrary: i pds)
  case Nil
  then show ?case by simp
next
  case (Cons p ps)
  from Cons.prems obtain pd rest where
    "process_project w (sched i) environments p = Some (Inr pd)"
    "process_projects w sched environments (Suc i) ps = Some (Inr rest)" "pds = pd # rest"
    by (auto simp: bind_run_eq_Some_Inr)
  with Cons.IH process_project_describes show ?case by auto
qed

lemma process_group_describes:
  assumes "process_group w sched environments by_group grp = Some (Inr gd)"
    and "\<And>k. dict_get by_group k = filter (\<lambda>p. key_of p ''ProjectGroupId'' = Inr k) all_projects"
  shows "describes_group all_projects gd grp"
proof -
  from assms(1) obtain name gid k pds where
    parts: "py_getitem grp ''Name'' = Inr name" "py_getitem grp ''Id'' = Inr gid"
      "dict_key gid = Inr k"
      "process_projects w sched environments 0 (dict_get by_group k) = Some (Inr pds)"
      "gd = \<lparr>gd_id = gid, gd_name = name, gd_projects = pds\<rparr>"
    by (auto simp: process_group_def bind_run_eq_Some_Inr)
  from parts(2,3) have key: "key_of grp ''Id'' = Inr k"
    by (simp add: key_of_def bind_exn_def)
  have "filter (belongs_to grp) all_projects = dict_get by_group k"
    unfolding assms(2) by (rule filter_cong) (simp_all add: belongs_to_iff [OF key])
  with process_projects_describe [OF parts(4)] parts show ?thesis
    by (simp add: describes_group_def)
qed

lemma process_groups_describe:
  assumes "process_groups w sched environments by_group i gs = Some (Inr gds)"
    and "\<And>k. dict_get by_group k = filter (\<lambda>p. key_of p ''ProjectGroupId'' = Inr k) all_projects"
  shows "list_all2 (describes_group all_projects) gds gs"
  using assms(1)
proof (induction gs arbitrary: i gds)
  case Nil
  then show ?case by simp
next
  case (Cons g gs)
  from Cons.prems obtain gd rest where
    "process_group w (sched i) environments by_group g = Some (Inr gd)"
    "process_groups w sched environments by_group (Suc i) gs = Some (Inr rest)" "gds = gd # rest"
    by (auto simp: bind_run_eq_Some_Inr)
  with Cons.IH process_group_describes [OF _ assms(2)] show ?case by auto
qed

lemma list_all2_memD:
  assumes "list_all2 P xs ys" "x \<in> set xs"
  shows "\<exists>y\<in>set ys. P x y"
  using assms by (induction rule: list_all2_induct) auto

subsection \<open>One failing pair\<close>

lemma dict_key_str [simp]: "dict_key eid = Inr (JStr s) \<longleftrightarrow> eid = JStr s"
  by (cases eid) (auto simp: dict_key_def)

lemma as_completed_map: "as_completed order (map f fs) = map f (as_completed order fs)"
  by (simp add: as_completed_def)

lemma set_as_completed: "set (as_completed order fs) \<subseteq> set fs"
  by (auto simp: as_completed_def)

lemma submit_all_ids:
  assumes "submit_all w pid envs = Some (Inr fs)" "(env, Some (k, data)) \<in> set fs"
  shows "py_getitem env ''Id'' = Inr k"
  using assms
proof (induction envs arbitrary: fs)
  case Nil
  then show ?case by simp
next
  case (Cons a envs)
  from Cons.prems(1) obtain eid res rest where
    parts: "py_getitem a ''Id'' = Inr eid" "process_deployment w pid eid = Some res"
      "submit_all w pid envs = Some (Inr rest)" "fs = (a, res) # rest"
    by (auto simp: bind_run_eq_Some_Inr split: option.splits)
  show ?case
  proof (cases "(env, Some (k, data)) \<in> set rest")
    case True
    with Cons.IH parts(3) show ?thesis by blast
  next
    case False
    with Cons.prems(2) parts have "env = a" "process_deployment w pid eid = Some (Some (k, data))"
      by auto
    from process_deployment_report [OF this(2)] obtain latest older where
      "resolve_deployments w eid (latest # older) = Inr (Some (k, data))" by blast
    from resolve_deployments_report [OF this] have "k = eid" by blast
    with parts(1) \<open>env = a\<close> show ?thesis by simp
  qed
qed

lemma submit_all_same:
  assumes "\<forall>env\<in>set envs. \<forall>eid. py_getitem env ''Id'' = Inr eid
             \<longrightarrow> process_deployment w' pid eid = process_deployment w pid eid"
  shows "submit_all w' pid envs = submit_all w pid envs"
  using assms
proof (induction envs)
  case Nil
  then show ?case by simp
next
  case (Cons a envs)
  then show ?case
    by (cases "py_getitem a ''Id''") (simp_all cong: option.case_cong)
qed

lemma submit_all_fail:
  assumes "\<forall>env\<in>set envs. \<forall>eid. py_getitem env ''Id'' = Inr eid \<and> eid \<noteq> e0
             \<longrightarrow> process_deployment w' pid eid = process_deployment w pid eid"
    and "process_deployment w' pid e0 = Some None"
    and "submit_all w pid envs = Some (Inr fs)"
  shows "submit_all w' pid envs
           = Some (Inr (map (\<lambda>(env, res). (env, if py_getitem env ''Id'' = Inr e0 then None else res)) fs))"
  using assms(1,3)
proof (induction envs arbitrary: fs)
  case Nil
  then show ?case by simp
next
  case (Cons a envs)
  from Cons.prems(2) obtain eid res rest where
    parts: "py_getitem a ''Id'' = Inr eid" "process_deployment w pid eid = Some res"
      "submit_all w pid envs = Some (Inr rest)" "fs = (a, res) # rest"
    by (auto simp: bind_run_eq_Some_Inr split: option.splits)
  from Cons.prems(1) have "\<forall>env\<in>set envs. \<forall>eid. py_getitem env ''Id'' = Inr eid \<and> eid \<noteq> e0
             \<longrightarrow> process_deployment w' pid eid = process_deployment w pid eid" by simp
  from Cons.IH [OF this parts(3)] have rest:
    "submit_all w' pid envs
       = Some (Inr (map (\<lambda>(env, res). (env, if py_getitem env ''Id'' = Inr e0 then None else res)) rest))" .
  show ?case
  proof (cases "eid = e0")
    case True
    with parts assms(2) rest show ?thesis by simp
  next
    case False
    with Cons.prems(1) parts(1) have "process_deployment w' pid eid = process_deployment w pid eid"
      by simp
    with parts rest False show ?thesis by simp
  qed
qed

lemma ids_of_member:
  assumes "fetched = Inr j" "py_iter j = Inr records" "r \<in> set records"
    "py_getitem r ''Id'' = Inr v"
  shows "v \<in> set (ids_of fetched)"
  using assms by (force simp: ids_of_def)

lemma filter_dict_set_drop:
  "\<not> P k \<Longrightarrow> filter (\<lambda>kv. P (fst kv)) (dict_set d k v) = filter (\<lambda>kv. P (fst kv)) d"
  by (induction d) auto

lemma filter_dict_set_keep:
  "P k \<Longrightarrow> filter (\<lambda>kv. P (fst kv)) (dict_set d k v)
            = dict_set (filter (\<lambda>kv. P (fst kv)) d) k v"
  by (induction d) auto

lemma submit_all_envs:
  assumes "submit_all w pid envs = Some (Inr fs)"
  shows "map fst fs = envs"
  using assms
proof (induction envs arbitrary: fs)
  case Nil
  then show ?case by simp
next
  case (Cons a envs)
  from Cons.prems obtain eid res rest where
    parts: "py_getitem a ''Id'' = Inr eid" "process_deployment w pid eid = Some res"
      "submit_all w pid envs = Some (Inr rest)" "fs = (a, res) # rest"
    by (auto simp: bind_run_eq_Some_Inr split: option.splits)
  with Cons.IH show ?case by simp
qed

lemma collect_env_data_fail:
  assumes inv: "\<forall>env k data. (env, Some (k, data)) \<in> set cs \<longrightarrow> py_getitem env ''Id'' = Inr k"
    and uniq: "\<forall>env k data. (env, Some (k, data)) \<in> set cs \<and> k \<noteq> e0 \<and> \<not> isl (dict_key e0)
                 \<longrightarrow> dict_key k \<noteq> dict_key e0"
    and col: "collect_env_data cs acc = Inr d"
  shows "collect_env_data
           (map (\<lambda>(env, res). (env, if py_getitem env ''Id'' = Inr e0 then None else res)) cs)
           (filter (\<lambda>kv. dict_key e0 \<noteq> Inr (fst kv)) acc)
         = Inr (filter (\<lambda>kv. dict_key e0 \<noteq> Inr (fst kv)) d)"
  using assms
proof (induction cs arbitrary: acc)
  case Nil
  then show ?case by simp
next
  case (Cons c cs)
  obtain env res where c: "c = (env, res)" by (cases c)
  from Cons.prems(1) have inv:
    "\<forall>env k data. (env, Some (k, data)) \<in> set cs \<longrightarrow> py_getitem env ''Id'' = Inr k"
    by simp
  from Cons.prems(2) have uniq:
    "\<forall>env k data. (env, Some (k, data)) \<in> set cs \<and> k \<noteq> e0 \<and> \<not> isl (dict_key e0)
                 \<longrightarrow> dict_key k \<noteq> dict_key e0"
    by auto
  note IH = Cons.IH [OF inv uniq]
  show ?case
  proof (cases res)
    case None
    with Cons.prems(3) c have "collect_env_data cs acc = Inr d" by simp
    from IH [OF this] None c show ?thesis by simp
  next
    case (Some kd)
    obtain k data where kd: "kd = (k, data)" by (cases kd)
    from Cons.prems(1) c Some kd have id: "py_getitem env ''Id'' = Inr k" by simp
    from Cons.prems(3) c Some kd obtain name where name: "py_getitem env ''Name'' = Inr name"
      by (cases "py_getitem env ''Name''") simp_all
    show ?thesis
    proof (cases "dict_key k")
      case (Inl x)
      with Cons.prems(3) c Some kd name have "collect_env_data cs acc = Inr d"
        by simp
      from IH [OF this] c Some kd id name Inl show ?thesis by simp
    next
      case (Inr k')
      with Cons.prems(3) c Some kd name have
        rest: "collect_env_data cs (dict_set acc k' (data\<lparr>env_name := Some name\<rparr>)) = Inr d"
        by simp
      show ?thesis
      proof (cases "k = e0")
        case True
        with Inr have "\<not> dict_key e0 \<noteq> Inr k'" by simp
        then have drop: "filter (\<lambda>kv. dict_key e0 \<noteq> Inr (fst kv))
                           (dict_set acc k' (data\<lparr>env_name := Some name\<rparr>))
                         = filter (\<lambda>kv. dict_key e0 \<noteq> Inr (fst kv)) acc"
          by (rule filter_dict_set_drop [of "\<lambda>x. dict_key e0 \<noteq> Inr x"])
        from IH [OF rest] have
          "collect_env_data
             (map (\<lambda>(env, res). (env, if py_getitem env ''Id'' = Inr e0 then None else res)) cs)
             (filter (\<lambda>kv. dict_key e0 \<noteq> Inr (fst kv)) acc)
           = Inr (filter (\<lambda>kv. dict_key e0 \<noteq> Inr (fst kv)) d)"
          unfolding drop .
        with c Some kd id True show ?thesis by simp
      next
        case False
        have keep: "dict_key e0 \<noteq> Inr k'"
        proof (cases "dict_key e0")
          case (Inl x)
          then show ?thesis by simp
        next
          case e0: (Inr k0)
          with Cons.prems(2) c Some kd False have "dict_key k \<noteq> dict_key e0" by auto
          with Inr show ?thesis by simp
        qed
        from keep have kept: "filter (\<lambda>kv. dict_key e0 \<noteq> Inr (fst kv))
                           (dict_set acc k' (data\<lparr>env_name := Some name\<rparr>))
                         = dict_set (filter (\<lambda>kv. dict_key e0 \<noteq> Inr (fst kv)) acc) k'
                             (data\<lparr>env_name := Some name\<rparr>)"
          by (rule filter_dict_set_keep [of "\<lambda>x. dict_key e0 \<noteq> Inr x"])
        from IH [OF rest] have
          "collect_env_data
             (map (\<lambda>(env, res). (env, if py_getitem env ''Id'' = Inr e0 then None else res)) cs)
             (dict_set (filter (\<lambda>kv. dict_key e0 \<noteq> Inr (fst kv)) acc) k'
                (data\<lparr>env_name := Some name\<rparr>))
           = Inr (filter (\<lambda>kv. dict_key e0 \<noteq> Inr (fst kv)) d)"
          unfolding kept .
        with c Some kd id name Inr False show ?thesis by simp
      qed
    qed
  qed
qed

lemma project_env_data_except:
  assumes others: "\<forall>env\<in>set envs. \<forall>eid. py_getitem env ''Id'' = Inr eid
                     \<and> (pid, eid) \<noteq> (p0, e0)
                     \<longrightarrow> process_deployment w' pid eid = process_deployment w pid eid"
    and keys: "\<forall>env\<in>set envs. \<forall>eid. py_getitem env ''Id'' = Inr eid
                     \<and> eid \<noteq> e0 \<and> \<not> isl (dict_key e0) \<longrightarrow> dict_key eid \<noteq> dict_key e0"
    and caught: "process_deployment w' p0 e0 = Some None"
    and envs: "py_iter environments = Inr envs"
    and d: "project_env_data w order environments pid = Some (Inr d)"
  shows "project_env_data w' order environments pid
           = Some (Inr (filter (\<lambda>kv. \<not> (pid = p0 \<and> dict_key e0 = Inr (fst kv))) d))"
proof -
  from d envs obtain fs where fs: "submit_all w pid envs = Some (Inr fs)"
    and col: "collect_env_data (as_completed order fs) [] = Inr d"
    by (auto simp: project_env_data_def bind_run_eq_Some_Inr)
  show ?thesis
  proof (cases "pid = p0")
    case False
    with others have "submit_all w' pid envs = submit_all w pid envs"
      by (intro submit_all_same) simp
    with False d envs show ?thesis by (simp add: project_env_data_def)
  next
    case True
    let ?fail = "\<lambda>(env, res). (env, if py_getitem env ''Id'' = Inr e0 then None else res)"
    from others True have "\<forall>env\<in>set envs. \<forall>eid. py_getitem env ''Id'' = Inr eid \<and> eid \<noteq> e0
             \<longrightarrow> process_deployment w' pid eid = process_deployment w pid eid"
      by simp
    from submit_all_fail [OF this _ fs] caught True
    have fs': "submit_all w' pid envs = Some (Inr (map ?fail fs))" by simp
    have sub: "set (as_completed order fs) \<subseteq> set fs" by (rule set_as_completed)
    have inv: "\<forall>env k data. (env, Some (k, data)) \<in> set (as_completed order fs)
                 \<longrightarrow> py_getitem env ''Id'' = Inr k"
      using submit_all_ids [OF fs] sub by blast
    have member: "env \<in> set envs" if "(env, res) \<in> set fs" for env res
    proof -
      from that have "env \<in> set (map fst fs)" by force
      then show ?thesis unfolding submit_all_envs [OF fs] .
    qed
    have uniq: "\<forall>env k data. (env, Some (k, data)) \<in> set (as_completed order fs)
                  \<and> k \<noteq> e0 \<and> \<not> isl (dict_key e0) \<longrightarrow> dict_key k \<noteq> dict_key e0"
      using keys inv member sub by blast
    from collect_env_data_fail [OF inv uniq col]
    have "collect_env_data (as_completed order (map ?fail fs)) []
            = Inr (filter (\<lambda>kv. dict_key e0 \<noteq> Inr (fst kv)) d)"
      by (simp add: as_completed_map)
    with fs' envs True show ?thesis by (simp add: project_env_data_def)
  qed
qed

lemma process_project_except:
  assumes details: "\<forall>pid. fetch_project_details w' pid = fetch_project_details w pid"
    and others: "\<forall>pid. py_getitem project ''Id'' = Inr pid \<longrightarrow>
                   (\<forall>env\<in>set envs. \<forall>eid. py_getitem env ''Id'' = Inr eid
                     \<and> (pid, eid) \<noteq> (p0, e0)
                     \<longrightarrow> process_deployment w' pid eid = process_deployment w pid eid)"
    and keys: "\<forall>env\<in>set envs. \<forall>eid. py_getitem env ''Id'' = Inr eid
                     \<and> eid \<noteq> e0 \<and> \<not> isl (dict_key e0) \<longrightarrow> dict_key eid \<noteq> dict_key e0"
    and caught: "process_deployment w' p0 e0 = Some None"
    and envs: "py_iter environments = Inr envs"
    and pd: "process_project w order environments project = Some (Inr pd)"
  shows "\<exists>pd'. process_project w' order environments project = Some (Inr pd')
               \<and> same_project_except w order environments p0 e0 pd pd'"
proof -
  from pd obtain name pid det url d where
    parts: "py_getitem project ''Name'' = Inr name" "py_getitem project ''Id'' = Inr pid"
      "fetch_project_details w pid = Inr det" "git_url_of det = Inr url"
      "project_env_data w order environments pid = Some (Inr d)"
      "pd = \<lparr>pd_id = pid, pd_name = name, pd_git_url = url, pd_environments = map snd d\<rparr>"
    by (auto simp: process_project_def bind_run_eq_Some_Inr)
  from others parts(2) have "\<forall>env\<in>set envs. \<forall>eid. py_getitem env ''Id'' = Inr eid
                     \<and> (pid, eid) \<noteq> (p0, e0)
                     \<longrightarrow> process_deployment w' pid eid = process_deployment w pid eid"
    by blast
  from project_env_data_except [OF this keys caught envs parts(5)]
  have d': "project_env_data w' order environments pid
           = Some (Inr (filter (\<lambda>kv. \<not> (pid = p0 \<and> dict_key e0 = Inr (fst kv))) d))" .
  let ?pd' = "\<lparr>pd_id = pid, pd_name = name, pd_git_url = url,
               pd_environments
                 = map snd (filter (\<lambda>kv. \<not> (pid = p0 \<and> dict_key e0 = Inr (fst kv))) d)\<rparr>"
  from parts details d' have "process_project w' order environments project = Some (Inr ?pd')"
    by (simp add: process_project_def)
  moreover from parts(5,6) have "same_project_except w order environments p0 e0 pd ?pd'"
    by (simp add: same_project_except_def)
  ultimately show ?thesis by blast
qed

lemma process_projects_except:
  assumes details: "\<forall>pid. fetch_project_details w' pid = fetch_project_details w pid"
    and others: "\<forall>project\<in>set ps. \<forall>pid. py_getitem project ''Id'' = Inr pid \<longrightarrow>
                   (\<forall>env\<in>set envs. \<forall>eid. py_getitem env ''Id'' = Inr eid
                     \<and> (pid, eid) \<noteq> (p0, e0)
                     \<longrightarrow> process_deployment w' pid eid = process_deployment w pid eid)"
    and keys: "\<forall>env\<in>set envs. \<forall>eid. py_getitem env ''Id'' = Inr eid
                     \<and> eid \<noteq> e0 \<and> \<not> isl (dict_key e0) \<longrightarrow> dict_key eid \<noteq> dict_key e0"
    and caught: "process_deployment w' p0 e0 = Some None"
    and envs: "py_iter environments = Inr envs"
    and pds: "process_projects w sched environments i ps = Some (Inr pds)"
  shows "\<exists>pds'. process_projects w' sched environments i ps = Some (Inr pds')
               \<and> list_all2 (\<lambda>(j, pd) pd'. same_project_except w (sched j) environments p0 e0 pd pd')
                    (enumerate i pds) pds'"
  using others pds
proof (induction ps arbitrary: i pds)
  case Nil
  then show ?case by simp
next
  case (Cons p ps)
  from Cons.prems(2) obtain pd rest where
    parts: "process_project w (sched i) environments p = Some (Inr pd)"
      "process_projects w sched environments (Suc i) ps = Some (Inr rest)" "pds = pd # rest"
    by (auto simp: bind_run_eq_Some_Inr)
  from Cons.prems(1) have here: "\<forall>pid. py_getitem p ''Id'' = Inr pid \<longrightarrow>
                   (\<forall>env\<in>set envs. \<forall>eid. py_getitem env ''Id'' = Inr eid
                     \<and> (pid, eid) \<noteq> (p0, e0)
                     \<longrightarrow> process_deployment w' pid eid = process_deployment w pid eid)"
    and there: "\<forall>project\<in>set ps. \<forall>pid. py_getitem project ''Id'' = Inr pid \<longrightarrow>
                   (\<forall>env\<in>set envs. \<forall>eid. py_getitem env ''Id'' = Inr eid
                     \<and> (pid, eid) \<noteq> (p0, e0)
                     \<longrightarrow> process_deployment w' pid eid = process_deployment w pid eid)"
    by simp_all
  from process_project_except [OF details here keys caught envs parts(1)] obtain pd' where
    pd': "process_project w' (sched i) environments p = Some (Inr pd')"
      "same_project_except w (sched i) environments p0 e0 pd pd'" by blast
  from Cons.IH [OF there parts(2)] obtain rest' where
    rest': "process_projects w' sched environments (Suc i) ps = Some (Inr rest')"
      "list_all2 (\<lambda>(j, pd) pd'. same_project_except w (sched j) environments p0 e0 pd pd')
         (enumerate (Suc i) rest) rest'" by blast
  from pd' rest' parts(3) show ?case by simp
qed

lemma process_groups_except:
  assumes details: "\<forall>pid. fetch_project_details w' pid = fetch_project_details w pid"
    and others: "\<forall>project\<in>set all_projects. \<forall>pid. py_getitem project ''Id'' = Inr pid \<longrightarrow>
                   (\<forall>env\<in>set envs. \<forall>eid. py_getitem env ''Id'' = Inr eid
                     \<and> (pid, eid) \<noteq> (p0, e0)
                     \<longrightarrow> process_deployment w' pid eid = process_deployment w pid eid)"
    and keys: "\<forall>env\<in>set envs. \<forall>eid. py_getitem env ''Id'' = Inr eid
                     \<and> eid \<noteq> e0 \<and> \<not> isl (dict_key e0) \<longrightarrow> dict_key eid \<noteq> dict_key e0"
    and caught: "process_deployment w' p0 e0 = Some None"
    and envs: "py_iter environments = Inr envs"
    and lookup: "\<And>k. set (dict_get by_group k) \<subseteq> set all_projects"
    and gds: "process_groups w sched environments by_group i gs = Some (Inr gds)"
  shows "\<exists>gds'. process_groups w' sched environments by_group i gs = Some (Inr gds')
               \<and> list_all2 (\<lambda>(i, gd) gd'. same_group_except w (sched i) environments p0 e0 gd gd')
                    (enumerate i gds) gds'"
  using gds
proof (induction gs arbitrary: i gds)
  case Nil
  then show ?case by simp
next
  case (Cons g gs)
  from Cons.prems obtain gd rest where
    parts: "process_group w (sched i) environments by_group g = Some (Inr gd)"
      "process_groups w sched environments by_group (Suc i) gs = Some (Inr rest)" "gds = gd # rest"
    by (auto simp: bind_run_eq_Some_Inr)
  from parts(1) obtain name gid k pds where
    g: "py_getitem g ''Name'' = Inr name" "py_getitem g ''Id'' = Inr gid" "dict_key gid = Inr k"
      "process_projects w (sched i) environments 0 (dict_get by_group k) = Some (Inr pds)"
      "gd = \<lparr>gd_id = gid, gd_name = name, gd_projects = pds\<rparr>"
    by (auto simp: process_group_def bind_run_eq_Some_Inr)
  from others lookup [of k] have "\<forall>project\<in>set (dict_get by_group k).
      \<forall>pid. py_getitem project ''Id'' = Inr pid \<longrightarrow>
                   (\<forall>env\<in>set envs. \<forall>eid. py_getitem env ''Id'' = Inr eid
                     \<and> (pid, eid) \<noteq> (p0, e0)
                     \<longrightarrow> process_deployment w' pid eid = process_deployment w pid eid)"
    by blast
  from process_projects_except [OF details this keys caught envs g(4)] obtain pds' where
    pds': "process_projects w' (sched i) environments 0 (dict_get by_group k) = Some (Inr pds')"
      "list_all2 (\<lambda>(j, pd) pd'. same_project_except w (sched i j) environments p0 e0 pd pd')
         (enumerate 0 pds) pds'" by blast
  let ?gd' = "\<lparr>gd_id = gid, gd_name = name, gd_projects = pds'\<rparr>"
  from g pds' have gd': "process_group w' (sched i) environments by_group g = Some (Inr ?gd')"
    by (simp add: process_group_def)
  from g(5) pds'(2) have rel: "same_group_except w (sched i) environments p0 e0 gd ?gd'"
    by (simp add: same_group_except_def)
  from Cons.IH [OF parts(2)] obtain rest' where
    rest': "process_groups w' sched environments by_group (Suc i) gs = Some (Inr rest')"
      "list_all2 (\<lambda>(i, gd) gd'. same_group_except w (sched i) environments p0 e0 gd gd')
         (enumerate (Suc i) rest) rest'" by blast
  from gd' rel rest' parts(3) show ?case by simp
qed

subsection \<open>A concrete space\<close>

lemma api_url_inject [simp]: "api_url a = api_url b \<longleftrightarrow> a = b"
  by (simp add: api_url_def)

lemma make_api_request_inject:
  "make_api_request (inject_failure w endpoint x) ep
     = (if ep = endpoint then Inl x else make_api_request w ep)"
  by (simp add: make_api_request_def inject_failure_def)

lemma inject_utcoffset [simp]:
  "los_angeles_utcoffset (inject_failure w endpoint x) = los_angeles_utcoffset w"
  by (simp add: inject_failure_def)

lemma deployments_endpoint_neq [simp]:
  "c \<noteq> CHR ''d'' \<Longrightarrow> c # rest \<noteq> deployments_endpoint p e skip"
  by (simp add: deployments_endpoint_def)

lemma fetch_loop_raises:
  assumes "make_api_request w (deployments_endpoint p e skip) = Inl x"
  shows "fetch_loop w p e skip acc tr = Some (Inl x, tr @ [deployments_endpoint p e skip])"
  using assms by (subst fetch_loop.simps) simp

lemma single_success_report:
  assumes "page_items (page_response w p e 0) = Some [deployment_record n ''2024-07-04T12:30:15.123+00:00'']"
    and "fetch_release w (deployment_record n ''2024-07-04T12:30:15.123+00:00'')
           = Inr (JObj [(''Version'', JStr v)])"
    and "fetch_task w (deployment_record n ''2024-07-04T12:30:15.123+00:00'')
           = Inr (JObj [(''State'', JStr ''Success'')])"
    and "los_angeles_utcoffset w 1720096215 = - 25200"
  shows "process_deployment w p e = Some (Some (e, success_report v None))"
proof -
  have "fetch_deployments_with_pagination w p e
          = Some (Inr [deployment_record n ''2024-07-04T12:30:15.123+00:00''])"
    using assms(1) by (rule single_page) (simp add: take_size_def)
  moreover have "resolve_deployments w e [deployment_record n ''2024-07-04T12:30:15.123+00:00'']
                   = Inr (Some (e, success_report v None))"
    by (simp add: resolve_deployments_Cons assms(2,3) latest_output_def convert_july assms(4)
          success_report_def)
  ultimately show ?thesis by (simp add: process_deployment_eq(2))
qed

lemma space_world_fetches:
  "fetch_all_projects space_world = Inr (JArr demo_projects)"
  "fetch_all_project_groups space_world = Inr (JArr demo_groups)"
  "fetch_all_environments space_world = Inr (JArr demo_environments)"
  "fetch_project_details space_world (JStr ''Projects-1'')
     = Inr (JObj [(''PersistenceSettings'', JObj [(''Url'', JStr ''https://git.example.com/api.git'')])])"
  by code_simp+

lemma space_world_pages:
  "page_items (page_response space_world demo_project demo_environment 0)
     = Some [deployment_record ''3'' ''2024-07-04T12:30:15.123+00:00'']"
  "page_items (page_response space_world demo_project staging 0)
     = Some [deployment_record ''1'' ''2024-07-04T12:30:15.123+00:00'']"
  "page_response space_world (JStr ''Projects-2'') demo_environment 0 = Inr JNull"
  "page_response space_world (JStr ''Projects-2'') staging 0 = Inr JNull"
  by code_simp+

lemma space_world_records:
  "fetch_release space_world (deployment_record ''3'' ''2024-07-04T12:30:15.123+00:00'')
     = Inr (JObj [(''Version'', JStr ''1.3.0'')])"
  "fetch_task space_world (deployment_record ''3'' ''2024-07-04T12:30:15.123+00:00'')
     = Inr (JObj [(''State'', JStr ''Success'')])"
  "fetch_release space_world (deployment_record ''1'' ''2024-07-04T12:30:15.123+00:00'')
     = Inr (JObj [(''Version'', JStr ''1.1.0'')])"
  "fetch_task space_world (deployment_record ''1'' ''2024-07-04T12:30:15.123+00:00'')
     = Inr (JObj [(''State'', JStr ''Success'')])"
  by code_simp+

lemma space_world_offset: "los_angeles_utcoffset space_world 1720096215 = - 25200"
  by (simp add: space_world_def serve_utcoffset us_pacific_offsets)

lemma space_world_pairs:
  "process_deployment space_world demo_project demo_environment
     = Some (Some (demo_environment, success_report ''1.3.0'' None))"
  "process_deployment space_world demo_project staging
     = Some (Some (staging, success_report ''1.1.0'' None))"
  "process_deployment space_world (JStr ''Projects-2'') demo_environment = Some None"
  "process_deployment space_world (JStr ''Projects-2'') staging = Some None"
proof -
  show "process_deployment space_world demo_project demo_environment
     = Some (Some (demo_environment, success_report ''1.3.0'' None))"
    by (rule single_success_report [OF space_world_pages(1) space_world_records(1,2)
          space_world_offset])
  show "process_deployment space_world demo_project staging
     = Some (Some (staging, success_report ''1.1.0'' None))"
    by (rule single_success_report [OF space_world_pages(2) space_world_records(3,4)
          space_world_offset])
  show "process_deployment space_world (JStr ''Projects-2'') demo_environment = Some None"
    by (simp add: process_deployment_eq(2) [OF no_page [OF space_world_pages(3)]]
          resolve_deployments_Nil)
  show "process_deployment space_world (JStr ''Projects-2'') staging = Some None"
    by (simp add: process_deployment_eq(2) [OF no_page [OF space_world_pages(4)]]
          resolve_deployments_Nil)
qed

lemma demo_ids [simp]:
  "py_getitem production_env ''Id'' = Inr demo_environment"
  "py_getitem staging_env ''Id'' = Inr staging"
  "py_getitem production_env ''Name'' = Inr (JStr ''Production'')"
  "py_getitem staging_env ''Name'' = Inr (JStr ''Staging'')"
  "dict_key demo_environment = Inr demo_environment"
  "dict_key staging = Inr staging"
  "staging \<noteq> demo_environment"
  by (simp_all add: production_env_def staging_env_def demo_environment_def staging_def
        dict_key_def)

lemma space_world_env_data:
  "project_env_data space_world [Suc 0, 0] (JArr demo_environments) demo_project
     = Some (Inr [(staging, success_report ''1.1.0'' (Some (JStr ''Staging''))),
                  (demo_environment, success_report ''1.3.0'' (Some (JStr ''Production'')))])"
  by (simp add: project_env_data_def demo_environments_def space_world_pairs as_completed_def
        success_report_def)

lemma inject_other_requests:
  "c \<noteq> CHR ''d''
     \<Longrightarrow> make_api_request (inject_failure w (deployments_endpoint p e k) x) (c # rest)
           = make_api_request w (c # rest)"
  by (simp add: make_api_request_inject)

lemma inject_other_fetches:
  "fetch_project_details (inject_failure w (deployments_endpoint p e k) x) pid
     = fetch_project_details w pid"
  "fetch_all_projects (inject_failure w (deployments_endpoint p e k) x) = fetch_all_projects w"
  "fetch_all_project_groups (inject_failure w (deployments_endpoint p e k) x)
     = fetch_all_project_groups w"
  "fetch_all_environments (inject_failure w (deployments_endpoint p e k) x)
     = fetch_all_environments w"
  by (simp_all add: fetch_project_details_def
        fetch_all_projects_def fetch_all_project_groups_def fetch_all_environments_def
        inject_other_requests)

lemma inject_other_records:
  "fetch_release (inject_failure w (deployments_endpoint p e k) x) d = fetch_release w d"
  "fetch_task (inject_failure w (deployments_endpoint p e k) x) d = fetch_task w d"
  by (cases "py_getitem d ''ReleaseId''"; cases "py_getitem d ''TaskId''";
      simp add: fetch_release_def fetch_task_def inject_other_requests)+

lemma other_pages:
  "deployments_endpoint demo_project staging 0 \<noteq> deployments_endpoint demo_project demo_environment 0"
  "deployments_endpoint (JStr ''Projects-2'') demo_environment 0
     \<noteq> deployments_endpoint demo_project demo_environment 0"
  "deployments_endpoint (JStr ''Projects-2'') staging 0
     \<noteq> deployments_endpoint demo_project demo_environment 0"
  by code_simp+

lemma broken_world_pages:
  "page_response broken_world demo_project staging 0
     = page_response space_world demo_project staging 0"
  "page_response broken_world (JStr ''Projects-2'') demo_environment 0
     = page_response space_world (JStr ''Projects-2'') demo_environment 0"
  "page_response broken_world (JStr ''Projects-2'') staging 0
     = page_response space_world (JStr ''Projects-2'') staging 0"
  "page_response broken_world demo_project demo_environment 0 = Inl ConnectionError"
  using other_pages
  by (simp_all add: page_response_def broken_world_def make_api_request_inject)

lemma broken_world_raises:
  "process_deployment_body broken_world demo_project demo_environment
     = Some (Inl ConnectionError)"
  using fetch_loop_raises [of broken_world demo_project demo_environment 0 ConnectionError "[]" "[]"]
    broken_world_pages(4)
  by (simp add: process_deployment_body_def fetch_deployments_with_pagination_def
        page_response_def)

lemma broken_world_pairs:
  "process_deployment broken_world demo_project staging
     = process_deployment space_world demo_project staging"
  "process_deployment broken_world (JStr ''Projects-2'') demo_environment
     = process_deployment space_world (JStr ''Projects-2'') demo_environment"
  "process_deployment broken_world (JStr ''Projects-2'') staging
     = process_deployment space_world (JStr ''Projects-2'') staging"
proof -
  have off: "los_angeles_utcoffset broken_world 1720096215 = - 25200"
    by (simp add: broken_world_def space_world_offset)
  have "process_deployment broken_world demo_project staging
          = Some (Some (staging, success_report ''1.1.0'' None))"
    by (rule single_success_report [OF _ _ _ off])
       (simp_all add: broken_world_pages space_world_pages, 
        simp_all add: broken_world_def inject_other_records space_world_records)
  then show "process_deployment broken_world demo_project staging
     = process_deployment space_world demo_project staging"
    by (simp add: space_world_pairs)
  have "process_deployment broken_world (JStr ''Projects-2'') demo_environment = Some None"
    by (rule trans [OF process_deployment_eq(2) [OF no_page]])
       (simp_all add: broken_world_pages space_world_pages resolve_deployments_Nil)
  then show "process_deployment broken_world (JStr ''Projects-2'') demo_environment
     = process_deployment space_world (JStr ''Projects-2'') demo_environment"
    by (simp add: space_world_pairs)
  have "process_deployment broken_world (JStr ''Projects-2'') staging = Some None"
    by (rule trans [OF process_deployment_eq(2) [OF no_page]])
       (simp_all add: broken_world_pages space_world_pages resolve_deployments_Nil)
  then show "process_deployment broken_world (JStr ''Projects-2'') staging
     = process_deployment space_world (JStr ''Projects-2'') staging"
    by (simp add: space_world_pairs)
qed

lemma space_world_ids:
  "ids_of (fetch_all_projects space_world) = [demo_project, JStr ''Projects-2'']"
  "ids_of (fetch_all_environments space_world) = [demo_environment, staging]"
  by (simp_all add: ids_of_def space_world_fetches demo_projects_def demo_environments_def
        demo_project_def)

lemma space_world_grouping:
  "group_projects demo_projects [] =
     Inr [(JStr ''ProjectGroups-1'', [demo_projects ! 0]),
          (JStr ''ProjectGroups-9'', [demo_projects ! 1])]"
  by (simp add: demo_projects_def dict_key_def dict_get_def)

lemma space_world_project:
  "process_project space_world [Suc 0, 0] (JArr demo_environments) (demo_projects ! 0)
     = Some (Inr \<lparr>pd_id = JStr ''Projects-1'', pd_name = JStr ''Api'',
                pd_git_url = JStr ''https://git.example.com/api.git'',
                pd_environments = [success_report ''1.1.0'' (Some (JStr ''Staging'')),
                                   success_report ''1.3.0'' (Some (JStr ''Production''))]\<rparr>)"
proof -
  have env: "project_env_data space_world [Suc 0, 0] (JArr demo_environments) (JStr ''Projects-1'')
     = Some (Inr [(staging, success_report ''1.1.0'' (Some (JStr ''Staging''))),
                  (demo_environment, success_report ''1.3.0'' (Some (JStr ''Production'')))])"
    using space_world_env_data by (simp add: demo_project_def)
  show ?thesis
    by (simp add: process_project_def demo_projects_def space_world_fetches git_url_of_def env)
qed

lemma space_world_run:
  "fetch_all_deployment_data space_world demo_sched
     = Some (Inr (space_report [success_report ''1.1.0'' (Some (JStr ''Staging'')),
                               success_report ''1.3.0'' (Some (JStr ''Production''))]))"
  by (simp add: fetch_all_deployment_data_def space_world_fetches space_world_grouping
        demo_groups_def process_group_def dict_key_def dict_get_def demo_sched_def
        space_world_project space_report_def)

subsection \<open>The report by project group\<close>

text \<open>
  Claim C8. When \<open>fetch_all_deployment_data\<close> returns, its report has one entry per
  fetched project group, in the order of the fetched list, with the group's \<open>Id\<close> and
  \<open>Name\<close>; the projects of an entry are exactly the fetched projects whose
  \<open>ProjectGroupId\<close> is the group's \<open>Id\<close>, in the order of the fetched project list, each
  with its \<open>Id\<close> and \<open>Name\<close>. Every project entry of the report therefore comes from a
  project that belongs to a fetched group: a project whose group id matches no fetched
  group is in no entry.
\<close>

theorem report_groups_projects_by_group_id:
  assumes "fetch_all_deployment_data w sched = Some (Inr report)"
  shows "\<exists>all_projects groups.
           bind_exn (fetch_all_projects w) py_iter = Inr all_projects
           \<and> bind_exn (fetch_all_project_groups w) py_iter = Inr groups
           \<and> list_all2 (describes_group all_projects) report groups
           \<and> (\<forall>gd\<in>set report. \<forall>pd\<in>set (gd_projects gd).
                 \<exists>p\<in>set all_projects. \<exists>g\<in>set groups. describes_project pd p \<and> belongs_to g p)"
proof -
  from assms obtain projects project_groups environments by_group groups where
    parts: "fetch_all_projects w = Inr projects" "fetch_all_project_groups w = Inr project_groups"
      "bind_exn (py_iter projects) (\<lambda>ps. group_projects ps []) = Inr by_group"
      "py_iter project_groups = Inr groups"
      "process_groups w sched environments by_group 0 groups = Some (Inr report)"
    by (auto simp: fetch_all_deployment_data_def bind_run_eq_Some_Inr)
  from parts(3) obtain all_projects where
    ps: "py_iter projects = Inr all_projects" "group_projects all_projects [] = Inr by_group"
    by (cases "py_iter projects") (auto simp: bind_exn_def)
  have lookup: "dict_get by_group k
                  = filter (\<lambda>p. key_of p ''ProjectGroupId'' = Inr k) all_projects" for k
    using group_projects_lookup [OF ps(2), of k] by (simp add: dict_get_def)
  have groups: "list_all2 (describes_group all_projects) report groups"
    using process_groups_describe [OF parts(5) lookup] .
  have "\<exists>p\<in>set all_projects. \<exists>g\<in>set groups. describes_project pd p \<and> belongs_to g p"
    if "gd \<in> set report" "pd \<in> set (gd_projects gd)" for gd pd
  proof -
    from list_all2_memD [OF groups that(1)]
    obtain g where g: "g \<in> set groups" "describes_group all_projects gd g"
      by blast
    then have "list_all2 describes_project (gd_projects gd) (filter (belongs_to g) all_projects)"
      by (simp add: describes_group_def)
    from list_all2_memD [OF this that(2)]
    obtain p where "p \<in> set (filter (belongs_to g) all_projects)" "describes_project pd p"
      by blast
    with g show ?thesis by auto
  qed
  with parts ps groups show ?thesis
    by (auto simp: bind_exn_def)
qed

theorem report_groups_projects_by_group_id_witness:
  "fetch_all_deployment_data space_world demo_sched
     = Some (Inr (space_report [success_report ''1.1.0'' (Some (JStr ''Staging'')),
                               success_report ''1.3.0'' (Some (JStr ''Production''))]))
   \<and> list_all2 (describes_group demo_projects)
        (space_report [success_report ''1.1.0'' (Some (JStr ''Staging'')),
                       success_report ''1.3.0'' (Some (JStr ''Production''))])
        demo_groups
   \<and> filter (belongs_to (demo_groups ! 0)) demo_projects = [demo_projects ! 0]
   \<and> filter (belongs_to (demo_groups ! 1)) demo_projects = []"
proof -
  from report_groups_projects_by_group_id [OF space_world_run]
  obtain all_projects groups where
    "bind_exn (fetch_all_projects space_world) py_iter = Inr all_projects"
    "bind_exn (fetch_all_project_groups space_world) py_iter = Inr groups"
    "list_all2 (describes_group all_projects)
        (space_report [success_report ''1.1.0'' (Some (JStr ''Staging'')),
                       success_report ''1.3.0'' (Some (JStr ''Production''))])
        groups"
    by blast
  then have "list_all2 (describes_group demo_projects)
        (space_report [success_report ''1.1.0'' (Some (JStr ''Staging'')),
                       success_report ''1.3.0'' (Some (JStr ''Production''))])
        demo_groups"
    by (simp add: space_world_fetches)
  moreover have "filter (belongs_to (demo_groups ! 0)) demo_projects = [demo_projects ! 0]"
    "filter (belongs_to (demo_groups ! 1)) demo_projects = []"
    by (simp_all add: demo_groups_def demo_projects_def belongs_to_def key_of_def dict_key_def)
  ultimately show ?thesis using space_world_run by simp
qed

subsection \<open>Containment of a failure\<close>

text \<open>
  Claim C7. Take a run in world \<open>w\<close> and the same run in a world \<open>w'\<close> in which the
  resolution of one pair, project \<open>p0\<close> and environment \<open>e0\<close>, raises an exception,
  while the aggregator's own requests and the resolution of every other submitted pair are
  as in \<open>w\<close>; ids identify environments, that is, no other fetched environment id is the
  same dict key as \<open>e0\<close>. Then the exception is caught in \<open>process_deployment\<close>, which
  returns \<open>None\<close> for the pair; the dict \<open>env_data\<close> of every project is that of the run
  in \<open>w\<close> less the entry of the failed pair; and whenever the run in \<open>w\<close> returns a
  report the run in \<open>w'\<close> returns one too, with the same groups and projects in the same
  order, in which the entries of every project are the values of the \<open>env_data\<close> that the
  run in \<open>w\<close> built for it, in the same order, all of them but the failed pair's.
\<close>

theorem partial_failure_containment:
  assumes same_projects: "fetch_all_projects w' = fetch_all_projects w"
    and same_groups: "fetch_all_project_groups w' = fetch_all_project_groups w"
    and same_environments: "fetch_all_environments w' = fetch_all_environments w"
    and same_details: "\<forall>pid. fetch_project_details w' pid = fetch_project_details w pid"
    and others: "\<forall>pid\<in>set (ids_of (fetch_all_projects w)).
                 \<forall>eid\<in>set (ids_of (fetch_all_environments w)).
                   (pid, eid) \<noteq> (p0, e0)
                   \<longrightarrow> process_deployment w' pid eid = process_deployment w pid eid"
    and keys: "\<forall>eid\<in>set (ids_of (fetch_all_environments w)).
                 eid \<noteq> e0 \<and> \<not> isl (dict_key e0) \<longrightarrow> dict_key eid \<noteq> dict_key e0"
    and raises: "process_deployment_body w' p0 e0 = Some (Inl x)"
  shows "process_deployment w' p0 e0 = Some None
         \<and> (fetch_all_environments w = Inr environments
              \<and> pid \<in> set (ids_of (fetch_all_projects w))
              \<and> project_env_data w order environments pid = Some (Inr d)
            \<longrightarrow> project_env_data w' order environments pid
                  = Some (Inr (filter (\<lambda>kv. \<not> (pid = p0 \<and> dict_key e0 = Inr (fst kv))) d)))
         \<and> (fetch_all_deployment_data w sched = Some (Inr report)
            \<longrightarrow> (\<exists>report' fetched.
                    fetch_all_environments w = Inr fetched
                    \<and> fetch_all_deployment_data w' sched = Some (Inr report')
                    \<and> same_report_except w sched fetched p0 e0 report report'))"
proof -
  from raises have caught: "process_deployment w' p0 e0 = Some None"
    by (simp add: process_deployment_def)
  have dict: "project_env_data w' order environments pid
                  = Some (Inr (filter (\<lambda>kv. \<not> (pid = p0 \<and> dict_key e0 = Inr (fst kv))) d))"
    if a: "fetch_all_environments w = Inr environments
              \<and> pid \<in> set (ids_of (fetch_all_projects w))
              \<and> project_env_data w order environments pid = Some (Inr d)"
  proof -
    from a obtain envs where envs: "py_iter environments = Inr envs"
      by (cases "py_iter environments") (auto simp: project_env_data_def)
    have oth: "\<forall>env\<in>set envs. \<forall>eid. py_getitem env ''Id'' = Inr eid
                     \<and> (pid, eid) \<noteq> (p0, e0)
                     \<longrightarrow> process_deployment w' pid eid = process_deployment w pid eid"
      using others a ids_of_member [of "fetch_all_environments w" environments envs] envs
      by blast
    have ks: "\<forall>env\<in>set envs. \<forall>eid. py_getitem env ''Id'' = Inr eid
                     \<and> eid \<noteq> e0 \<and> \<not> isl (dict_key e0) \<longrightarrow> dict_key eid \<noteq> dict_key e0"
      using keys a ids_of_member [of "fetch_all_environments w" environments envs] envs
      by blast
    from project_env_data_except [OF oth ks caught envs] a show ?thesis by blast
  qed
  have run: "\<exists>report' fetched.
                    fetch_all_environments w = Inr fetched
                    \<and> fetch_all_deployment_data w' sched = Some (Inr report')
                    \<and> same_report_except w sched fetched p0 e0 report report'"
    if a: "fetch_all_deployment_data w sched = Some (Inr report)"
  proof -
    from a obtain projects project_groups environments by_group groups where
      parts: "fetch_all_projects w = Inr projects"
        "fetch_all_project_groups w = Inr project_groups"
        "fetch_all_environments w = Inr environments"
        "bind_exn (py_iter projects) (\<lambda>ps. group_projects ps []) = Inr by_group"
        "py_iter project_groups = Inr groups"
        "process_groups w sched environments by_group 0 groups = Some (Inr report)"
      by (auto simp: fetch_all_deployment_data_def bind_run_eq_Some_Inr)
    from parts(4) obtain all_projects where
      ps: "py_iter projects = Inr all_projects" "group_projects all_projects [] = Inr by_group"
      by (cases "py_iter projects") auto
    have lookup: "set (dict_get by_group k) \<subseteq> set all_projects" for k
      using group_projects_lookup [OF ps(2), of k] by (auto simp: dict_get_def)
    from parts(3) parts(6) obtain envs where envs: "py_iter environments = Inr envs"
    proof (cases "py_iter environments")
      case (Inl e)
      from fetch_all_environments_def [of w] parts(3) have "\<not> isl (py_iter environments)"
        by (cases "make_api_request w ''environments/all''";
            auto simp: bind_exn_def split: if_splits sum.splits;
            cases environments; auto)
      with Inl show ?thesis by simp
    next
      case (Inr envs)
      with that show ?thesis by blast
    qed
    have oth: "\<forall>project\<in>set all_projects. \<forall>pid. py_getitem project ''Id'' = Inr pid \<longrightarrow>
                   (\<forall>env\<in>set envs. \<forall>eid. py_getitem env ''Id'' = Inr eid
                     \<and> (pid, eid) \<noteq> (p0, e0)
                     \<longrightarrow> process_deployment w' pid eid = process_deployment w pid eid)"
      using others ids_of_member [OF parts(1) ps(1)] ids_of_member [OF parts(3) envs]
      by blast
    have ks: "\<forall>env\<in>set envs. \<forall>eid. py_getitem env ''Id'' = Inr eid
                     \<and> eid \<noteq> e0 \<and> \<not> isl (dict_key e0) \<longrightarrow> dict_key eid \<noteq> dict_key e0"
      using keys ids_of_member [OF parts(3) envs] by blast
    from process_groups_except [OF same_details oth ks caught envs lookup parts(6)]
    obtain report' where
      r': "process_groups w' sched environments by_group 0 groups = Some (Inr report')"
        "same_report_except w sched environments p0 e0 report report'"
      unfolding same_report_except_def by blast
    from parts ps r'(1) same_projects same_groups same_environments
    have "fetch_all_deployment_data w' sched = Some (Inr report')"
      by (simp add: fetch_all_deployment_data_def)
    with r'(2) parts(3) show ?thesis by blast
  qed
  from caught dict run show ?thesis by blast
qed

theorem partial_failure_containment_witness:
  "process_deployment_body broken_world demo_project demo_environment = Some (Inl ConnectionError)
   \<and> process_deployment broken_world demo_project demo_environment = Some None
   \<and> project_env_data space_world [Suc 0, 0] (JArr demo_environments) demo_project
       = Some (Inr [(staging, success_report ''1.1.0'' (Some (JStr ''Staging''))),
                    (demo_environment, success_report ''1.3.0'' (Some (JStr ''Production'')))])
   \<and> project_env_data broken_world [Suc 0, 0] (JArr demo_environments) demo_project
       = Some (Inr [(staging, success_report ''1.1.0'' (Some (JStr ''Staging'')))])
   \<and> fetch_all_deployment_data space_world demo_sched
       = Some (Inr (space_report [success_report ''1.1.0'' (Some (JStr ''Staging'')),
                                 success_report ''1.3.0'' (Some (JStr ''Production''))]))
   \<and> fetch_all_deployment_data broken_world demo_sched
       = Some (Inr (space_report [success_report ''1.1.0'' (Some (JStr ''Staging''))]))
   \<and> same_report_except space_world demo_sched (JArr demo_environments)
       demo_project demo_environment
       (space_report [success_report ''1.1.0'' (Some (JStr ''Staging'')),
                      success_report ''1.3.0'' (Some (JStr ''Production''))])
       (space_report [success_report ''1.1.0'' (Some (JStr ''Staging''))])"
proof -
  let ?d = "[(staging, success_report ''1.1.0'' (Some (JStr ''Staging''))),
             (demo_environment, success_report ''1.3.0'' (Some (JStr ''Production'')))]"
  have e0: "demo_environment = JStr ''Environments-1''" by (simp add: demo_environment_def)
  have same: "fetch_all_projects broken_world = fetch_all_projects space_world"
    "fetch_all_project_groups broken_world = fetch_all_project_groups space_world"
    "fetch_all_environments broken_world = fetch_all_environments space_world"
    "\<forall>pid. fetch_project_details broken_world pid = fetch_project_details space_world pid"
    by (simp_all add: broken_world_def inject_other_fetches)
  have others: "\<forall>pid\<in>set (ids_of (fetch_all_projects space_world)).
                 \<forall>eid\<in>set (ids_of (fetch_all_environments space_world)).
                   (pid, eid) \<noteq> (demo_project, demo_environment)
                   \<longrightarrow> process_deployment broken_world pid eid
                        = process_deployment space_world pid eid"
    by (simp add: space_world_ids broken_world_pairs)
  have keys: "\<forall>eid\<in>set (ids_of (fetch_all_environments space_world)).
                 eid \<noteq> demo_environment \<and> \<not> isl (dict_key demo_environment)
                 \<longrightarrow> dict_key eid \<noteq> dict_key demo_environment"
    by (simp add: space_world_ids e0 staging_def dict_key_def)
  note contained = partial_failure_containment
               [OF same others keys broken_world_raises,
                 of "JArr demo_environments" demo_project "[Suc 0, 0]" ?d demo_sched
                    "space_report [success_report ''1.1.0'' (Some (JStr ''Staging'')),
                                  success_report ''1.3.0'' (Some (JStr ''Production''))]"]
  from contained have caught: "process_deployment broken_world demo_project demo_environment = Some None"
    by simp
  have member: "demo_project \<in> set (ids_of (fetch_all_projects space_world))"
    by (simp add: space_world_ids)
  from contained space_world_fetches(3) member space_world_env_data
  have "project_env_data broken_world [Suc 0, 0] (JArr demo_environments) demo_project
          = Some (Inr (filter (\<lambda>kv. \<not> (demo_project = demo_project
                                         \<and> dict_key demo_environment = Inr (fst kv))) ?d))"
    by blast
  then have env: "project_env_data broken_world [Suc 0, 0] (JArr demo_environments) demo_project
       = Some (Inr [(staging, success_report ''1.1.0'' (Some (JStr ''Staging'')))])"
    by (simp add: e0 staging_def dict_key_def)
  have details: "fetch_project_details broken_world (JStr ''Projects-1'')
     = Inr (JObj [(''PersistenceSettings'', JObj [(''Url'', JStr ''https://git.example.com/api.git'')])])"
    using same(4) space_world_fetches(4) by simp
  have project: "process_project broken_world [Suc 0, 0] (JArr demo_environments) (demo_projects ! 0)
     = Some (Inr \<lparr>pd_id = JStr ''Projects-1'', pd_name = JStr ''Api'',
                pd_git_url = JStr ''https://git.example.com/api.git'',
                pd_environments = [success_report ''1.1.0'' (Some (JStr ''Staging''))]\<rparr>)"
    using env
    by (simp add: process_project_def demo_projects_def details git_url_of_def demo_project_def)
  have run: "fetch_all_deployment_data broken_world demo_sched
       = Some (Inr (space_report [success_report ''1.1.0'' (Some (JStr ''Staging''))]))"
    by (simp add: fetch_all_deployment_data_def same space_world_fetches space_world_grouping
          demo_groups_def process_group_def dict_key_def dict_get_def demo_sched_def
          project space_report_def)
  from contained space_world_run obtain report' fetched where
    rel: "fetch_all_environments space_world = Inr fetched"
      "fetch_all_deployment_data broken_world demo_sched = Some (Inr report')"
      "same_report_except space_world demo_sched fetched demo_project demo_environment
         (space_report [success_report ''1.1.0'' (Some (JStr ''Staging'')),
                        success_report ''1.3.0'' (Some (JStr ''Production''))]) report'"
    by blast
  from rel(1) space_world_fetches(3) have "fetched = JArr demo_environments" by simp
  moreover from rel(2) run
  have "report' = space_report [success_report ''1.1.0'' (Some (JStr ''Staging''))]" by simp
  ultimately have related: "same_report_except space_world demo_sched (JArr demo_environments)
       demo_project demo_environment
       (space_report [success_report ''1.1.0'' (Some (JStr ''Staging'')),
                      success_report ''1.3.0'' (Some (JStr ''Production''))])
       (space_report [success_report ''1.1.0'' (Some (JStr ''Staging''))])"
    using rel(3) by simp
  from broken_world_raises caught space_world_env_data env space_world_run run related
  show ?thesis by simp
qed

end
